theory Spec2Isabelle
  imports Main "HOL-Library.Sublist"
begin

section \<open>Shell variables of the two deployment scripts\<close>

text \<open>
  \<^verbatim>\<open>deployment.sh\<close> (kind cluster, Istio demo profile, sidecar injection enabled) and
  \<^verbatim>\<open>miniIstio.sh\<close> (minikube, Istio addon, sidecar injection removed) start with the
  same variable block. The variables are never reassigned, so they are constants here.
\<close>

definition BACKEND_IMAGE :: string where
  "BACKEND_IMAGE = ''krishangunjyal/ecommerce-backend:latest''"

definition FRONTEND_IMAGE :: string where
  "FRONTEND_IMAGE = ''krishangunjyal/ecommerce-frontend:latest''"

definition NAMESPACE :: string where
  "NAMESPACE = ''helix''"

definition KUBECTL_BIN :: string where
  "KUBECTL_BIN = ''kubectl''"

definition KIND_BIN :: string where
  "KIND_BIN = ''kind''"

section \<open>Manifests\<close>

text \<open>
  The here-documents piped into \<^verbatim>\<open>kubectl apply -f -\<close> are YAML streams. A document is
  kept as the tree the YAML text denotes: scalars, sequences and mappings (in the order
  of the text), with \<^verbatim>\<open>$NAMESPACE\<close>, \<^verbatim>\<open>$BACKEND_IMAGE\<close> and \<^verbatim>\<open>$FRONTEND_IMAGE\<close>
  expanded as the shell expands them inside an unquoted here-document.
\<close>

datatype yaml = Str string | Num nat | Seq "yaml list" | Map "(string \<times> yaml) list"

fun yfield :: "string \<Rightarrow> yaml \<Rightarrow> yaml option" where
  "yfield k (Map kvs) = map_of kvs k"
| "yfield k (Str s) = None"
| "yfield k (Num n) = None"
| "yfield k (Seq ys) = None"

fun ypath :: "string list \<Rightarrow> yaml \<Rightarrow> yaml option" where
  "ypath [] y = Some y"
| "ypath (k # ks) y = (case yfield k y of None \<Rightarrow> None | Some y' \<Rightarrow> ypath ks y')"

fun ystr :: "yaml option \<Rightarrow> string option" where
  "ystr (Some (Str s)) = Some s"
| "ystr (Some (Num n)) = None"
| "ystr (Some (Seq ys)) = None"
| "ystr (Some (Map kvs)) = None"
| "ystr None = None"

fun ynum :: "yaml option \<Rightarrow> nat option" where
  "ynum (Some (Num n)) = Some n"
| "ynum (Some (Str s)) = None"
| "ynum (Some (Seq ys)) = None"
| "ynum (Some (Map kvs)) = None"
| "ynum None = None"

fun yseq :: "yaml option \<Rightarrow> yaml list" where
  "yseq (Some (Seq ys)) = ys"
| "yseq (Some (Str s)) = []"
| "yseq (Some (Num n)) = []"
| "yseq (Some (Map kvs)) = []"
| "yseq None = []"

text \<open>The identity of a cluster object: kind, namespace and name.\<close>

type_synonym obj_id = "string \<times> string \<times> string"

definition ident :: "yaml \<Rightarrow> obj_id option" where
  "ident d =
     (case (ystr (ypath [''kind''] d), ystr (ypath [''metadata'', ''namespace''] d),
            ystr (ypath [''metadata'', ''name''] d)) of
        (Some k, Some ns, Some n) \<Rightarrow> Some (k, ns, n)
      | _ \<Rightarrow> None)"


subsection \<open>deployment.sh, first here-document (lines 74-119): the datastore\<close>

definition deployment_mongo_service :: yaml where
  "deployment_mongo_service = Map [
     (''apiVersion'', Str ''v1''),
     (''kind'', Str ''Service''),
     (''metadata'', Map [(''name'', Str ''mongo''), (''namespace'', Str NAMESPACE)]),
     (''spec'', Map [
        (''ports'', Seq [Map [(''port'', Num 27017), (''targetPort'', Num 27017)]]),
        (''selector'', Map [(''app'', Str ''mongo'')])])]"

definition deployment_mongo_statefulset :: yaml where
  "deployment_mongo_statefulset = Map [
     (''apiVersion'', Str ''apps/v1''),
     (''kind'', Str ''StatefulSet''),
     (''metadata'', Map [(''name'', Str ''mongo''), (''namespace'', Str NAMESPACE)]),
     (''spec'', Map [
        (''serviceName'', Str ''mongo''),
        (''replicas'', Num 1),
        (''selector'', Map [(''matchLabels'', Map [(''app'', Str ''mongo'')])]),
        (''template'', Map [
           (''metadata'', Map [(''labels'', Map [(''app'', Str ''mongo'')])]),
           (''spec'', Map [
              (''containers'', Seq [Map [
                 (''name'', Str ''mongo''),
                 (''image'', Str ''mongo:6.0''),
                 (''ports'', Seq [Map [(''containerPort'', Num 27017)]]),
                 (''volumeMounts'', Seq [Map [
                    (''name'', Str ''mongo-persistent-storage''),
                    (''mountPath'', Str ''/data/db'')]])]])])]),
        (''volumeClaimTemplates'', Seq [Map [
           (''metadata'', Map [(''name'', Str ''mongo-persistent-storage'')]),
           (''spec'', Map [
              (''accessModes'', Seq [Str ''ReadWriteOnce'']),
              (''resources'', Map [(''requests'', Map [(''storage'', Str ''1Gi'')])])])]])])]"

definition deployment_mongo_docs :: "yaml list" where
  "deployment_mongo_docs = [deployment_mongo_service, deployment_mongo_statefulset]"

subsection \<open>deployment.sh, second here-document (lines 122-234): apps and routing\<close>

definition deployment_backend_deployment :: yaml where
  "deployment_backend_deployment = Map [
     (''apiVersion'', Str ''apps/v1''),
     (''kind'', Str ''Deployment''),
     (''metadata'', Map [(''name'', Str ''ecommerce-backend''), (''namespace'', Str NAMESPACE)]),
     (''spec'', Map [
        (''replicas'', Num 1),
        (''selector'', Map [(''matchLabels'', Map [(''app'', Str ''ecommerce-backend'')])]),
        (''template'', Map [
           (''metadata'', Map [(''labels'', Map [(''app'', Str ''ecommerce-backend'')])]),
           (''spec'', Map [
              (''containers'', Seq [Map [
                 (''name'', Str ''ecommerce-backend''),
                 (''image'', Str BACKEND_IMAGE),
                 (''ports'', Seq [Map [(''containerPort'', Num 5000)]]),
                 (''env'', Seq [Map [
                    (''name'', Str ''MONGO_URI''),
                    (''value'', Str (''mongodb://mongo.'' @ NAMESPACE
                                      @ ''.svc.cluster.local:27017/ecommerceDB''))]])]])])])])]"

definition deployment_backend_service :: yaml where
  "deployment_backend_service = Map [
     (''apiVersion'', Str ''v1''),
     (''kind'', Str ''Service''),
     (''metadata'', Map [(''name'', Str ''ecommerce-backend''), (''namespace'', Str NAMESPACE)]),
     (''spec'', Map [
        (''selector'', Map [(''app'', Str ''ecommerce-backend'')]),
        (''ports'', Seq [Map [
           (''protocol'', Str ''TCP''), (''port'', Num 80), (''targetPort'', Num 5000)]])])]"

definition deployment_frontend_deployment :: yaml where
  "deployment_frontend_deployment = Map [
     (''apiVersion'', Str ''apps/v1''),
     (''kind'', Str ''Deployment''),
     (''metadata'', Map [(''name'', Str ''ecommerce-frontend''), (''namespace'', Str NAMESPACE)]),
     (''spec'', Map [
        (''replicas'', Num 1),
        (''selector'', Map [(''matchLabels'', Map [(''app'', Str ''ecommerce-frontend'')])]),
        (''template'', Map [
           (''metadata'', Map [(''labels'', Map [(''app'', Str ''ecommerce-frontend'')])]),
           (''spec'', Map [
              (''containers'', Seq [Map [
                 (''name'', Str ''ecommerce-frontend''),
                 (''image'', Str FRONTEND_IMAGE),
                 (''ports'', Seq [Map [(''containerPort'', Num 80)]])]])])])])]"

definition deployment_frontend_service :: yaml where
  "deployment_frontend_service = Map [
     (''apiVersion'', Str ''v1''),
     (''kind'', Str ''Service''),
     (''metadata'', Map [(''name'', Str ''ecommerce-frontend''), (''namespace'', Str NAMESPACE)]),
     (''spec'', Map [
        (''selector'', Map [(''app'', Str ''ecommerce-frontend'')]),
        (''ports'', Seq [Map [
           (''protocol'', Str ''TCP''), (''port'', Num 80), (''targetPort'', Num 80)]])])]"

definition deployment_gateway :: yaml where
  "deployment_gateway = Map [
     (''apiVersion'', Str ''networking.istio.io/v1beta1''),
     (''kind'', Str ''Gateway''),
     (''metadata'', Map [(''name'', Str ''ecommerce-gateway''), (''namespace'', Str NAMESPACE)]),
     (''spec'', Map [
        (''selector'', Map [(''istio'', Str ''ingressgateway'')]),
        (''servers'', Seq [Map [
           (''port'', Map [
              (''number'', Num 80), (''name'', Str ''http''), (''protocol'', Str ''HTTP'')]),
           (''hosts'', Seq [Str ''*''])]])])]"

definition deployment_virtualservice :: yaml where
  "deployment_virtualservice = Map [
     (''apiVersion'', Str ''networking.istio.io/v1beta1''),
     (''kind'', Str ''VirtualService''),
     (''metadata'', Map [
        (''name'', Str ''ecommerce-virtualservice''), (''namespace'', Str NAMESPACE)]),
     (''spec'', Map [
        (''hosts'', Seq [Str ''*'']),
        (''gateways'', Seq [Str ''ecommerce-gateway'']),
        (''http'', Seq [
           Map [
             (''match'', Seq [Map [(''uri'', Map [(''prefix'', Str ''/api'')])]]),
             (''route'', Seq [Map [(''destination'', Map [
                (''host'', Str (''ecommerce-backend.'' @ NAMESPACE @ ''.svc.cluster.local'')),
                (''port'', Map [(''number'', Num 80)])])]])],
           Map [
             (''route'', Seq [Map [(''destination'', Map [
                (''host'', Str (''ecommerce-frontend.'' @ NAMESPACE @ ''.svc.cluster.local'')),
                (''port'', Map [(''number'', Num 80)])])]])]])])]"

definition deployment_app_docs :: "yaml list" where
  "deployment_app_docs =
     [deployment_backend_deployment, deployment_backend_service,
      deployment_frontend_deployment, deployment_frontend_service,
      deployment_gateway, deployment_virtualservice]"

subsection \<open>miniIstio.sh, first here-document (lines 51-103): the datastore\<close>

definition miniIstio_mongo_service :: yaml where
  "miniIstio_mongo_service = Map [
     (''apiVersion'', Str ''v1''),
     (''kind'', Str ''Service''),
     (''metadata'', Map [(''name'', Str ''mongo''), (''namespace'', Str NAMESPACE)]),
     (''spec'', Map [
        (''ports'', Seq [Map [(''port'', Num 27017), (''targetPort'', Num 27017)]]),
        (''selector'', Map [(''app'', Str ''mongo'')])])]"

definition miniIstio_mongo_statefulset :: yaml where
  "miniIstio_mongo_statefulset = Map [
     (''apiVersion'', Str ''apps/v1''),
     (''kind'', Str ''StatefulSet''),
     (''metadata'', Map [(''name'', Str ''mongo''), (''namespace'', Str NAMESPACE)]),
     (''spec'', Map [
        (''serviceName'', Str ''mongo''),
        (''replicas'', Num 1),
        (''selector'', Map [(''matchLabels'', Map [(''app'', Str ''mongo'')])]),
        (''template'', Map [
           (''metadata'', Map [(''labels'', Map [(''app'', Str ''mongo'')])]),
           (''spec'', Map [
              (''containers'', Seq [Map [
                 (''name'', Str ''mongo''),
                 (''image'', Str ''mongo:6.0''),
                 (''ports'', Seq [Map [(''containerPort'', Num 27017)]]),
                 (''resources'', Map [
                    (''requests'', Map [(''cpu'', Str ''50m''), (''memory'', Str ''128Mi'')]),
                    (''limits'', Map [(''cpu'', Str ''100m''), (''memory'', Str ''256Mi'')])]),
                 (''volumeMounts'', Seq [Map [
                    (''name'', Str ''mongo-persistent-storage''),
                    (''mountPath'', Str ''/data/db'')]])]])])]),
        (''volumeClaimTemplates'', Seq [Map [
           (''metadata'', Map [(''name'', Str ''mongo-persistent-storage'')]),
           (''spec'', Map [
              (''accessModes'', Seq [Str ''ReadWriteOnce'']),
              (''resources'', Map [(''requests'', Map [(''storage'', Str ''1Gi'')])])])]])])]"

definition miniIstio_mongo_docs :: "yaml list" where
  "miniIstio_mongo_docs = [miniIstio_mongo_service, miniIstio_mongo_statefulset]"

subsection \<open>miniIstio.sh, second here-document (lines 107-192): backend and frontend\<close>

definition miniIstio_backend_deployment :: yaml where
  "miniIstio_backend_deployment = Map [
     (''apiVersion'', Str ''apps/v1''),
     (''kind'', Str ''Deployment''),
     (''metadata'', Map [(''name'', Str ''ecommerce-backend''), (''namespace'', Str NAMESPACE)]),
     (''spec'', Map [
        (''replicas'', Num 1),
        (''selector'', Map [(''matchLabels'', Map [(''app'', Str ''ecommerce-backend'')])]),
        (''template'', Map [
           (''metadata'', Map [(''labels'', Map [(''app'', Str ''ecommerce-backend'')])]),
           (''spec'', Map [
              (''containers'', Seq [Map [
                 (''name'', Str ''ecommerce-backend''),
                 (''image'', Str BACKEND_IMAGE),
                 (''ports'', Seq [Map [(''containerPort'', Num 5000)]]),
                 (''env'', Seq [Map [
                    (''name'', Str ''MONGO_URI''),
                    (''value'', Str (''mongodb://mongo.'' @ NAMESPACE
                                      @ ''.svc.cluster.local:27017/ecommerceDB''))]]),
                 (''resources'', Map [
                    (''requests'', Map [(''cpu'', Str ''10m''), (''memory'', Str ''64Mi'')]),
                    (''limits'', Map [(''cpu'', Str ''50m''), (''memory'', Str ''128Mi'')])])]])])])])]"

definition miniIstio_backend_service :: yaml where
  "miniIstio_backend_service = Map [
     (''apiVersion'', Str ''v1''),
     (''kind'', Str ''Service''),
     (''metadata'', Map [(''name'', Str ''ecommerce-backend''), (''namespace'', Str NAMESPACE)]),
     (''spec'', Map [
        (''selector'', Map [(''app'', Str ''ecommerce-backend'')]),
        (''ports'', Seq [Map [
           (''protocol'', Str ''TCP''), (''port'', Num 80), (''targetPort'', Num 5000)]])])]"

definition miniIstio_frontend_deployment :: yaml where
  "miniIstio_frontend_deployment = Map [
     (''apiVersion'', Str ''apps/v1''),
     (''kind'', Str ''Deployment''),
     (''metadata'', Map [(''name'', Str ''ecommerce-frontend''), (''namespace'', Str NAMESPACE)]),
     (''spec'', Map [
        (''replicas'', Num 1),
        (''selector'', Map [(''matchLabels'', Map [(''app'', Str ''ecommerce-frontend'')])]),
        (''template'', Map [
           (''metadata'', Map [(''labels'', Map [(''app'', Str ''ecommerce-frontend'')])]),
           (''spec'', Map [
              (''containers'', Seq [Map [
                 (''name'', Str ''ecommerce-frontend''),
                 (''image'', Str FRONTEND_IMAGE),
                 (''ports'', Seq [Map [(''containerPort'', Num 80)]]),
                 (''resources'', Map [
                    (''requests'', Map [(''cpu'', Str ''10m''), (''memory'', Str ''64Mi'')]),
                    (''limits'', Map [(''cpu'', Str ''50m''), (''memory'', Str ''128Mi'')])])]])])])])]"

definition miniIstio_frontend_service :: yaml where
  "miniIstio_frontend_service = Map [
     (''apiVersion'', Str ''v1''),
     (''kind'', Str ''Service''),
     (''metadata'', Map [(''name'', Str ''ecommerce-frontend''), (''namespace'', Str NAMESPACE)]),
     (''spec'', Map [
        (''selector'', Map [(''app'', Str ''ecommerce-frontend'')]),
        (''ports'', Seq [Map [
           (''protocol'', Str ''TCP''), (''port'', Num 80), (''targetPort'', Num 80)]])])]"

definition miniIstio_app_docs :: "yaml list" where
  "miniIstio_app_docs =
     [miniIstio_backend_deployment, miniIstio_backend_service,
      miniIstio_frontend_deployment, miniIstio_frontend_service]"

subsection \<open>miniIstio.sh, third here-document (lines 196-237): gateway and routes\<close>

definition miniIstio_gateway :: yaml where
  "miniIstio_gateway = Map [
     (''apiVersion'', Str ''networking.istio.io/v1beta1''),
     (''kind'', Str ''Gateway''),
     (''metadata'', Map [(''name'', Str ''ecommerce-gateway''), (''namespace'', Str NAMESPACE)]),
     (''spec'', Map [
        (''selector'', Map [(''istio'', Str ''ingressgateway'')]),
        (''servers'', Seq [Map [
           (''port'', Map [
              (''number'', Num 80), (''name'', Str ''http''), (''protocol'', Str ''HTTP'')]),
           (''hosts'', Seq [Str ''*''])]])])]"

definition miniIstio_virtualservice :: yaml where
  "miniIstio_virtualservice = Map [
     (''apiVersion'', Str ''networking.istio.io/v1beta1''),
     (''kind'', Str ''VirtualService''),
     (''metadata'', Map [
        (''name'', Str ''ecommerce-virtualservice''), (''namespace'', Str NAMESPACE)]),
     (''spec'', Map [
        (''hosts'', Seq [Str ''*'']),
        (''gateways'', Seq [Str ''ecommerce-gateway'']),
        (''http'', Seq [
           Map [
             (''match'', Seq [Map [(''uri'', Map [(''prefix'', Str ''/api'')])]]),
             (''route'', Seq [Map [(''destination'', Map [
                (''host'', Str (''ecommerce-backend.'' @ NAMESPACE @ ''.svc.cluster.local'')),
                (''port'', Map [(''number'', Num 80)])])]])],
           Map [
             (''route'', Seq [Map [(''destination'', Map [
                (''host'', Str (''ecommerce-frontend.'' @ NAMESPACE @ ''.svc.cluster.local'')),
                (''port'', Map [(''number'', Num 80)])])]])]])])]"

definition miniIstio_route_docs :: "yaml list" where
  "miniIstio_route_docs = [miniIstio_gateway, miniIstio_virtualservice]"

section \<open>Host, clusters and commands\<close>

text \<open>
  Every external command line of the two scripts is a constructor of \<open>cmd\<close>; its
  arguments are the ones the script passes.
\<close>

datatype cmd =
    CurlKubectl
  | InstallKubectl
  | CurlKind
  | ChmodKind
  | MvKind
  | KindCreateCluster string
  | KubectlCreateNamespace string
  | DownloadIstio
  | CdIstio
  | ExportIstioPath
  | CdRoot
  | IstioctlInstall string
  | KubectlPatchIngress string
  | KubectlLabel string string "string option" bool
  | KubectlApply "yaml list"
  | KubectlGetNodeIP
  | KubectlGetNodePort
  | CurlMinikube
  | InstallMinikube
  | MinikubeStart nat nat string
  | MinikubeAddonsEnable string
  | KubectlWait string nat
  | MinikubeIp

text \<open>
  A persistent volume claim of a StatefulSet is identified by the namespace, the claim
  template's name, the set's name and the replica's ordinal.
\<close>

type_synonym claim_id = "string \<times> string \<times> string \<times> nat"

text \<open>
  A cluster: whether its API server answers, the mesh installed in it, how the mesh's
  ingress service is exposed, its namespaces with their labels, its objects by identity
  and the volume claims provisioned in it.
\<close>

record cluster =
  alive :: bool
  mesh :: "string option"
  ingress_type :: string
  namespaces :: "string \<rightharpoonup> (string \<rightharpoonup> string)"
  objects :: "obj_id \<rightharpoonup> yaml"
  claims :: "claim_id set"

text \<open>A cluster as kind or minikube creates it: only the system namespaces exist.\<close>

definition new_cluster :: cluster where
  "new_cluster =
     \<lparr>alive = True, mesh = None, ingress_type = ''LoadBalancer'',
      namespaces = [''default'' \<mapsto> Map.empty, ''kube-system'' \<mapsto> Map.empty,
                    ''kube-public'' \<mapsto> Map.empty, ''kube-node-lease'' \<mapsto> Map.empty],
      objects = Map.empty, claims = {}\<rparr>"

text \<open>
  The state a script runs in. The first block is the host: the executables on the PATH
  of every shell, those on directories the running shell has added to its PATH, the
  clusters by the name of their kubeconfig context, and the current context, which
  kubectl and istioctl talk to. The second block is what the environment decides: which
  commands exit non-zero for reasons of their own (a network failure, a missing
  permission), which documents the API server rejects, after how many seconds the pods
  carrying a label become Ready (\<open>None\<close> for never), and what the address queries
  print. The last block is the running shell: its variables, the external commands it
  has started, in order, those of them that exited non-zero, the objects it has applied,
  in order, and the lines printed.
\<close>

record world =
  path_bins :: "string set"
  session_bins :: "string set"
  clusters :: "string \<rightharpoonup> cluster"
  kube_context :: "string option"
  faults :: "cmd \<Rightarrow> bool"
  rejects :: "yaml \<Rightarrow> bool"
  ready_after :: "string \<Rightarrow> nat option"
  node_ip :: string
  node_port :: string
  minikube_ip :: string
  vars :: "string \<rightharpoonup> string"
  trace :: "cmd list"
  failed :: "cmd list"
  applied :: "obj_id list"
  stdout :: "string list"

text \<open>The cluster of the current context, and a change to it.\<close>

definition cur :: "world \<Rightarrow> cluster option" where
  "cur w = (case kube_context w of None \<Rightarrow> None | Some n \<Rightarrow> clusters w n)"

definition on_cur :: "(cluster \<Rightarrow> cluster) \<Rightarrow> world \<Rightarrow> world" where
  "on_cur f w =
     (case kube_context w of
        None \<Rightarrow> w
      | Some n \<Rightarrow>
          (case clusters w n of
             None \<Rightarrow> w
           | Some c \<Rightarrow> w\<lparr>clusters := (clusters w)(n \<mapsto> f c)\<rparr>))"

definition kube_reachable :: "world \<Rightarrow> bool" where
  "kube_reachable w = (case cur w of None \<Rightarrow> False | Some c \<Rightarrow> alive c)"

text \<open>The labels of a namespace of the current cluster, \<open>None\<close> when there is none.\<close>

definition ns_labels :: "string \<Rightarrow> world \<Rightarrow> (string \<rightharpoonup> string) option" where
  "ns_labels ns w = (case cur w of None \<Rightarrow> None | Some c \<Rightarrow> namespaces c ns)"

text \<open>
  \<^verbatim>\<open>set -e\<close> (line 2 of both scripts): the shell exits at the first simple command, outside
  the condition of an \<^verbatim>\<open>if\<close>, that returns a non-zero status. A run either reaches the end
  of the script or is aborted; both carry the state reached.
\<close>

datatype outcome = Done world | Aborted world

fun final :: "outcome \<Rightarrow> world" where
  "final (Done w) = w"
| "final (Aborted w) = w"

fun completed :: "outcome \<Rightarrow> bool" where
  "completed (Done w) = True"
| "completed (Aborted w) = False"

type_synonym step = "world \<Rightarrow> outcome"

fun run :: "step list \<Rightarrow> world \<Rightarrow> outcome" where
  "run [] w = Done w"
| "run (s # ss) w = (case s w of Aborted w' \<Rightarrow> Aborted w' | Done w' \<Rightarrow> run ss w')"

text \<open>\<^verbatim>\<open>if ! probe; then A; else B; fi\<close>. The status of the probe never aborts the run.\<close>

definition if_not :: "(world \<Rightarrow> bool) \<Rightarrow> step list \<Rightarrow> step list \<Rightarrow> step" where
  "if_not probe A B w = (if \<not> probe w then run A w else run B w)"

definition echo :: "string \<Rightarrow> step" where
  "echo s w = Done (w\<lparr>stdout := stdout w @ [s]\<rparr>)"

text \<open>An unset shell variable expands to the empty string (the scripts do not set -u).\<close>

definition var :: "string \<Rightarrow> world \<Rightarrow> string" where
  "var x w = (case vars w x of None \<Rightarrow> [] | Some v \<Rightarrow> v)"

subsection \<open>Probes\<close>

text \<open>\<^verbatim>\<open>command_exists() { command -v "$1" >/dev/null 2>&1; }\<close>\<close>

definition command_exists :: "string \<Rightarrow> world \<Rightarrow> bool" where
  "command_exists b w = (b \<in> path_bins w \<union> session_bins w)"

text \<open>A kubectl command reaches the cluster when kubectl runs and the cluster answers.\<close>

definition kubectl_usable :: "world \<Rightarrow> bool" where
  "kubectl_usable w = (command_exists ''kubectl'' w \<and> kube_reachable w)"

text \<open>\<^verbatim>\<open>kubectl version --short >/dev/null 2>&1\<close>\<close>

definition kubectl_version_short :: "world \<Rightarrow> bool" where
  "kubectl_version_short w = kubectl_usable w"

text \<open>\<^verbatim>\<open>kubectl get namespace $NAMESPACE >/dev/null 2>&1\<close>\<close>

definition kubectl_get_namespace :: "string \<Rightarrow> world \<Rightarrow> bool" where
  "kubectl_get_namespace ns w = (kubectl_usable w \<and> ns_labels ns w \<noteq> None)"

text \<open>
  \<^verbatim>\<open>minikube status >/dev/null 2>&1\<close>: minikube looks at its own cluster, whatever the
  current context is.
\<close>

definition minikube_status :: "world \<Rightarrow> bool" where
  "minikube_status w =
     (command_exists ''minikube'' w \<and>
      (case clusters w ''minikube'' of None \<Rightarrow> False | Some c \<Rightarrow> alive c))"

subsection \<open>External commands\<close>

text \<open>
  What the tools do is not part of the repository; the commands are given the behaviour
  their manuals document, as far as the scripts depend on it.
  \<open>refused c w\<close>: the command exits non-zero because of the state it finds.
  kind refuses to create a cluster whose name is taken; kubectl refuses to create a
  namespace that exists, to label one that does not, and to replace a label's value
  unless \<^verbatim>\<open>--overwrite\<close> is given (removing a label that is not there is no error);
  \<^verbatim>\<open>kubectl wait\<close> fails when the condition is not met within the timeout.
\<close>

definition ready_within :: "string \<Rightarrow> nat \<Rightarrow> world \<Rightarrow> bool" where
  "ready_within l t w = (case ready_after w l of None \<Rightarrow> False | Some n \<Rightarrow> n \<le> t)"

fun refused :: "cmd \<Rightarrow> world \<Rightarrow> bool" where
  "refused CurlKubectl w = False"
| "refused InstallKubectl w = False"
| "refused CurlKind w = False"
| "refused ChmodKind w = False"
| "refused MvKind w = False"
| "refused (KindCreateCluster n) w =
     (\<not> command_exists ''kind'' w \<or> clusters w (''kind-'' @ n) \<noteq> None)"
| "refused (KubectlCreateNamespace ns) w = (\<not> kubectl_usable w \<or> ns_labels ns w \<noteq> None)"
| "refused DownloadIstio w = False"
| "refused CdIstio w = False"
| "refused ExportIstioPath w = False"
| "refused CdRoot w = False"
| "refused (IstioctlInstall p) w = (\<not> command_exists ''istioctl'' w \<or> \<not> kube_reachable w)"
| "refused (KubectlPatchIngress t) w =
     (\<not> kubectl_usable w \<or> (case cur w of None \<Rightarrow> True | Some c \<Rightarrow> mesh c = None))"
| "refused (KubectlLabel ns k v overwrite) w =
     (\<not> kubectl_usable w \<or>
      (case ns_labels ns w of
         None \<Rightarrow> True
       | Some ls \<Rightarrow>
           (case (ls k, v) of
              (Some old, Some new) \<Rightarrow> \<not> overwrite \<and> old \<noteq> new
            | _ \<Rightarrow> False)))"
| "refused (KubectlApply docs) w = (\<not> kubectl_usable w)"
| "refused KubectlGetNodeIP w = (\<not> kubectl_usable w)"
| "refused KubectlGetNodePort w = (\<not> kubectl_usable w)"
| "refused CurlMinikube w = False"
| "refused InstallMinikube w = False"
| "refused (MinikubeStart mem cpus driver) w = (\<not> command_exists ''minikube'' w)"
| "refused (MinikubeAddonsEnable a) w = (\<not> minikube_status w)"
| "refused (KubectlWait l t) w = (\<not> kubectl_usable w \<or> \<not> ready_within l t w)"
| "refused MinikubeIp w = (\<not> minikube_status w)"

text \<open>
  \<open>effect c w\<close>: the state after the command has succeeded. \<^verbatim>\<open>kind create cluster\<close>
  makes a new cluster and switches the context to it; \<^verbatim>\<open>minikube start\<close> (no profile is
  given, so the profile is minikube's default one) starts the minikube cluster, creating
  it if there is none, and switches the context to it.
\<close>

fun effect :: "cmd \<Rightarrow> world \<Rightarrow> world" where
  "effect InstallKubectl w = w\<lparr>path_bins := insert ''kubectl'' (path_bins w)\<rparr>"
| "effect MvKind w = w\<lparr>path_bins := insert ''kind'' (path_bins w)\<rparr>"
| "effect (KindCreateCluster n) w =
     w\<lparr>clusters := (clusters w)(''kind-'' @ n \<mapsto> new_cluster),
       kube_context := Some (''kind-'' @ n)\<rparr>"
| "effect (KubectlCreateNamespace ns) w =
     on_cur (\<lambda>c. c\<lparr>namespaces := (namespaces c)(ns \<mapsto> Map.empty)\<rparr>) w"
| "effect ExportIstioPath w = w\<lparr>session_bins := insert ''istioctl'' (session_bins w)\<rparr>"
| "effect (IstioctlInstall p) w = on_cur (\<lambda>c. c\<lparr>mesh := Some p\<rparr>) w"
| "effect (KubectlPatchIngress t) w = on_cur (\<lambda>c. c\<lparr>ingress_type := t\<rparr>) w"
| "effect (KubectlLabel ns k v overwrite) w =
     on_cur (\<lambda>c. case namespaces c ns of
                    None \<Rightarrow> c
                  | Some ls \<Rightarrow> c\<lparr>namespaces := (namespaces c)(ns \<mapsto> ls(k := v))\<rparr>) w"
| "effect InstallMinikube w = w\<lparr>path_bins := insert ''minikube'' (path_bins w)\<rparr>"
| "effect (MinikubeStart mem cpus driver) w =
     w\<lparr>clusters := (clusters w)(''minikube'' \<mapsto>
          (case clusters w ''minikube'' of
             None \<Rightarrow> new_cluster
           | Some c \<Rightarrow> c\<lparr>alive := True\<rparr>)),
       kube_context := Some ''minikube''\<rparr>"
| "effect (MinikubeAddonsEnable a) w =
     (case clusters w ''minikube'' of
        None \<Rightarrow> w
      | Some c \<Rightarrow> w\<lparr>clusters := (clusters w)(''minikube'' \<mapsto> c\<lparr>mesh := Some a\<rparr>)\<rparr>)"
| "effect CurlKubectl w = w"
| "effect CurlKind w = w"
| "effect ChmodKind w = w"
| "effect DownloadIstio w = w"
| "effect CdIstio w = w"
| "effect CdRoot w = w"
| "effect (KubectlApply docs) w = w"
| "effect KubectlGetNodeIP w = w"
| "effect KubectlGetNodePort w = w"
| "effect CurlMinikube w = w"
| "effect (KubectlWait l t) w = w"
| "effect MinikubeIp w = w"

text \<open>
  A simple command: it is started (and enters the trace); if it exits non-zero the run
  is aborted there, otherwise its effect takes place.
\<close>

definition exec :: "cmd \<Rightarrow> step" where
  "exec c w =
     (let w1 = w\<lparr>trace := trace w @ [c]\<rparr> in
      if faults w1 c \<or> refused c w1 then Aborted (w1\<lparr>failed := failed w1 @ [c]\<rparr>)
      else Done (effect c w1))"

text \<open>What a command substitution \<^verbatim>\<open>$(...)\<close> captures from the command's output.\<close>

fun captured :: "cmd \<Rightarrow> world \<Rightarrow> string" where
  "captured KubectlGetNodeIP w = node_ip w"
| "captured KubectlGetNodePort w = node_port w"
| "captured MinikubeIp w = minikube_ip w"
| "captured c w = []"

text \<open>
  \<^verbatim>\<open>X=$(command)\<close>: the status of the assignment is the status of the command, so a
  failing command aborts the run under \<^verbatim>\<open>set -e\<close>.
\<close>

definition assign :: "string \<Rightarrow> cmd \<Rightarrow> step" where
  "assign x c w =
     (case exec c w of
        Aborted w' \<Rightarrow> Aborted w'
      | Done w' \<Rightarrow> Done (w'\<lparr>vars := (vars w')(x \<mapsto> captured c w')\<rparr>))"

subsection \<open>kubectl apply\<close>

text \<open>
  The claims a StatefulSet's controller provisions: one per claim template and replica
  ordinal. A claim that exists is kept, so the claims of a cluster are a set.
\<close>

definition claim_ids :: "yaml \<Rightarrow> claim_id list" where
  "claim_ids d =
     (case ident d of
        None \<Rightarrow> []
      | Some (k, ns, n) \<Rightarrow>
          if k = ''StatefulSet'' then
            concat (map (\<lambda>t.
              case ystr (ypath [''metadata'', ''name''] t) of
                None \<Rightarrow> []
              | Some tn \<Rightarrow>
                  map (\<lambda>i. (ns, tn, n, i))
                    [0 ..< (case ynum (ypath [''spec'', ''replicas''] d) of
                              None \<Rightarrow> 1 | Some r \<Rightarrow> r)])
              (yseq (ypath [''spec'', ''volumeClaimTemplates''] d)))
          else [])"

text \<open>
  A document is rejected when it names no object, when the API server rejects it, or
  when its namespace does not exist.
\<close>

definition doc_rejected :: "world \<Rightarrow> yaml \<Rightarrow> bool" where
  "doc_rejected w d =
     (case ident d of
        None \<Rightarrow> True
      | Some (k, ns, n) \<Rightarrow> rejects w d \<or> ns_labels ns w = None)"

text \<open>
  Applying one document is a declarative merge: the object of that identity is created
  or replaced by the document.
\<close>

definition apply_doc :: "yaml \<Rightarrow> world \<Rightarrow> world" where
  "apply_doc d w =
     (case ident d of
        None \<Rightarrow> w
      | Some i \<Rightarrow>
          if doc_rejected w d then w
          else (on_cur (\<lambda>c. c\<lparr>objects := (objects c)(i \<mapsto> d),
                               claims := claims c \<union> set (claim_ids d)\<rparr>) w)
                 \<lparr>applied := applied w @ [i]\<rparr>)"

text \<open>
  \<^verbatim>\<open>cat <<EOF | kubectl apply -f -\<close>: the status of the pipeline is kubectl's. kubectl
  applies the documents of the stream in order, goes on after a rejected document, and
  exits non-zero if any was rejected.
\<close>

definition kubectl_apply :: "yaml list \<Rightarrow> step" where
  "kubectl_apply docs w =
     (let w1 = w\<lparr>trace := trace w @ [KubectlApply docs]\<rparr> in
      if faults w1 (KubectlApply docs) \<or> refused (KubectlApply docs) w1
      then Aborted (w1\<lparr>failed := failed w1 @ [KubectlApply docs]\<rparr>)
      else if list_ex (doc_rejected w1) docs
      then Aborted ((fold apply_doc docs w1)\<lparr>failed := failed w1 @ [KubectlApply docs]\<rparr>)
      else Done (fold apply_doc docs w1))"

section \<open>deployment.sh\<close>

text \<open>Lines 15-22: install kubectl unless it is on the PATH.\<close>

definition deployment_kubectl_check :: step where
  "deployment_kubectl_check =
     if_not (command_exists KUBECTL_BIN)
       [echo ''kubectl not found. Installing kubectl...'',
        exec CurlKubectl,
        exec InstallKubectl]
       [echo ''kubectl is already installed.'']"

text \<open>Lines 27-35: install kind unless it is on the PATH.\<close>

definition deployment_kind_check :: step where
  "deployment_kind_check =
     if_not (command_exists KIND_BIN)
       [echo ''kind not found. Installing kind...'',
        exec CurlKind,
        exec ChmodKind,
        exec MvKind]
       [echo ''kind is already installed.'']"

text \<open>Lines 24-41: create a kind cluster unless a cluster is reachable.\<close>

definition deployment_cluster_check :: step where
  "deployment_cluster_check =
     if_not kubectl_version_short
       [echo ''No accessible Kubernetes cluster found.'',
        deployment_kind_check,
        echo ''Creating local Kubernetes cluster with kind...'',
        exec (KindCreateCluster ''ecommerce-cluster'')]
       [echo ''Kubernetes cluster is accessible.'']"

text \<open>Lines 43-47: create the namespace unless it exists.\<close>

definition deployment_namespace_check :: step where
  "deployment_namespace_check =
     if_not (kubectl_get_namespace NAMESPACE)
       [echo (''Creating namespace '' @ NAMESPACE),
        exec (KubectlCreateNamespace NAMESPACE)]
       []"

text \<open>Lines 51-60: install istioctl unless it is on the PATH.\<close>

definition deployment_istioctl_check :: step where
  "deployment_istioctl_check =
     if_not (command_exists ''istioctl'')
       [echo ''Installing Istio CLI...'',
        exec DownloadIstio,
        exec CdIstio,
        exec ExportIstioPath,
        exec CdRoot]
       [echo ''Istio CLI already installed.'']"

text \<open>Line 71: \<^verbatim>\<open>kubectl label namespace $NAMESPACE istio-injection=enabled --overwrite\<close>\<close>

definition deployment_label :: step where
  "deployment_label = exec (KubectlLabel NAMESPACE ''istio-injection'' (Some ''enabled'') True)"

text \<open>Lines 236-244: the endpoint report.\<close>

definition deployment_report :: "step list" where
  "deployment_report =
     [assign ''NODE_IP'' KubectlGetNodeIP,
      assign ''NODE_PORT'' KubectlGetNodePort,
      echo ''=========================================================='',
      (\<lambda>w. echo (''Access your frontend app at: http://'' @ var ''NODE_IP'' w @ '':''
                   @ var ''NODE_PORT'' w @ ''/'') w),
      (\<lambda>w. echo (''Access backend API at:       http://'' @ var ''NODE_IP'' w @ '':''
                   @ var ''NODE_PORT'' w @ ''/api/hello'') w),
      echo (''MongoDB service URI:        mongodb://mongo.'' @ NAMESPACE
            @ ''.svc.cluster.local:27017/ecommerceDB''),
      echo ''Deployment completed successfully.'']"

definition deployment_sh :: "step list" where
  "deployment_sh =
     [echo ''========== ENVIRONMENT & KUBERNETES SETUP =========='',
      deployment_kubectl_check,
      deployment_cluster_check,
      deployment_namespace_check,
      echo ''========== DEPLOYING APPS WITH ISTIO AND MONGODB =========='',
      deployment_istioctl_check,
      echo ''Installing Istio control plane...'',
      exec (IstioctlInstall ''demo''),
      echo ''Setting istio-ingressgateway Service to NodePort...'',
      exec (KubectlPatchIngress ''NodePort''),
      deployment_label,
      kubectl_apply deployment_mongo_docs,
      kubectl_apply deployment_app_docs]
     @ deployment_report"

section \<open>miniIstio.sh\<close>

text \<open>Lines 13-20: install minikube unless it is on the PATH.\<close>

definition miniIstio_minikube_check :: step where
  "miniIstio_minikube_check =
     if_not (command_exists ''minikube'')
       [echo ''Minikube not found. Installing minikube...'',
        exec CurlMinikube,
        exec InstallMinikube]
       [echo ''Minikube is already installed.'']"

text \<open>Lines 22-28: start minikube unless it is running.\<close>

definition miniIstio_cluster_check :: step where
  "miniIstio_cluster_check =
     if_not minikube_status
       [echo ''Starting Minikube cluster with 4GB RAM and 2 CPUs...'',
        exec (MinikubeStart 4096 2 ''docker'')]
       [echo ''Minikube cluster already running.'']"

text \<open>
  Lines 34-37: wait, at most three minutes (180 seconds) each, for istiod and for the
  ingress gateway.
\<close>

definition miniIstio_wait :: "step list" where
  "miniIstio_wait =
     [echo ''Waiting for Istio pods to be ready...'',
      exec (KubectlWait ''app=istiod'' 180),
      exec (KubectlWait ''app=istio-ingressgateway'' 180)]"

text \<open>Lines 39-43: create the namespace unless it exists.\<close>

definition miniIstio_namespace_check :: step where
  "miniIstio_namespace_check =
     if_not (kubectl_get_namespace NAMESPACE)
       [echo (''Creating namespace '' @ NAMESPACE),
        exec (KubectlCreateNamespace NAMESPACE)]
       []"

text \<open>Line 47: \<^verbatim>\<open>kubectl label namespace $NAMESPACE istio-injection- --overwrite\<close>\<close>

definition miniIstio_label :: step where
  "miniIstio_label = exec (KubectlLabel NAMESPACE ''istio-injection'' None True)"

text \<open>Lines 239-247: the endpoint report.\<close>

definition miniIstio_report :: "step list" where
  "miniIstio_report =
     [assign ''NODE_PORT'' KubectlGetNodePort,
      assign ''NODE_IP'' MinikubeIp,
      echo ''=================================================='',
      (\<lambda>w. echo (''Access Frontend: http://'' @ var ''NODE_IP'' w @ '':''
                   @ var ''NODE_PORT'' w @ ''/'') w),
      (\<lambda>w. echo (''Access Backend API: http://'' @ var ''NODE_IP'' w @ '':''
                   @ var ''NODE_PORT'' w @ ''/api/hello'') w),
      echo (''MongoDB URI: mongodb://mongo.'' @ NAMESPACE
            @ ''.svc.cluster.local:27017/ecommerceDB''),
      echo ''Istio testing setup complete.'']"

definition miniIstio_sh :: "step list" where
  "miniIstio_sh =
     [echo ''========== MINIKUBE & ISTIO SETUP =========='',
      miniIstio_minikube_check,
      miniIstio_cluster_check,
      echo ''Enabling Istio addon in Minikube...'',
      exec (MinikubeAddonsEnable ''istio'')]
     @ miniIstio_wait @
     [miniIstio_namespace_check,
      echo (''Disabling Istio sidecar injection on '' @ NAMESPACE @ '' namespace...''),
      miniIstio_label,
      echo ''========== DEPLOYING MONGODB WITH MINIMAL RESOURCES =========='',
      kubectl_apply miniIstio_mongo_docs,
      echo ''========== DEPLOYING BACKEND AND FRONTEND APPS =========='',
      kubectl_apply miniIstio_app_docs,
      echo ''========== ISTIO GATEWAY SETUP =========='',
      kubectl_apply miniIstio_route_docs]
     @ miniIstio_report"

section \<open>Running a script\<close>

text \<open>
  A script is started in a new shell: no variable of its own is set, nothing has been
  started, has failed, or has been applied or printed, and the PATH has only the host's executables. The host
  and the cluster are as the previous run, if any, left them.
\<close>

definition new_shell :: "world \<Rightarrow> world" where
  "new_shell w =
     w\<lparr>session_bins := {}, vars := Map.empty, trace := [], failed := [], applied := [],
       stdout := []\<rparr>"

definition deployment :: "world \<Rightarrow> outcome" where
  "deployment w = run deployment_sh (new_shell w)"

definition miniIstio :: "world \<Rightarrow> outcome" where
  "miniIstio w = run miniIstio_sh (new_shell w)"

section \<open>backend/db.js\<close>




text \<open>
  The environment a container starts with: the \<^verbatim>\<open>env\<close> entries of its manifest, a later
  entry of the same name replacing an earlier one.
\<close>

definition containers :: "yaml \<Rightarrow> yaml list" where
  "containers d = yseq (ypath [''spec'', ''template'', ''spec'', ''containers''] d)"

definition env_bindings :: "yaml \<Rightarrow> (string \<times> string) list" where
  "env_bindings c =
     concat (map (\<lambda>e.
       case (ystr (yfield ''name'' e), ystr (yfield ''value'' e)) of
         (Some n, Some v) \<Rightarrow> [(n, v)]
       | _ \<Rightarrow> [])
       (yseq (yfield ''env'' c)))"


section \<open>Request routing\<close>











text \<open>Every document a script applies, in the order of the script.\<close>

definition deployment_docs :: "yaml list" where
  "deployment_docs = deployment_mongo_docs @ deployment_app_docs"

definition miniIstio_docs :: "yaml list" where
  "miniIstio_docs = miniIstio_mongo_docs @ miniIstio_app_docs @ miniIstio_route_docs"


section \<open>Predicates used in the proofs\<close>

text \<open>Which commands can change which part of the state.\<close>

fun creates_cluster :: "cmd \<Rightarrow> bool" where
  "creates_cluster (KindCreateCluster n) = True"
| "creates_cluster (MinikubeStart m c d) = True"
| "creates_cluster c = False"

fun touches_namespaces :: "cmd \<Rightarrow> bool" where
  "touches_namespaces (KubectlCreateNamespace ns) = True"
| "touches_namespaces (KubectlLabel ns k v ov) = True"
| "touches_namespaces c = creates_cluster c"

fun touches_clusters :: "cmd \<Rightarrow> bool" where
  "touches_clusters (IstioctlInstall p) = True"
| "touches_clusters (KubectlPatchIngress t) = True"
| "touches_clusters (KubectlApply docs) = True"
| "touches_clusters (MinikubeAddonsEnable a) = True"
| "touches_clusters c = touches_namespaces c"

fun applies :: "cmd \<Rightarrow> bool" where
  "applies (KubectlApply docs) = True"
| "applies c = False"

fun touches_path :: "cmd \<Rightarrow> bool" where
  "touches_path InstallKubectl = True"
| "touches_path MvKind = True"
| "touches_path InstallMinikube = True"
| "touches_path ExportIstioPath = True"
| "touches_path c = False"

text \<open>
  \<open>frame A w w'\<close>: \<open>w'\<close> is reached from \<open>w\<close> by starting only commands of \<open>A\<close>. The
  trace, the applied objects and the printed lines grow at the end, the PATH grows, the
  environment's decisions stay, and a part of the state no command of \<open>A\<close> can change is
  the same.
\<close>

definition frame :: "cmd set \<Rightarrow> world \<Rightarrow> world \<Rightarrow> bool" where
  "frame A w w' =
     ((\<exists>t. trace w' = trace w @ t \<and> set t \<subseteq> A) \<and>
      (\<exists>a. applied w' = applied w @ a) \<and>
      (\<exists>l. stdout w' = stdout w @ l) \<and>
      path_bins w \<subseteq> path_bins w' \<and> session_bins w \<subseteq> session_bins w' \<and>
      faults w' = faults w \<and> rejects w' = rejects w \<and> ready_after w' = ready_after w \<and>
      node_ip w' = node_ip w \<and> node_port w' = node_port w \<and> minikube_ip w' = minikube_ip w \<and>
      ((\<forall>c\<in>A. \<not> creates_cluster c) \<longrightarrow>
         dom (clusters w') = dom (clusters w) \<and> kube_context w' = kube_context w) \<and>
      ((\<forall>c\<in>A. \<not> touches_namespaces c) \<longrightarrow> (\<forall>ns. ns_labels ns w' = ns_labels ns w)) \<and>
      ((\<forall>c\<in>A. \<not> touches_clusters c) \<longrightarrow> clusters w' = clusters w) \<and>
      ((\<forall>c\<in>A. \<not> applies c) \<longrightarrow> applied w' = applied w) \<and>
      ((\<forall>c\<in>A. \<not> touches_path c) \<longrightarrow>
         path_bins w' = path_bins w \<and> session_bins w' = session_bins w))"

text \<open>A step relates every state to the state it ends in, aborted or not.\<close>

definition step_rel :: "(world \<Rightarrow> world \<Rightarrow> bool) \<Rightarrow> step \<Rightarrow> bool" where
  "step_rel R s = (\<forall>w. R w (final (s w)))"

text \<open>The tool a command line fetches or installs, if any.\<close>

fun fetches :: "cmd \<Rightarrow> string option" where
  "fetches CurlKubectl = Some ''kubectl''"
| "fetches InstallKubectl = Some ''kubectl''"
| "fetches CurlKind = Some ''kind''"
| "fetches ChmodKind = Some ''kind''"
| "fetches MvKind = Some ''kind''"
| "fetches DownloadIstio = Some ''istioctl''"
| "fetches CdIstio = Some ''istioctl''"
| "fetches ExportIstioPath = Some ''istioctl''"
| "fetches CdRoot = Some ''istioctl''"
| "fetches CurlMinikube = Some ''minikube''"
| "fetches InstallMinikube = Some ''minikube''"
| "fetches c = None"

definition tool_kept :: "string \<Rightarrow> world \<Rightarrow> world \<Rightarrow> bool" where
  "tool_kept b w w' = (b \<in> path_bins w \<longrightarrow> frame {c. fetches c \<noteq> Some b} w w')"

text \<open>
  A host for the examples: nothing is installed, there is no cluster, no command fails
  for reasons of its own, no document is rejected, and pods are Ready after 30 seconds.
\<close>

definition bare_host :: world where
  "bare_host =
     \<lparr>path_bins = {}, session_bins = {}, clusters = Map.empty, kube_context = None,
      faults = (\<lambda>c. False), rejects = (\<lambda>d. False), ready_after = (\<lambda>l. Some 30),
      node_ip = ''172.18.0.2'', node_port = ''31380'', minikube_ip = ''192.168.49.2'',
      vars = Map.empty, trace = [], failed = [], applied = [], stdout = []\<rparr>"

text \<open>
  A step is fail-fast when, started with no failed command, it either ends normally with
  no failed command, or is aborted with exactly one failed command, the last one started.
\<close>

definition fail_fast :: "step \<Rightarrow> bool" where
  "fail_fast s =
     (\<forall>w. failed w = [] \<longrightarrow>
        (case s w of
           Done w' \<Rightarrow> failed w' = []
         | Aborted w' \<Rightarrow> trace w' \<noteq> [] \<and> failed w' = [last (trace w')]))"

text \<open>The labels of a namespace of the cluster of a given context name.\<close>

definition ns_in :: "string \<Rightarrow> string \<Rightarrow> world \<Rightarrow> (string \<rightharpoonup> string) option" where
  "ns_in n ns w = (case clusters w n of None \<Rightarrow> None | Some c \<Rightarrow> namespaces c ns)"

text \<open>The target namespace is the same, in every cluster, in both states.\<close>

definition ns_same :: "world \<Rightarrow> world \<Rightarrow> bool" where
  "ns_same w w' = (\<forall>n. ns_in n NAMESPACE w' = ns_in n NAMESPACE w)"

text \<open>The commands of miniIstio.sh up to and including the two waits (lines 13-37).\<close>

definition miniIstio_mesh_cmds :: "cmd set" where
  "miniIstio_mesh_cmds =
     {CurlMinikube, InstallMinikube, MinikubeStart 4096 2 ''docker'',
      MinikubeAddonsEnable ''istio'', KubectlWait ''app=istiod'' 180,
      KubectlWait ''app=istio-ingressgateway'' 180}"

text \<open>miniIstio.sh up to and including the two waits (lines 11-37).\<close>

definition miniIstio_mesh :: "step list" where
  "miniIstio_mesh =
     [echo ''========== MINIKUBE & ISTIO SETUP =========='',
      miniIstio_minikube_check,
      miniIstio_cluster_check,
      echo ''Enabling Istio addon in Minikube...'',
      exec (MinikubeAddonsEnable ''istio'')]
     @ miniIstio_wait"

text \<open>The commands that create or label a namespace.\<close>

fun reconciles_namespace :: "cmd \<Rightarrow> bool" where
  "reconciles_namespace (KubectlCreateNamespace ns) = True"
| "reconciles_namespace (KubectlLabel ns k v ov) = True"
| "reconciles_namespace c = False"

text \<open>
  A host with minikube and kubectl installed where the mesh pods never become Ready.
\<close>

definition never_ready :: world where
  "never_ready = bare_host\<lparr>path_bins := {''minikube'', ''kubectl''}, ready_after := (\<lambda>l. None)\<rparr>"

text \<open>\<open>a\<close> occurs in \<open>xs\<close> before the first occurrence of \<open>b\<close>.\<close>

definition applied_before :: "obj_id \<Rightarrow> obj_id \<Rightarrow> obj_id list \<Rightarrow> bool" where
  "applied_before a b xs = (a \<in> set (takeWhile (\<lambda>x. x \<noteq> b) xs))"

text \<open>The identities of the datastore's Service and StatefulSet and of the backend Deployment.\<close>

definition mongo_service_id :: obj_id where
  "mongo_service_id = (''Service'', NAMESPACE, ''mongo'')"

definition mongo_statefulset_id :: obj_id where
  "mongo_statefulset_id = (''StatefulSet'', NAMESPACE, ''mongo'')"

definition backend_id :: obj_id where
  "backend_id = (''Deployment'', NAMESPACE, ''ecommerce-backend'')"

text \<open>
  The datastore's Service has been applied, and before the backend Deployment if that has
  been applied too.
\<close>

definition service_first :: "world \<Rightarrow> bool" where
  "service_first w =
     (mongo_service_id \<in> set (applied w) \<and>
      (backend_id \<in> set (applied w) \<longrightarrow>
         applied_before mongo_service_id backend_id (applied w)))"

text \<open>A host where only kubectl is installed.\<close>

definition kubectl_host :: world where
  "kubectl_host = bare_host\<lparr>path_bins := {''kubectl''}\<rparr>"

text \<open>
  A host with kubectl and minikube, and a running minikube cluster in which the target
  namespace has the given labels (\<open>None\<close>: the namespace does not exist).
\<close>

definition labeled_host :: "(string \<rightharpoonup> string) option \<Rightarrow> world" where
  "labeled_host ls =
     bare_host\<lparr>path_bins := {''kubectl'', ''minikube''},
               clusters := [''minikube'' \<mapsto>
                 new_cluster\<lparr>namespaces := (namespaces new_cluster)(''helix'' := ls)\<rparr>],
               kube_context := Some ''minikube''\<rparr>"

text \<open>miniIstio.sh, lines 39-47: the namespace is created if missing, then the label is removed.\<close>

definition miniIstio_namespace :: "step list" where
  "miniIstio_namespace =
     [miniIstio_namespace_check,
      echo (''Disabling Istio sidecar injection on '' @ NAMESPACE @ '' namespace...''),
      miniIstio_label]"

text \<open>The namespace exists with a label value nobody asked for.\<close>

definition drifted_host :: world where
  "drifted_host = labeled_host (Some [''istio-injection'' \<mapsto> ''disabled''])"

text \<open>The namespace exists, with injection enabled and one more label.\<close>

definition enabled_host :: world where
  "enabled_host = labeled_host (Some [''istio-injection'' \<mapsto> ''enabled'', ''team'' \<mapsto> ''shop''])"

text \<open>The claim templates of a StatefulSet: name, access modes and requested storage.\<close>

definition claim_templates :: "yaml \<Rightarrow> (string option \<times> yaml list \<times> string option) list" where
  "claim_templates d =
     map (\<lambda>t. (ystr (ypath [''metadata'', ''name''] t),
               yseq (ypath [''spec'', ''accessModes''] t),
               ystr (ypath [''spec'', ''resources'', ''requests'', ''storage''] t)))
       (yseq (ypath [''spec'', ''volumeClaimTemplates''] d))"

text \<open>The one claim of the datastore: template mongo-persistent-storage, set mongo, replica 0.\<close>

definition mongo_claim_id :: claim_id where
  "mongo_claim_id = (NAMESPACE, ''mongo-persistent-storage'', ''mongo'', 0)"

text \<open>The namespace exists, without labels; nothing has been applied.\<close>

definition fresh_namespace_host :: world where
  "fresh_namespace_host = labeled_host (Some Map.empty)"

text \<open>
  The datastore address as both scripts spell it out: in the backend's \<^verbatim>\<open>env\<close> entry
  (deployment.sh line 145, miniIstio.sh line 130) and in the report (lines 243 and 246).
\<close>

definition mongo_uri :: string where
  "mongo_uri = ''mongodb://mongo.'' @ NAMESPACE @ ''.svc.cluster.local:27017/ecommerceDB''"


text \<open>The \<^verbatim>\<open>env\<close> bindings of each container of a workload, as its manifest lists them.\<close>

definition backend_env :: "yaml \<Rightarrow> (string \<times> string) list list" where
  "backend_env d = map env_bindings (containers d)"

text \<open>The cluster-creating commands a run has started, in order.\<close>

definition created :: "world \<Rightarrow> cmd list" where
  "created w = filter creates_cluster (trace w)"

text \<open>minikube's own cluster exists and runs (what \<^verbatim>\<open>minikube status\<close> reports).\<close>

definition minikube_running :: "world \<Rightarrow> bool" where
  "minikube_running w = (case clusters w ''minikube'' of None \<Rightarrow> False | Some c \<Rightarrow> alive c)"

text \<open>
  A host with kubectl and minikube on the PATH whose kubeconfig points at a reachable
  cluster that is not minikube's; minikube has no cluster.
\<close>

definition remote_host :: world where
  "remote_host =
     bare_host\<lparr>path_bins := {''kubectl'', ''minikube''},
               clusters := [''remote'' \<mapsto> new_cluster],
               kube_context := Some ''remote''\<rparr>"

section \<open>Properties\<close>

subsection \<open>Manifest facts\<close>

lemmas deployment_doc_defs =
  deployment_docs_def deployment_mongo_docs_def deployment_app_docs_def
  deployment_mongo_service_def deployment_mongo_statefulset_def
  deployment_backend_deployment_def deployment_backend_service_def
  deployment_frontend_deployment_def deployment_frontend_service_def
  deployment_gateway_def deployment_virtualservice_def

lemmas miniIstio_doc_defs =
  miniIstio_docs_def miniIstio_mongo_docs_def miniIstio_app_docs_def miniIstio_route_docs_def
  miniIstio_mongo_service_def miniIstio_mongo_statefulset_def
  miniIstio_backend_deployment_def miniIstio_backend_service_def
  miniIstio_frontend_deployment_def miniIstio_frontend_service_def
  miniIstio_gateway_def miniIstio_virtualservice_def










subsection \<open>C1: the gateway and the routing table\<close>



subsection \<open>Frame lemmas\<close>

lemma run_append:
  "run (xs @ ys) w = (case run xs w of Aborted w' \<Rightarrow> Aborted w' | Done w' \<Rightarrow> run ys w')"
  by (induction xs arbitrary: w) (auto split: outcome.splits)

lemma step_rel_run:
  assumes refl: "\<And>w. R w w" and trans: "\<And>a b c. R a b \<Longrightarrow> R b c \<Longrightarrow> R a c"
    and steps: "list_all (step_rel R) ss"
  shows "step_rel R (run ss)"
  using steps
proof (induction ss)
  case Nil
  then show ?case by (simp add: step_rel_def refl)
next
  case (Cons s ss)
  then have s: "\<And>w. R w (final (s w))" and ih: "\<And>w. R w (final (run ss w))"
    by (simp_all add: step_rel_def)
  show ?case
    unfolding step_rel_def
  proof
    fix w
    show "R w (final (run (s # ss) w))"
    proof (cases "s w")
      case (Done w')
      then show ?thesis using s [of w] ih [of w'] trans by auto
    next
      case (Aborted w')
      then show ?thesis using s [of w] by simp
    qed
  qed
qed

lemma frame_refl: "frame A w w"
  by (simp add: frame_def)

lemma frameD:
  assumes "frame A w w'"
  shows "\<exists>t. trace w' = trace w @ t \<and> set t \<subseteq> A"
    and "\<exists>a. applied w' = applied w @ a"
    and "\<exists>l. stdout w' = stdout w @ l"
    and "path_bins w \<subseteq> path_bins w'" and "session_bins w \<subseteq> session_bins w'"
    and "faults w' = faults w" and "rejects w' = rejects w"
    and "ready_after w' = ready_after w" and "node_ip w' = node_ip w"
    and "node_port w' = node_port w" and "minikube_ip w' = minikube_ip w"
    and "\<forall>c\<in>A. \<not> creates_cluster c \<Longrightarrow> dom (clusters w') = dom (clusters w)"
    and "\<forall>c\<in>A. \<not> creates_cluster c \<Longrightarrow> kube_context w' = kube_context w"
    and "\<forall>c\<in>A. \<not> touches_namespaces c \<Longrightarrow> ns_labels ns w' = ns_labels ns w"
    and "\<forall>c\<in>A. \<not> touches_clusters c \<Longrightarrow> clusters w' = clusters w"
    and "\<forall>c\<in>A. \<not> applies c \<Longrightarrow> applied w' = applied w"
    and "\<forall>c\<in>A. \<not> touches_path c \<Longrightarrow> path_bins w' = path_bins w"
    and "\<forall>c\<in>A. \<not> touches_path c \<Longrightarrow> session_bins w' = session_bins w"
  using assms by (simp_all add: frame_def)

lemma frame_trans:
  assumes ab: "frame A a b" and bc: "frame A b c"
  shows "frame A a c"
proof -
  from frameD(1) [OF ab] frameD(1) [OF bc]
  obtain t1 t2 where t: "trace b = trace a @ t1" "set t1 \<subseteq> A"
      "trace c = trace b @ t2" "set t2 \<subseteq> A"
    by blast
  from frameD(2) [OF ab] frameD(2) [OF bc]
  obtain a1 a2 where a: "applied b = applied a @ a1" "applied c = applied b @ a2"
    by blast
  from frameD(3) [OF ab] frameD(3) [OF bc]
  obtain l1 l2 where l: "stdout b = stdout a @ l1" "stdout c = stdout b @ l2"
    by blast
  have 1: "\<exists>t. trace c = trace a @ t \<and> set t \<subseteq> A"
    using t by (intro exI [of _ "t1 @ t2"]) simp
  have 2: "\<exists>x. applied c = applied a @ x" using a by simp
  have 3: "\<exists>x. stdout c = stdout a @ x" using l by simp
  have 4: "path_bins a \<subseteq> path_bins c" "session_bins a \<subseteq> session_bins c"
    using frameD(4,5) [OF ab] frameD(4,5) [OF bc] by auto
  have 5: "faults c = faults a" "rejects c = rejects a" "ready_after c = ready_after a"
    "node_ip c = node_ip a" "node_port c = node_port a" "minikube_ip c = minikube_ip a"
    using frameD(6-11) [OF ab] frameD(6-11) [OF bc] by simp_all
  have 6: "(\<forall>c\<in>A. \<not> creates_cluster c) \<longrightarrow>
         dom (clusters c) = dom (clusters a) \<and> kube_context c = kube_context a"
    using frameD(12,13) [OF ab] frameD(12,13) [OF bc] by simp
  have 7: "(\<forall>c\<in>A. \<not> touches_namespaces c) \<longrightarrow> (\<forall>ns. ns_labels ns c = ns_labels ns a)"
    using frameD(14) [OF ab] frameD(14) [OF bc] by simp
  have 8: "(\<forall>c\<in>A. \<not> touches_clusters c) \<longrightarrow> clusters c = clusters a"
    "(\<forall>c\<in>A. \<not> applies c) \<longrightarrow> applied c = applied a"
    using frameD(15,16) [OF ab] frameD(15,16) [OF bc] by simp_all
  have 9: "(\<forall>c\<in>A. \<not> touches_path c) \<longrightarrow>
         path_bins c = path_bins a \<and> session_bins c = session_bins a"
    using frameD(17,18) [OF ab] frameD(17,18) [OF bc] by simp
  show ?thesis
    unfolding frame_def
    by (intro conjI 1 2 3 4 5 6 7 8 9)
qed

lemma frame_run:
  assumes "list_all (step_rel (frame A)) ss"
  shows "step_rel (frame A) (run ss)"
proof (rule step_rel_run [where R = "frame A"])
  show "\<And>w. frame A w w" by (rule frame_refl)
  show "\<And>a b c. frame A a b \<Longrightarrow> frame A b c \<Longrightarrow> frame A a c" by (rule frame_trans)
  show "list_all (step_rel (frame A)) ss" by fact
qed

lemma frame_if_not:
  "list_all (step_rel (frame A)) xs \<Longrightarrow> list_all (step_rel (frame A)) ys \<Longrightarrow>
   step_rel (frame A) (if_not p xs ys)"
  using frame_run [of A xs] frame_run [of A ys]
  by (simp add: step_rel_def if_not_def)

lemma ns_labels_shell [simp]:
  "ns_labels ns (w\<lparr>trace := t\<rparr>) = ns_labels ns w"
  "ns_labels ns (w\<lparr>stdout := l\<rparr>) = ns_labels ns w"
  "ns_labels ns (w\<lparr>vars := v\<rparr>) = ns_labels ns w"
  "ns_labels ns (w\<lparr>applied := a\<rparr>) = ns_labels ns w"
  "ns_labels ns (w\<lparr>path_bins := p\<rparr>) = ns_labels ns w"
  "ns_labels ns (w\<lparr>session_bins := q\<rparr>) = ns_labels ns w"
  "ns_labels ns (w\<lparr>failed := x\<rparr>) = ns_labels ns w"
  by (simp_all add: ns_labels_def cur_def split: option.splits)

lemma frame_echo: "step_rel (frame A) (echo s)"
  by (simp add: step_rel_def echo_def frame_def)

lemma frame_echo_fun: "step_rel (frame A) (\<lambda>w. echo (f w) w)"
  by (simp add: step_rel_def echo_def frame_def)

lemma effect_shell [simp]:
  "trace (effect c w) = trace w" "applied (effect c w) = applied w"
  "stdout (effect c w) = stdout w" "vars (effect c w) = vars w"
  "faults (effect c w) = faults w" "rejects (effect c w) = rejects w"
  "ready_after (effect c w) = ready_after w" "node_ip (effect c w) = node_ip w"
  "node_port (effect c w) = node_port w" "minikube_ip (effect c w) = minikube_ip w"
  "failed (effect c w) = failed w"
  by (cases c; simp add: on_cur_def split: option.splits)+

lemma effect_path:
  "path_bins w \<subseteq> path_bins (effect c w)" "session_bins w \<subseteq> session_bins (effect c w)"
  by (cases c; auto simp add: on_cur_def split: option.splits)+

lemma effect_path_same:
  "\<not> touches_path c \<Longrightarrow> path_bins (effect c w) = path_bins w"
  "\<not> touches_path c \<Longrightarrow> session_bins (effect c w) = session_bins w"
  by (cases c; simp add: on_cur_def split: option.splits)+

lemma effect_clusters_same:
  "\<not> touches_clusters c \<Longrightarrow> clusters (effect c w) = clusters w"
  by (cases c; simp add: on_cur_def split: option.splits)

lemma effect_context_same:
  "\<not> creates_cluster c \<Longrightarrow> kube_context (effect c w) = kube_context w"
  by (cases c; simp add: on_cur_def split: option.splits)

lemma effect_dom_same:
  "\<not> creates_cluster c \<Longrightarrow> dom (clusters (effect c w)) = dom (clusters w)"
  by (cases c; auto simp add: on_cur_def split: option.splits)

lemma effect_ns_same:
  "\<not> touches_namespaces c \<Longrightarrow> ns_labels ns (effect c w) = ns_labels ns w"
  by (cases c; simp add: on_cur_def ns_labels_def cur_def split: option.splits)

lemma frame_effect: "frame {c} w (effect c w)"
  unfolding frame_def
  using effect_path [of w c] effect_path_same [of c w] effect_clusters_same [of c w]
    effect_context_same [of c w] effect_dom_same [of c w] effect_ns_same [of c _ w]
  by simp

lemma frame_mono:
  assumes sub: "A \<subseteq> B" and f: "frame A w w'"
  shows "frame B w w'"
proof -
  have 1: "\<exists>t. trace w' = trace w @ t \<and> set t \<subseteq> B"
    using frameD(1) [OF f] sub by blast
  have 2: "(\<forall>c\<in>B. \<not> creates_cluster c) \<longrightarrow>
         dom (clusters w') = dom (clusters w) \<and> kube_context w' = kube_context w"
    using frameD(12,13) [OF f] sub by blast
  have 3: "(\<forall>c\<in>B. \<not> touches_namespaces c) \<longrightarrow> (\<forall>ns. ns_labels ns w' = ns_labels ns w)"
    using frameD(14) [OF f] sub by blast
  have 4: "(\<forall>c\<in>B. \<not> touches_clusters c) \<longrightarrow> clusters w' = clusters w"
    "(\<forall>c\<in>B. \<not> applies c) \<longrightarrow> applied w' = applied w"
    using frameD(15,16) [OF f] sub by blast+
  have 5: "(\<forall>c\<in>B. \<not> touches_path c) \<longrightarrow>
         path_bins w' = path_bins w \<and> session_bins w' = session_bins w"
    using frameD(17,18) [OF f] sub by blast
  show ?thesis
    unfolding frame_def
    by (intro conjI 1 2 3 4 5 frameD(2-11) [OF f])
qed

lemma frame_failed [simp]: "frame A w (w'\<lparr>failed := x\<rparr>) = frame A w w'"
  by (simp add: frame_def)

lemma frame_log: "frame {c} w (w\<lparr>trace := trace w @ [c]\<rparr>)"
  by (simp add: frame_def)

lemma frame_exec: "c \<in> A \<Longrightarrow> step_rel (frame A) (exec c)"
proof -
  assume c: "c \<in> A"
  have "frame {c} w (final (exec c w))" for w
  proof -
    let ?w1 = "w\<lparr>trace := trace w @ [c]\<rparr>"
    have 1: "frame {c} w ?w1" by (rule frame_log)
    have 2: "frame {c} ?w1 (effect c ?w1)" by (rule frame_effect)
    have 3: "frame {c} w (effect c ?w1)" by (rule frame_trans [OF 1 2])
    show ?thesis using 1 3 by (simp add: exec_def Let_def)
  qed
  then have "frame A w (final (exec c w))" for w
    using c frame_mono [of "{c}" A w "final (exec c w)"] by simp
  then show ?thesis by (simp add: step_rel_def)
qed

lemma frame_assign: "c \<in> A \<Longrightarrow> step_rel (frame A) (assign x c)"
proof -
  assume c: "c \<in> A"
  have e: "\<And>w. frame A w (final (exec c w))"
    using frame_exec [OF c] by (simp add: step_rel_def)
  show ?thesis
    unfolding step_rel_def
  proof
    fix w
    show "frame A w (final (assign x c w))"
    proof (cases "exec c w")
      case (Done w')
      then have "frame A w w'" using e [of w] by simp
      moreover have "frame A w' (w'\<lparr>vars := (vars w')(x \<mapsto> captured c w')\<rparr>)"
        by (simp add: frame_def)
      ultimately show ?thesis using Done by (simp add: assign_def frame_trans)
    next
      case (Aborted w')
      then show ?thesis using e [of w] by (simp add: assign_def)
    qed
  qed
qed

lemma on_cur_fields [simp]:
  "trace (on_cur f w) = trace w" "applied (on_cur f w) = applied w"
  "stdout (on_cur f w) = stdout w" "vars (on_cur f w) = vars w"
  "faults (on_cur f w) = faults w" "rejects (on_cur f w) = rejects w"
  "ready_after (on_cur f w) = ready_after w" "node_ip (on_cur f w) = node_ip w"
  "node_port (on_cur f w) = node_port w" "minikube_ip (on_cur f w) = minikube_ip w"
  "path_bins (on_cur f w) = path_bins w" "session_bins (on_cur f w) = session_bins w"
  "kube_context (on_cur f w) = kube_context w" "failed (on_cur f w) = failed w"
  by (simp_all add: on_cur_def split: option.splits)

lemma dom_on_cur [simp]: "dom (clusters (on_cur f w)) = dom (clusters w)"
  by (auto simp: on_cur_def split: option.splits)

lemma cur_on_cur [simp]: "cur (on_cur f w) = map_option f (cur w)"
  by (simp add: on_cur_def cur_def split: option.splits)

lemma cur_shell [simp]:
  "cur (w\<lparr>trace := t\<rparr>) = cur w" "cur (w\<lparr>stdout := l\<rparr>) = cur w"
  "cur (w\<lparr>vars := v\<rparr>) = cur w" "cur (w\<lparr>applied := a\<rparr>) = cur w"
  "cur (w\<lparr>path_bins := p\<rparr>) = cur w" "cur (w\<lparr>session_bins := q\<rparr>) = cur w"
  "cur (w\<lparr>failed := x\<rparr>) = cur w"
  by (simp_all add: cur_def split: option.splits)

lemma frame_apply_doc: "frame {KubectlApply ds} w (apply_doc d w)"
  by (simp add: apply_doc_def frame_def ns_labels_def split: option.splits)

lemma frame_fold_apply_doc: "frame {KubectlApply ds} w (fold apply_doc docs w)"
proof (induction docs arbitrary: w)
  case Nil
  show ?case by (simp add: frame_refl)
next
  case (Cons d docs)
  show ?case
    using frame_trans [OF frame_apply_doc [of ds w d] Cons [of "apply_doc d w"]] by simp
qed

lemma frame_kubectl_apply: "KubectlApply docs \<in> A \<Longrightarrow> step_rel (frame A) (kubectl_apply docs)"
proof -
  assume c: "KubectlApply docs \<in> A"
  have "frame {KubectlApply docs} w (final (kubectl_apply docs w))" for w
  proof -
    let ?w1 = "w\<lparr>trace := trace w @ [KubectlApply docs]\<rparr>"
    have 1: "frame {KubectlApply docs} w ?w1" by (rule frame_log)
    have 2: "frame {KubectlApply docs} w (fold apply_doc docs ?w1)"
      by (rule frame_trans [OF 1 frame_fold_apply_doc])
    show ?thesis using 1 2 by (simp add: kubectl_apply_def Let_def)
  qed
  then have "frame A w (final (kubectl_apply docs w))" for w
    using c frame_mono [of "{KubectlApply docs}" A w "final (kubectl_apply docs w)"] by simp
  then show ?thesis by (simp add: step_rel_def)
qed

lemma step_rel_if_not:
  assumes refl: "\<And>w. R w w" and trans: "\<And>a b c. R a b \<Longrightarrow> R b c \<Longrightarrow> R a c"
    and xs: "list_all (step_rel R) xs" and ys: "list_all (step_rel R) ys"
  shows "step_rel R (if_not p xs ys)"
proof -
  have x: "step_rel R (run xs)"
    by (rule step_rel_run [where R = R]) (fact refl, fact trans, fact xs)
  have y: "step_rel R (run ys)"
    by (rule step_rel_run [where R = R]) (fact refl, fact trans, fact ys)
  show ?thesis using x y by (simp add: step_rel_def if_not_def)
qed

lemmas frame_steps = frame_echo frame_echo_fun frame_exec frame_assign frame_kubectl_apply
  frame_if_not


lemma tool_kept_refl: "tool_kept b w w"
  by (simp add: tool_kept_def frame_refl)

lemma tool_kept_trans: "tool_kept b x y \<Longrightarrow> tool_kept b y z \<Longrightarrow> tool_kept b x z"
  unfolding tool_kept_def
  using frameD(4) frame_trans by blast

lemma tool_kept_frame:
  "step_rel (frame {c. fetches c \<noteq> Some b}) s \<Longrightarrow> step_rel (tool_kept b) s"
  by (simp add: step_rel_def tool_kept_def)

lemma run_single [simp]: "run [s] w = s w"
  by (cases "s w") simp_all

lemma tool_kept_check:
  assumes "list_all (\<lambda>c. fetches c = Some t) cs"
  shows "step_rel (tool_kept b) (if_not (command_exists t) (echo m # map exec cs) [echo m'])"
proof (cases "b = t")
  case True
  have "frame {c. fetches c \<noteq> Some b} w (final (echo m' w))" for w
    using frame_echo [of "{c. fetches c \<noteq> Some b}" m'] by (simp add: step_rel_def)
  then show ?thesis
    using True by (simp add: step_rel_def tool_kept_def if_not_def command_exists_def echo_def)
next
  case False
  have "list_all (step_rel (frame {c. fetches c \<noteq> Some b})) (map exec cs)"
    using assms False by (auto simp: list_all_iff intro!: frame_exec)
  then show ?thesis
    by (intro tool_kept_frame frame_if_not) (simp_all add: frame_echo)
qed

lemma tool_kept_kubectl_check: "step_rel (tool_kept b) deployment_kubectl_check"
  using tool_kept_check [of "''kubectl''" "[CurlKubectl, InstallKubectl]" b]
  by (simp add: deployment_kubectl_check_def KUBECTL_BIN_def)

lemma tool_kept_kind_check: "step_rel (tool_kept b) deployment_kind_check"
  using tool_kept_check [of "''kind''" "[CurlKind, ChmodKind, MvKind]" b]
  by (simp add: deployment_kind_check_def KIND_BIN_def)

lemma tool_kept_istioctl_check: "step_rel (tool_kept b) deployment_istioctl_check"
  using tool_kept_check [of "''istioctl''" "[DownloadIstio, CdIstio, ExportIstioPath, CdRoot]" b]
  by (simp add: deployment_istioctl_check_def)

lemma tool_kept_minikube_check: "step_rel (tool_kept b) miniIstio_minikube_check"
  using tool_kept_check [of "''minikube''" "[CurlMinikube, InstallMinikube]" b]
  by (simp add: miniIstio_minikube_check_def)

lemmas tool_kept_steps =
  tool_kept_kubectl_check tool_kept_kind_check tool_kept_istioctl_check
  tool_kept_minikube_check
  frame_echo [THEN tool_kept_frame] frame_echo_fun [THEN tool_kept_frame]
  frame_exec [THEN tool_kept_frame] frame_assign [THEN tool_kept_frame]
  frame_kubectl_apply [THEN tool_kept_frame]

lemma tool_kept_run:
  assumes "list_all (step_rel (tool_kept b)) ss"
  shows "step_rel (tool_kept b) (run ss)"
proof (rule step_rel_run [where R = "tool_kept b"])
  show "\<And>w. tool_kept b w w" by (rule tool_kept_refl)
  show "\<And>x y z. tool_kept b x y \<Longrightarrow> tool_kept b y z \<Longrightarrow> tool_kept b x z"
    by (rule tool_kept_trans)
  show "list_all (step_rel (tool_kept b)) ss" by fact
qed

lemma tool_kept_if_not:
  assumes "list_all (step_rel (tool_kept b)) xs" and "list_all (step_rel (tool_kept b)) ys"
  shows "step_rel (tool_kept b) (if_not p xs ys)"
  using tool_kept_run [OF assms(1)] tool_kept_run [OF assms(2)]
  by (simp add: step_rel_def if_not_def)

lemma tool_kept_deployment: "step_rel (tool_kept b) (run deployment_sh)"
  by (rule tool_kept_run)
    (simp add: deployment_sh_def deployment_report_def deployment_cluster_check_def
      deployment_namespace_check_def deployment_label_def tool_kept_steps tool_kept_if_not)

lemma tool_kept_miniIstio: "step_rel (tool_kept b) (run miniIstio_sh)"
  by (rule tool_kept_run)
    (simp add: miniIstio_sh_def miniIstio_report_def miniIstio_cluster_check_def
      miniIstio_namespace_check_def miniIstio_label_def miniIstio_wait_def
      tool_kept_steps tool_kept_if_not)

lemma new_shell_fields [simp]:
  "path_bins (new_shell w) = path_bins w" "session_bins (new_shell w) = {}"
  "trace (new_shell w) = []" "applied (new_shell w) = []" "stdout (new_shell w) = []"
  "clusters (new_shell w) = clusters w" "kube_context (new_shell w) = kube_context w"
  "faults (new_shell w) = faults w" "rejects (new_shell w) = rejects w"
  "ready_after (new_shell w) = ready_after w" "vars (new_shell w) = Map.empty"
  "node_ip (new_shell w) = node_ip w" "node_port (new_shell w) = node_port w"
  "minikube_ip (new_shell w) = minikube_ip w" "failed (new_shell w) = []"
  by (simp_all add: new_shell_def)

subsection \<open>Tools on the PATH are not fetched\<close>

text \<open>
  Each check leaves the state alone, but for the line it prints, when the tool is found.
\<close>

lemma tool_checks_noop:
  "command_exists KUBECTL_BIN w \<Longrightarrow>
     deployment_kubectl_check w = Done (w\<lparr>stdout := stdout w @ [''kubectl is already installed.'']\<rparr>)"
  "command_exists KIND_BIN w \<Longrightarrow>
     deployment_kind_check w = Done (w\<lparr>stdout := stdout w @ [''kind is already installed.'']\<rparr>)"
  "command_exists ''istioctl'' w \<Longrightarrow>
     deployment_istioctl_check w = Done (w\<lparr>stdout := stdout w @ [''Istio CLI already installed.'']\<rparr>)"
  "command_exists ''minikube'' w \<Longrightarrow>
     miniIstio_minikube_check w = Done (w\<lparr>stdout := stdout w @ [''Minikube is already installed.'']\<rparr>)"
  by (simp_all add: deployment_kubectl_check_def deployment_kind_check_def
      deployment_istioctl_check_def miniIstio_minikube_check_def if_not_def echo_def)

text \<open>
  A tool (kubectl, kind, istioctl, minikube) that is on the PATH of every shell when a
  script starts is not fetched: no run of either script starts a command that downloads
  or installs it. This is about the PATH, which is what \<^verbatim>\<open>command_exists\<close> looks at; a
  binary that is on the host but not on the PATH of a new shell is not covered (see the
  second run of deployment.sh below).
\<close>

lemma tool_on_path_not_fetched:
  assumes "b \<in> path_bins w"
  shows "list_all (\<lambda>c. fetches c \<noteq> Some b) (trace (final (deployment w))) \<and>
         list_all (\<lambda>c. fetches c \<noteq> Some b) (trace (final (miniIstio w)))"
proof -
  have "frame {c. fetches c \<noteq> Some b} (new_shell w) (final (deployment w))"
    using tool_kept_deployment [of b] assms
    by (simp add: step_rel_def tool_kept_def deployment_def)
  from frameD(1) [OF this] have d: "set (trace (final (deployment w))) \<subseteq> {c. fetches c \<noteq> Some b}"
    by auto
  have "frame {c. fetches c \<noteq> Some b} (new_shell w) (final (miniIstio w))"
    using tool_kept_miniIstio [of b] assms
    by (simp add: step_rel_def tool_kept_def miniIstio_def)
  from frameD(1) [OF this] have m: "set (trace (final (miniIstio w))) \<subseteq> {c. fetches c \<noteq> Some b}"
    by auto
  show ?thesis using d m by (auto simp: list_all_iff)
qed


subsection \<open>C4: the pipeline is fail-fast\<close>

lemma run_aborted_append: "\<not> completed (run xs w) \<Longrightarrow> run (xs @ ys) w = run xs w"
  by (cases "run xs w") (simp_all add: run_append)

lemma run_fail_fast:
  "run pre w = Done w1 \<Longrightarrow> s w1 = Aborted w2 \<Longrightarrow> run (pre @ s # post) w = Aborted w2"
  by (simp add: run_append)

lemma fail_fast_echo: "fail_fast (echo s)"
  by (simp add: fail_fast_def echo_def)

lemma fail_fast_echo_fun: "fail_fast (\<lambda>w. echo (f w) w)"
  by (simp add: fail_fast_def echo_def)

lemma fail_fast_exec: "fail_fast (exec c)"
  by (simp add: fail_fast_def exec_def Let_def)

lemma fail_fast_assign: "fail_fast (assign x c)"
  by (simp add: fail_fast_def assign_def exec_def Let_def)

lemma fold_apply_doc_shell [simp]:
  "trace (fold apply_doc docs w) = trace w" "failed (fold apply_doc docs w) = failed w"
  by (induction docs arbitrary: w) (simp_all add: apply_doc_def split: option.splits)

lemma fail_fast_kubectl_apply: "fail_fast (kubectl_apply docs)"
  by (simp add: fail_fast_def kubectl_apply_def Let_def)

lemma fail_fastD:
  assumes "fail_fast s" and "failed w = []"
  shows "s w = Done w' \<Longrightarrow> failed w' = []"
    and "s w = Aborted w' \<Longrightarrow> trace w' \<noteq> [] \<and> failed w' = [last (trace w')]"
proof -
  have "case s w of Done w' \<Rightarrow> failed w' = []
        | Aborted w' \<Rightarrow> trace w' \<noteq> [] \<and> failed w' = [last (trace w')]"
    using assms unfolding fail_fast_def by blast
  then show "s w = Done w' \<Longrightarrow> failed w' = []"
    and "s w = Aborted w' \<Longrightarrow> trace w' \<noteq> [] \<and> failed w' = [last (trace w')]"
    by simp_all
qed

lemma fail_fast_run: "list_all fail_fast ss \<Longrightarrow> fail_fast (run ss)"
proof (induction ss)
  case Nil
  show ?case by (simp add: fail_fast_def)
next
  case (Cons s ss)
  then have s: "fail_fast s" and ih: "fail_fast (run ss)" by simp_all
  show ?case
    unfolding fail_fast_def
  proof (intro allI impI)
    fix w :: world
    assume w: "failed w = []"
    show "case run (s # ss) w of Done w' \<Rightarrow> failed w' = []
          | Aborted w' \<Rightarrow> trace w' \<noteq> [] \<and> failed w' = [last (trace w')]"
    proof (cases "s w")
      case (Done w1)
      have w1: "failed w1 = []" by (rule fail_fastD(1) [OF s w Done])
      show ?thesis
      proof (cases "run ss w1")
        case (Done w2)
        then show ?thesis
          using fail_fastD(1) [OF ih w1 Done] \<open>s w = Done w1\<close> by simp
      next
        case (Aborted w2)
        then show ?thesis
          using fail_fastD(2) [OF ih w1 Aborted] \<open>s w = Done w1\<close> by simp
      qed
    next
      case (Aborted w1)
      then show ?thesis using fail_fastD(2) [OF s w Aborted] by simp
    qed
  qed
qed

lemma fail_fast_if_not:
  assumes "list_all fail_fast xs" and "list_all fail_fast ys"
  shows "fail_fast (if_not p xs ys)"
proof -
  have x: "fail_fast (run xs)" and y: "fail_fast (run ys)"
    using assms by (simp_all add: fail_fast_run)
  show ?thesis
    unfolding fail_fast_def if_not_def
    using x [unfolded fail_fast_def] y [unfolded fail_fast_def] by simp
qed

lemmas fail_fast_steps = fail_fast_echo fail_fast_echo_fun fail_fast_exec fail_fast_assign
  fail_fast_kubectl_apply fail_fast_if_not

lemma fail_fast_deployment: "fail_fast (run deployment_sh)"
  by (rule fail_fast_run)
    (simp add: deployment_sh_def deployment_report_def deployment_cluster_check_def
      deployment_namespace_check_def deployment_label_def deployment_kubectl_check_def
      deployment_kind_check_def deployment_istioctl_check_def fail_fast_steps)

lemma fail_fast_miniIstio: "fail_fast (run miniIstio_sh)"
  by (rule fail_fast_run)
    (simp add: miniIstio_sh_def miniIstio_report_def miniIstio_cluster_check_def
      miniIstio_namespace_check_def miniIstio_label_def miniIstio_wait_def
      miniIstio_minikube_check_def fail_fast_steps)

lemma miniIstio_sh_split: "\<exists>rest. miniIstio_sh = miniIstio_mesh @ rest"
  by (simp add: miniIstio_sh_def miniIstio_mesh_def)

lemma frame_mesh: "step_rel (frame miniIstio_mesh_cmds) (run miniIstio_mesh)"
  by (rule frame_run)
    (simp add: miniIstio_mesh_def miniIstio_wait_def miniIstio_minikube_check_def
      miniIstio_cluster_check_def miniIstio_mesh_cmds_def frame_steps)

lemma ns_same_refl: "ns_same w w"
  by (simp add: ns_same_def)

lemma ns_same_trans: "ns_same a b \<Longrightarrow> ns_same b c \<Longrightarrow> ns_same a c"
  by (simp add: ns_same_def)

lemma ns_same_run:
  assumes "list_all (step_rel ns_same) ss"
  shows "step_rel ns_same (run ss)"
proof (rule step_rel_run [where R = ns_same])
  show "\<And>w. ns_same w w" by (rule ns_same_refl)
  show "\<And>a b c. ns_same a b \<Longrightarrow> ns_same b c \<Longrightarrow> ns_same a c" by (rule ns_same_trans)
  show "list_all (step_rel ns_same) ss" by fact
qed

lemma ns_same_if_not:
  assumes "list_all (step_rel ns_same) xs" and "list_all (step_rel ns_same) ys"
  shows "step_rel ns_same (if_not p xs ys)"
  using ns_same_run [OF assms(1)] ns_same_run [OF assms(2)]
  by (simp add: step_rel_def if_not_def)

lemma ns_same_echo: "step_rel ns_same (echo s)"
  by (simp add: step_rel_def ns_same_def ns_in_def echo_def)

lemma ns_in_shell [simp]:
  "ns_in n ns (w\<lparr>trace := x\<rparr>) = ns_in n ns w"
  "ns_in n ns (w\<lparr>failed := y\<rparr>) = ns_in n ns w"
  "ns_in n ns (w\<lparr>stdout := z\<rparr>) = ns_in n ns w"
  "ns_in n ns (w\<lparr>path_bins := p\<rparr>) = ns_in n ns w"
  by (simp_all add: ns_in_def)

lemma ns_in_effect:
  "c \<in> miniIstio_mesh_cmds \<Longrightarrow> ns_in n NAMESPACE (effect c w) = ns_in n NAMESPACE w"
  by (auto simp: miniIstio_mesh_cmds_def ns_in_def new_cluster_def NAMESPACE_def
      split: option.splits if_splits)

lemma ns_same_exec:
  "c \<in> miniIstio_mesh_cmds \<Longrightarrow> step_rel ns_same (exec c)"
  by (simp add: step_rel_def ns_same_def exec_def Let_def ns_in_effect)

lemma ns_same_mesh: "step_rel ns_same (run miniIstio_mesh)"
  by (rule ns_same_run)
    (simp add: miniIstio_mesh_def miniIstio_wait_def miniIstio_minikube_check_def
      miniIstio_cluster_check_def ns_same_if_not ns_same_echo ns_same_exec
      miniIstio_mesh_cmds_def)

lemma ready_within_shell [simp]:
  "ready_within l t (w\<lparr>trace := x\<rparr>) = ready_within l t w"
  "ready_within l t (w\<lparr>stdout := y\<rparr>) = ready_within l t w"
  by (simp_all add: ready_within_def)

lemma ready_within_effect [simp]: "ready_within l t (effect c w) = ready_within l t w"
  by (simp add: ready_within_def)

lemma wait_completed:
  "completed (run miniIstio_wait w) \<Longrightarrow>
   ready_within ''app=istiod'' 180 w \<and> ready_within ''app=istio-ingressgateway'' 180 w"
  by (simp add: miniIstio_wait_def echo_def exec_def Let_def split: if_splits)

lemma mesh_not_completed:
  assumes "\<not> ready_within ''app=istiod'' 180 w \<or> \<not> ready_within ''app=istio-ingressgateway'' 180 w"
  shows "\<not> completed (run miniIstio_mesh w)"
proof
  assume c: "completed (run miniIstio_mesh w)"
  let ?pre = "[echo ''========== MINIKUBE & ISTIO SETUP =========='',
      miniIstio_minikube_check, miniIstio_cluster_check,
      echo ''Enabling Istio addon in Minikube...'',
      exec (MinikubeAddonsEnable ''istio'')]"
  have split: "miniIstio_mesh = ?pre @ miniIstio_wait" by (simp add: miniIstio_mesh_def)
  have f: "step_rel (frame miniIstio_mesh_cmds) (run ?pre)"
    by (rule frame_run)
      (simp add: miniIstio_minikube_check_def miniIstio_cluster_check_def
        miniIstio_mesh_cmds_def frame_steps)
  from c obtain w1 where w1: "run ?pre w = Done w1" and c2: "completed (run miniIstio_wait w1)"
    unfolding split run_append by (cases "run ?pre w") (simp_all del: run.simps)
  have "frame miniIstio_mesh_cmds w (final (run ?pre w))"
    using f unfolding step_rel_def by blast
  then have "frame miniIstio_mesh_cmds w w1" using w1 by (simp del: run.simps)
  then have "ready_after w1 = ready_after w" by (rule frameD(8))
  then have "ready_within l t w1 = ready_within l t w" for l t by (simp add: ready_within_def)
  with wait_completed [OF c2] assms show False by simp
qed

lemma fail_fast_outcome:
  "case deployment w of
     Done w' \<Rightarrow> failed w' = []
   | Aborted w' \<Rightarrow> trace w' \<noteq> [] \<and> failed w' = [last (trace w')]"
  "case miniIstio w of
     Done w' \<Rightarrow> failed w' = []
   | Aborted w' \<Rightarrow> trace w' \<noteq> [] \<and> failed w' = [last (trace w')]"
  using fail_fast_deployment fail_fast_miniIstio
  unfolding fail_fast_def deployment_def miniIstio_def
  by (simp_all del: run.simps)

lemma mesh_timeout:
  assumes "\<not> ready_within ''app=istiod'' 180 w \<or>
           \<not> ready_within ''app=istio-ingressgateway'' 180 w"
  shows "\<not> completed (miniIstio w)"
    and "set (trace (final (miniIstio w))) \<subseteq> miniIstio_mesh_cmds"
    and "applied (final (miniIstio w)) = []"
    and "ns_in n NAMESPACE (final (miniIstio w)) = ns_in n NAMESPACE w"
proof -
  let ?w = "new_shell w"
  have r: "\<not> ready_within ''app=istiod'' 180 ?w \<or>
           \<not> ready_within ''app=istio-ingressgateway'' 180 ?w"
    using assms by (simp add: ready_within_def)
  have nc: "\<not> completed (run miniIstio_mesh ?w)" by (rule mesh_not_completed [OF r])
  obtain rest where rest: "miniIstio_sh = miniIstio_mesh @ rest"
    using miniIstio_sh_split by blast
  have eq: "miniIstio w = run miniIstio_mesh ?w"
    unfolding miniIstio_def rest by (rule run_aborted_append [OF nc])
  show "\<not> completed (miniIstio w)" using nc eq by simp
  have f: "frame miniIstio_mesh_cmds ?w (final (miniIstio w))"
    using frame_mesh unfolding step_rel_def eq by blast
  show "set (trace (final (miniIstio w))) \<subseteq> miniIstio_mesh_cmds"
    using frameD(1) [OF f] by auto
  have "\<forall>c\<in>miniIstio_mesh_cmds. \<not> applies c" by (simp add: miniIstio_mesh_cmds_def)
  from frameD(16) [OF f this] show "applied (final (miniIstio w)) = []" by simp
  have "ns_same ?w (final (miniIstio w))"
    using ns_same_mesh unfolding step_rel_def eq by blast
  then show "ns_in n NAMESPACE (final (miniIstio w)) = ns_in n NAMESPACE w"
    by (simp add: ns_same_def ns_in_def)
qed

text \<open>
  In deployment.sh the namespace is created (lines 43-47) before the mesh is installed
  (line 64) and labeled after it (line 71); deployment.sh has no bounded wait.
\<close>

lemma deployment_namespace_before_mesh:
  "deployment_sh ! 3 = deployment_namespace_check"
  "deployment_sh ! 7 = exec (IstioctlInstall ''demo'')"
  "deployment_sh ! 10 = deployment_label"
  by (simp_all add: deployment_sh_def)

text \<open>
  C4. Whatever stage of either script is aborted, the run is aborted in the state that
  stage leaves, so no later stage runs. In every run of either script no command has
  failed when the run completes, and when it is aborted exactly one command has failed:
  the last one started. In particular, if istiod or the ingress gateway is not Ready
  within the 180 seconds of \<^verbatim>\<open>kubectl wait\<close>, miniIstio.sh is aborted having started
  only commands of the mesh part: no namespace is created or labeled, nothing is applied,
  and the target namespace is, in every cluster, as it was.
\<close>

theorem C4_fail_fast:
  "((sh = deployment_sh \<or> sh = miniIstio_sh) \<and> sh = pre @ s # post \<and>
    run pre v = Done v1 \<and> s v1 = Aborted v2 \<longrightarrow> run sh v = Aborted v2) \<and>
   (case deployment w of
      Done w' \<Rightarrow> failed w' = []
    | Aborted w' \<Rightarrow> trace w' \<noteq> [] \<and> failed w' = [last (trace w')]) \<and>
   (case miniIstio w of
      Done w' \<Rightarrow> failed w' = []
    | Aborted w' \<Rightarrow> trace w' \<noteq> [] \<and> failed w' = [last (trace w')]) \<and>
   (\<not> ready_within ''app=istiod'' 180 w \<or> \<not> ready_within ''app=istio-ingressgateway'' 180 w \<longrightarrow>
      \<not> completed (miniIstio w) \<and>
      set (trace (final (miniIstio w))) \<subseteq> miniIstio_mesh_cmds \<and>
      list_all (\<lambda>c. \<not> reconciles_namespace c \<and> \<not> applies c) (trace (final (miniIstio w))) \<and>
      applied (final (miniIstio w)) = [] \<and>
      (\<forall>n. ns_in n NAMESPACE (final (miniIstio w)) = ns_in n NAMESPACE w))"
proof (intro conjI impI allI)
  assume "(sh = deployment_sh \<or> sh = miniIstio_sh) \<and> sh = pre @ s # post \<and>
    run pre v = Done v1 \<and> s v1 = Aborted v2"
  then show "run sh v = Aborted v2" by (simp add: run_fail_fast)
next
  show "case deployment w of
      Done w' \<Rightarrow> failed w' = []
    | Aborted w' \<Rightarrow> trace w' \<noteq> [] \<and> failed w' = [last (trace w')]"
    by (rule fail_fast_outcome)
next
  show "case miniIstio w of
      Done w' \<Rightarrow> failed w' = []
    | Aborted w' \<Rightarrow> trace w' \<noteq> [] \<and> failed w' = [last (trace w')]"
    by (rule fail_fast_outcome)
next
  assume a: "\<not> ready_within ''app=istiod'' 180 w \<or>
             \<not> ready_within ''app=istio-ingressgateway'' 180 w"
  show "\<not> completed (miniIstio w)" by (rule mesh_timeout(1) [OF a])
  show "set (trace (final (miniIstio w))) \<subseteq> miniIstio_mesh_cmds"
    by (rule mesh_timeout(2) [OF a])
  then show "list_all (\<lambda>c. \<not> reconciles_namespace c \<and> \<not> applies c)
               (trace (final (miniIstio w)))"
    by (auto simp: list_all_iff miniIstio_mesh_cmds_def)
  show "applied (final (miniIstio w)) = []" by (rule mesh_timeout(3) [OF a])
  show "ns_in n NAMESPACE (final (miniIstio w)) = ns_in n NAMESPACE w" for n
    by (rule mesh_timeout(4) [OF a])
qed

lemmas miniIstio_defs =
  miniIstio_sh_def miniIstio_minikube_check_def miniIstio_cluster_check_def
  miniIstio_wait_def miniIstio_namespace_check_def miniIstio_label_def miniIstio_report_def

lemmas shell_defs =
  if_not_def echo_def exec_def assign_def Let_def command_exists_def minikube_status_def
  kubectl_usable_def kube_reachable_def cur_def ns_labels_def kubectl_version_short_def
  kubectl_get_namespace_def ready_within_def new_cluster_def

lemma never_ready_run:
  "completed (run (take 6 miniIstio_sh) (new_shell never_ready))"
  "\<not> completed ((miniIstio_sh ! 6) (final (run (take 6 miniIstio_sh) (new_shell never_ready))))"
  by (simp_all add: miniIstio_defs shell_defs never_ready_def bare_host_def new_shell_def)

theorem C4_fail_fast_witness:
  "miniIstio_sh = take 6 miniIstio_sh @ miniIstio_sh ! 6 # drop 7 miniIstio_sh \<and>
   completed (run (take 6 miniIstio_sh) (new_shell never_ready)) \<and>
   \<not> completed ((miniIstio_sh ! 6) (final (run (take 6 miniIstio_sh) (new_shell never_ready)))) \<and>
   run miniIstio_sh (new_shell never_ready) =
     Aborted (final ((miniIstio_sh ! 6) (final (run (take 6 miniIstio_sh) (new_shell never_ready))))) \<and>
   \<not> ready_within ''app=istiod'' 180 never_ready \<and>
   \<not> completed (miniIstio never_ready) \<and>
   set (trace (final (miniIstio never_ready))) \<subseteq> miniIstio_mesh_cmds \<and>
   applied (final (miniIstio never_ready)) = [] \<and>
   ns_in ''minikube'' NAMESPACE (final (miniIstio never_ready)) = None \<and>
   failed (final (miniIstio never_ready)) = [KubectlWait ''app=istiod'' 180]"
proof -
  let ?W = "new_shell never_ready"
  have split: "miniIstio_sh = take 6 miniIstio_sh @ miniIstio_sh ! 6 # drop 7 miniIstio_sh"
    by (simp add: miniIstio_defs)
  obtain w1 where w1: "run (take 6 miniIstio_sh) ?W = Done w1"
    using never_ready_run(1) by (cases "run (take 6 miniIstio_sh) ?W") simp_all
  obtain w2 where w2: "(miniIstio_sh ! 6) w1 = Aborted w2"
    using never_ready_run(2) w1 by (cases "(miniIstio_sh ! 6) w1") simp_all
  have nr: "\<not> ready_within ''app=istiod'' 180 never_ready"
    by (simp add: ready_within_def never_ready_def)
  note C4 = C4_fail_fast [of miniIstio_sh "take 6 miniIstio_sh" "miniIstio_sh ! 6"
      "drop 7 miniIstio_sh" ?W w1 w2 never_ready]
  have run: "run miniIstio_sh ?W = Aborted w2"
    using C4 split w1 w2 by blast
  have rest: "\<not> completed (miniIstio never_ready) \<and>
      set (trace (final (miniIstio never_ready))) \<subseteq> miniIstio_mesh_cmds \<and>
      applied (final (miniIstio never_ready)) = [] \<and>
      ns_in ''minikube'' NAMESPACE (final (miniIstio never_ready)) =
        ns_in ''minikube'' NAMESPACE never_ready"
    using C4 nr by blast
  have ns: "ns_in ''minikube'' NAMESPACE never_ready = None"
    by (simp add: ns_in_def never_ready_def bare_host_def)
  have w2': "w2 = final ((miniIstio_sh ! 6) (final (run (take 6 miniIstio_sh) ?W)))"
    using w1 w2 by simp
  have tr: "trace w2 \<noteq> [] \<and> failed w2 = [last (trace w2)]"
    using C4 run by (simp add: miniIstio_def)
  have "(miniIstio_sh ! 6) = exec (KubectlWait ''app=istiod'' 180)"
    by (simp add: miniIstio_defs)
  then have "last (trace w2) = KubectlWait ''app=istiod'' 180"
    using w2 by (auto simp: exec_def Let_def split: if_splits)
  then have fl: "failed (final (miniIstio never_ready)) = [KubectlWait ''app=istiod'' 180]"
    using tr run by (simp add: miniIstio_def)
  show ?thesis
    using split never_ready_run run w2' nr rest ns fl by simp
qed

subsection \<open>Example runs\<close>

text \<open>
  deployment.sh on the bare host: it installs kubectl, kind and istioctl, creates the
  cluster and the namespace, installs the mesh, labels the namespace and applies the
  eight objects.
\<close>

lemma ident_deployment_docs:
  "ident deployment_mongo_service = Some (''Service'', ''helix'', ''mongo'')"
  "ident deployment_mongo_statefulset = Some (''StatefulSet'', ''helix'', ''mongo'')"
  "ident deployment_backend_deployment = Some (''Deployment'', ''helix'', ''ecommerce-backend'')"
  "ident deployment_backend_service = Some (''Service'', ''helix'', ''ecommerce-backend'')"
  "ident deployment_frontend_deployment = Some (''Deployment'', ''helix'', ''ecommerce-frontend'')"
  "ident deployment_frontend_service = Some (''Service'', ''helix'', ''ecommerce-frontend'')"
  "ident deployment_gateway = Some (''Gateway'', ''helix'', ''ecommerce-gateway'')"
  "ident deployment_virtualservice =
     Some (''VirtualService'', ''helix'', ''ecommerce-virtualservice'')"
  by (simp_all add: ident_def NAMESPACE_def deployment_doc_defs)

lemma ident_miniIstio_docs:
  "ident miniIstio_mongo_service = Some (''Service'', ''helix'', ''mongo'')"
  "ident miniIstio_mongo_statefulset = Some (''StatefulSet'', ''helix'', ''mongo'')"
  "ident miniIstio_backend_deployment = Some (''Deployment'', ''helix'', ''ecommerce-backend'')"
  "ident miniIstio_backend_service = Some (''Service'', ''helix'', ''ecommerce-backend'')"
  "ident miniIstio_frontend_deployment = Some (''Deployment'', ''helix'', ''ecommerce-frontend'')"
  "ident miniIstio_frontend_service = Some (''Service'', ''helix'', ''ecommerce-frontend'')"
  "ident miniIstio_gateway = Some (''Gateway'', ''helix'', ''ecommerce-gateway'')"
  "ident miniIstio_virtualservice =
     Some (''VirtualService'', ''helix'', ''ecommerce-virtualservice'')"
  by (simp_all add: ident_def NAMESPACE_def miniIstio_doc_defs)

lemma claim_ids_docs:
  "claim_ids deployment_mongo_statefulset = [(''helix'', ''mongo-persistent-storage'', ''mongo'', 0)]"
  "claim_ids miniIstio_mongo_statefulset = [(''helix'', ''mongo-persistent-storage'', ''mongo'', 0)]"
  by (simp_all add: claim_ids_def ident_def NAMESPACE_def
      deployment_mongo_statefulset_def miniIstio_mongo_statefulset_def)

lemma claim_ids_other:
  "ident d = Some (k, ns, n) \<Longrightarrow> k \<noteq> ''StatefulSet'' \<Longrightarrow> claim_ids d = []"
  by (simp add: claim_ids_def)

lemmas claim_ids_rest =
  claim_ids_other [OF ident_deployment_docs(1)] claim_ids_other [OF ident_deployment_docs(3)]
  claim_ids_other [OF ident_deployment_docs(4)] claim_ids_other [OF ident_deployment_docs(5)]
  claim_ids_other [OF ident_deployment_docs(6)] claim_ids_other [OF ident_deployment_docs(7)]
  claim_ids_other [OF ident_deployment_docs(8)]
  claim_ids_other [OF ident_miniIstio_docs(1)] claim_ids_other [OF ident_miniIstio_docs(3)]
  claim_ids_other [OF ident_miniIstio_docs(4)] claim_ids_other [OF ident_miniIstio_docs(5)]
  claim_ids_other [OF ident_miniIstio_docs(6)] claim_ids_other [OF ident_miniIstio_docs(7)]
  claim_ids_other [OF ident_miniIstio_docs(8)]

lemmas eval_defs =
  deployment_def deployment_sh_def deployment_kubectl_check_def
  deployment_cluster_check_def deployment_kind_check_def deployment_namespace_check_def
  deployment_istioctl_check_def deployment_label_def deployment_report_def
  miniIstio_def miniIstio_defs
  deployment_mongo_docs_def deployment_app_docs_def
  miniIstio_mongo_docs_def miniIstio_app_docs_def miniIstio_route_docs_def
  new_shell_def kubectl_apply_def apply_doc_def doc_rejected_def on_cur_def var_def
  shell_defs KUBECTL_BIN_def KIND_BIN_def NAMESPACE_def
  ident_deployment_docs ident_miniIstio_docs claim_ids_docs claim_ids_rest

lemma deployment_bare_host:
  "case deployment bare_host of
     Done X \<Rightarrow>
       applied X =
         [(''Service'', ''helix'', ''mongo''), (''StatefulSet'', ''helix'', ''mongo''),
          (''Deployment'', ''helix'', ''ecommerce-backend''),
          (''Service'', ''helix'', ''ecommerce-backend''),
          (''Deployment'', ''helix'', ''ecommerce-frontend''),
          (''Service'', ''helix'', ''ecommerce-frontend''),
          (''Gateway'', ''helix'', ''ecommerce-gateway''),
          (''VirtualService'', ''helix'', ''ecommerce-virtualservice'')] \<and>
       trace X =
         [CurlKubectl, InstallKubectl, CurlKind, ChmodKind, MvKind,
          KindCreateCluster ''ecommerce-cluster'', KubectlCreateNamespace ''helix'',
          DownloadIstio, CdIstio, ExportIstioPath, CdRoot, IstioctlInstall ''demo'',
          KubectlPatchIngress ''NodePort'',
          KubectlLabel ''helix'' ''istio-injection'' (Some ''enabled'') True,
          KubectlApply deployment_mongo_docs, KubectlApply deployment_app_docs,
          KubectlGetNodeIP, KubectlGetNodePort] \<and>
       kube_context X = Some ''kind-ecommerce-cluster'' \<and>
       dom (clusters X) = {''kind-ecommerce-cluster''} \<and>
       (case ns_labels ''helix'' X of
          None \<Rightarrow> False
        | Some ls \<Rightarrow> ls ''istio-injection'' = Some ''enabled'') \<and>
       (case cur X of
          None \<Rightarrow> False
        | Some c \<Rightarrow> claims c = {(''helix'', ''mongo-persistent-storage'', ''mongo'', 0)})
   | Aborted X \<Rightarrow> False"
  by (simp add: eval_defs bare_host_def)

subsection \<open>C6: the datastore's Service is applied before the backend\<close>

lemma ident_deployment:
  "ident deployment_mongo_service = Some mongo_service_id"
  "ident deployment_mongo_statefulset = Some mongo_statefulset_id"
  "ident deployment_backend_deployment = Some backend_id"
  by (simp_all add: ident_def mongo_service_id_def mongo_statefulset_id_def backend_id_def
      deployment_mongo_service_def deployment_mongo_statefulset_def
      deployment_backend_deployment_def)

lemma ident_miniIstio:
  "ident miniIstio_mongo_service = Some mongo_service_id"
  "ident miniIstio_mongo_statefulset = Some mongo_statefulset_id"
  "ident miniIstio_backend_deployment = Some backend_id"
  by (simp_all add: ident_def mongo_service_id_def mongo_statefulset_id_def backend_id_def
      miniIstio_mongo_service_def miniIstio_mongo_statefulset_def
      miniIstio_backend_deployment_def)

lemma ids_distinct [simp]:
  "mongo_service_id \<noteq> backend_id" "mongo_statefulset_id \<noteq> backend_id"
  "backend_id \<noteq> mongo_service_id" "backend_id \<noteq> mongo_statefulset_id"
  "mongo_service_id \<noteq> mongo_statefulset_id" "mongo_statefulset_id \<noteq> mongo_service_id"
  by (simp_all add: mongo_service_id_def mongo_statefulset_id_def backend_id_def)

lemma takeWhile_notin:
  "b \<notin> set xs \<Longrightarrow> takeWhile (\<lambda>x. x \<noteq> b) (xs @ a) = xs @ takeWhile (\<lambda>x. x \<noteq> b) a"
  by (induction xs) auto

lemma takeWhile_in:
  "b \<in> set xs \<Longrightarrow> takeWhile (\<lambda>x. x \<noteq> b) (xs @ a) = takeWhile (\<lambda>x. x \<noteq> b) xs"
  by (induction xs) auto

lemma service_first_append:
  assumes "service_first w" and "applied w' = applied w @ a"
  shows "service_first w'"
proof (cases "backend_id \<in> set (applied w)")
  case True
  then have "takeWhile (\<lambda>x. x \<noteq> backend_id) (applied w @ a) =
             takeWhile (\<lambda>x. x \<noteq> backend_id) (applied w)"
    by (rule takeWhile_in)
  then show ?thesis using assms True by (simp add: service_first_def applied_before_def)
next
  case False
  then have "takeWhile (\<lambda>x. x \<noteq> backend_id) (applied w @ a) =
             applied w @ takeWhile (\<lambda>x. x \<noteq> backend_id) a"
    by (rule takeWhile_notin)
  then show ?thesis using assms by (simp add: service_first_def applied_before_def)
qed

lemma doc_rejected_shell [simp]:
  "doc_rejected (w\<lparr>trace := t\<rparr>) d = doc_rejected w d"
  "doc_rejected (w\<lparr>applied := a\<rparr>) d = doc_rejected w d"
  "doc_rejected (w\<lparr>failed := x\<rparr>) d = doc_rejected w d"
  by (simp_all add: doc_rejected_def split: option.splits)

lemma doc_rejected_apply_doc [simp]: "doc_rejected (apply_doc d' w) d = doc_rejected w d"
  by (simp add: doc_rejected_def apply_doc_def ns_labels_def split: option.splits)

lemma applied_apply_doc:
  "applied (apply_doc d w) =
     applied w @ (case ident d of None \<Rightarrow> [] | Some i \<Rightarrow> if doc_rejected w d then [] else [i])"
  by (simp add: apply_doc_def split: option.splits)

lemma apply_mongo_deployment:
  assumes "applied w = []"
  shows "case kubectl_apply deployment_mongo_docs w of
           Done w' \<Rightarrow> service_first w'
         | Aborted w' \<Rightarrow> backend_id \<notin> set (applied w')"
  using assms
  by (simp add: kubectl_apply_def Let_def deployment_mongo_docs_def applied_apply_doc
      service_first_def ident_deployment)

lemma apply_mongo_miniIstio:
  assumes "applied w = []"
  shows "case kubectl_apply miniIstio_mongo_docs w of
           Done w' \<Rightarrow> service_first w'
         | Aborted w' \<Rightarrow> backend_id \<notin> set (applied w')"
  using assms
  by (simp add: kubectl_apply_def Let_def miniIstio_mongo_docs_def applied_apply_doc
      service_first_def ident_miniIstio)

lemma service_first_script:
  assumes pre: "list_all (step_rel (frame {c. \<not> applies c})) pre"
    and post: "list_all (step_rel (frame UNIV)) post"
    and mongo: "\<And>v. applied v = [] \<Longrightarrow>
           (case kubectl_apply docs v of
              Done v' \<Rightarrow> service_first v'
            | Aborted v' \<Rightarrow> backend_id \<notin> set (applied v'))"
    and start: "applied w = []"
    and backend: "backend_id \<in> set (applied (final (run (pre @ kubectl_apply docs # post) w)))"
  shows "applied_before mongo_service_id backend_id
           (applied (final (run (pre @ kubectl_apply docs # post) w)))"
proof -
  let ?r = "run (pre @ kubectl_apply docs # post) w"
  have fpre: "frame {c. \<not> applies c} w (final (run pre w))"
    using frame_run [OF pre] unfolding step_rel_def by blast
  have a1: "applied (final (run pre w)) = []"
    using frameD(16) [OF fpre] start by simp
  show ?thesis
  proof (cases "run pre w")
    case (Aborted w1)
    then have "?r = Aborted w1" by (simp add: run_append)
    then show ?thesis using backend a1 Aborted by simp
  next
    case (Done w1)
    then have w1: "applied w1 = []" using a1 by simp
    show ?thesis
    proof (cases "kubectl_apply docs w1")
      case (Aborted w2)
      then have "?r = Aborted w2" using Done by (simp add: run_append)
      moreover have "backend_id \<notin> set (applied w2)" using mongo [OF w1] Aborted by simp
      ultimately show ?thesis using backend by simp
    next
      case Done2: (Done w2)
      then have r: "?r = run post w2" using Done by (simp add: run_append)
      have sf: "service_first w2" using mongo [OF w1] Done2 by simp
      have "frame UNIV w2 (final (run post w2))"
        using frame_run [OF post] unfolding step_rel_def by blast
      from frameD(2) [OF this] obtain a where "applied (final (run post w2)) = applied w2 @ a"
        by blast
      from service_first_append [OF sf this] show ?thesis
        using backend r by (simp add: service_first_def)
    qed
  qed
qed

lemma deployment_sh_split:
  "deployment_sh =
     [echo ''========== ENVIRONMENT & KUBERNETES SETUP =========='',
      deployment_kubectl_check,
      deployment_cluster_check,
      deployment_namespace_check,
      echo ''========== DEPLOYING APPS WITH ISTIO AND MONGODB =========='',
      deployment_istioctl_check,
      echo ''Installing Istio control plane...'',
      exec (IstioctlInstall ''demo''),
      echo ''Setting istio-ingressgateway Service to NodePort...'',
      exec (KubectlPatchIngress ''NodePort''),
      deployment_label]
     @ kubectl_apply deployment_mongo_docs
     # (kubectl_apply deployment_app_docs # deployment_report)"
  by (simp add: deployment_sh_def)

lemma miniIstio_sh_split_apply:
  "miniIstio_sh =
     (miniIstio_mesh @
      [miniIstio_namespace_check,
       echo (''Disabling Istio sidecar injection on '' @ NAMESPACE @ '' namespace...''),
       miniIstio_label,
       echo ''========== DEPLOYING MONGODB WITH MINIMAL RESOURCES =========='']) 
     @ kubectl_apply miniIstio_mongo_docs
     # ([echo ''========== DEPLOYING BACKEND AND FRONTEND APPS =========='',
        kubectl_apply miniIstio_app_docs,
        echo ''========== ISTIO GATEWAY SETUP =========='',
        kubectl_apply miniIstio_route_docs] @ miniIstio_report)"
  by (simp add: miniIstio_sh_def miniIstio_mesh_def)

lemmas check_defs =
  deployment_kubectl_check_def deployment_kind_check_def deployment_cluster_check_def
  deployment_namespace_check_def deployment_istioctl_check_def deployment_label_def
  miniIstio_minikube_check_def miniIstio_cluster_check_def miniIstio_namespace_check_def
  miniIstio_label_def miniIstio_wait_def miniIstio_mesh_def

text \<open>
  C6. In every run of either script, completed or aborted, if the backend Deployment (the
  only workload carrying the connection string) has been applied, the mongo Service was
  applied before it.
\<close>

theorem C6_service_before_backend:
  "ident deployment_mongo_service = Some mongo_service_id \<and>
   ident miniIstio_mongo_service = Some mongo_service_id \<and>
   ident deployment_backend_deployment = Some backend_id \<and>
   ident miniIstio_backend_deployment = Some backend_id \<and>
   (backend_id \<in> set (applied (final (deployment w))) \<longrightarrow>
      applied_before mongo_service_id backend_id (applied (final (deployment w)))) \<and>
   (backend_id \<in> set (applied (final (miniIstio w))) \<longrightarrow>
      applied_before mongo_service_id backend_id (applied (final (miniIstio w))))"
proof (intro conjI impI)
  assume b: "backend_id \<in> set (applied (final (deployment w)))"
  show "applied_before mongo_service_id backend_id (applied (final (deployment w)))"
    using b unfolding deployment_def deployment_sh_split
    by (intro service_first_script apply_mongo_deployment)
      (simp_all add: check_defs deployment_report_def frame_steps)
next
  assume b: "backend_id \<in> set (applied (final (miniIstio w)))"
  show "applied_before mongo_service_id backend_id (applied (final (miniIstio w)))"
    using b unfolding miniIstio_def miniIstio_sh_split_apply
    by (intro service_first_script apply_mongo_miniIstio)
      (simp_all add: check_defs miniIstio_report_def frame_steps)
qed (simp_all add: ident_deployment ident_miniIstio)

theorem C6_service_before_backend_witness:
  "backend_id \<in> set (applied (final (deployment bare_host))) \<and>
   applied_before mongo_service_id backend_id (applied (final (deployment bare_host)))"
proof -
  have b: "backend_id \<in> set (applied (final (deployment bare_host)))"
    using deployment_bare_host
    by (cases "deployment bare_host") (simp_all add: backend_id_def NAMESPACE_def)
  then show ?thesis
    using C6_service_before_backend [of bare_host] by blast
qed

subsection \<open>C3: the namespace and its injection label\<close>

lemma usable_shell [simp]:
  "kubectl_usable (w\<lparr>trace := t\<rparr>) = kubectl_usable w"
  "kubectl_usable (w\<lparr>stdout := l\<rparr>) = kubectl_usable w"
  "kubectl_usable (w\<lparr>failed := x\<rparr>) = kubectl_usable w"
  "kubectl_usable (w\<lparr>applied := a\<rparr>) = kubectl_usable w"
  "kubectl_usable (w\<lparr>vars := v\<rparr>) = kubectl_usable w"
  by (simp_all add: kubectl_usable_def kube_reachable_def command_exists_def)

lemma ns_labels_on_cur:
  "ns_labels ns (on_cur f w) = (case cur w of None \<Rightarrow> None | Some c \<Rightarrow> namespaces (f c) ns)"
  by (simp add: ns_labels_def split: option.splits)

lemma usable_on_cur:
  "(\<And>c. alive (f c) = alive c) \<Longrightarrow> kubectl_usable (on_cur f w) = kubectl_usable w"
  by (simp add: kubectl_usable_def kube_reachable_def command_exists_def split: option.splits)

lemma usable_cur: "kubectl_usable w \<Longrightarrow> \<exists>c. cur w = Some c"
  by (simp add: kubectl_usable_def kube_reachable_def split: option.splits)

lemma namespace_check_same: "miniIstio_namespace_check = deployment_namespace_check"
  by (simp add: miniIstio_namespace_check_def deployment_namespace_check_def)

lemma namespace_check_present:
  "kubectl_get_namespace NAMESPACE w \<Longrightarrow> deployment_namespace_check w = Done w"
  by (simp add: deployment_namespace_check_def if_not_def)

lemma namespace_check_keeps:
  assumes "ns_labels NAMESPACE w \<noteq> None"
  shows "ns_labels NAMESPACE (final (deployment_namespace_check w)) = ns_labels NAMESPACE w"
  using assms
  by (simp add: deployment_namespace_check_def if_not_def kubectl_get_namespace_def echo_def
      exec_def Let_def)

lemma namespace_check_creates:
  assumes "kubectl_usable w" and "ns_labels NAMESPACE w = None"
    and "\<not> faults w (KubectlCreateNamespace NAMESPACE)"
  shows "\<exists>w'. deployment_namespace_check w = Done w' \<and>
           ns_labels NAMESPACE w' = Some Map.empty \<and>
           (\<forall>ns. ns \<noteq> NAMESPACE \<longrightarrow> ns_labels ns w' = ns_labels ns w)"
proof -
  obtain c where c: "cur w = Some c" using usable_cur [OF assms(1)] by blast
  show ?thesis
    using assms c
    by (simp add: deployment_namespace_check_def if_not_def kubectl_get_namespace_def echo_def
        exec_def Let_def ns_labels_on_cur)
      (simp add: ns_labels_def)
qed

lemma label_command:
  assumes "kubectl_usable w" and "ns_labels ns w = Some ls"
    and "\<not> faults w (KubectlLabel ns k v True)"
  shows "exec (KubectlLabel ns k v True) w =
           Done ((on_cur (\<lambda>c. c\<lparr>namespaces := (namespaces c)(ns \<mapsto> ls(k := v))\<rparr>) w)
                   \<lparr>trace := trace w @ [KubectlLabel ns k v True]\<rparr>)"
  using assms
  by (auto simp: exec_def Let_def on_cur_def cur_def ns_labels_def split: option.splits)

lemma label_command_labels:
  assumes "kubectl_usable w" and "ns_labels ns w = Some ls"
    and "\<not> faults w (KubectlLabel ns k v True)"
  shows "\<exists>w'. exec (KubectlLabel ns k v True) w = Done w' \<and>
           ns_labels ns w' = Some (ls(k := v)) \<and>
           (\<exists>w''. exec (KubectlLabel ns k v True) w' = Done w'' \<and>
                  ns_labels ns w'' = ns_labels ns w')"
proof -
  let ?f = "\<lambda>l c. c\<lparr>namespaces := (namespaces c)(ns \<mapsto> l)\<rparr>"
  let ?w' = "(on_cur (?f (ls(k := v))) w)\<lparr>trace := trace w @ [KubectlLabel ns k v True]\<rparr>"
  obtain c where c: "cur w = Some c" using usable_cur [OF assms(1)] by blast
  have 1: "exec (KubectlLabel ns k v True) w = Done ?w'" by (rule label_command [OF assms])
  have 2: "ns_labels ns ?w' = Some (ls(k := v))" using c by (simp add: ns_labels_on_cur)
  have 3: "kubectl_usable ?w'" using assms(1) by (simp add: usable_on_cur)
  have 4: "\<not> faults ?w' (KubectlLabel ns k v True)" using assms(3) by simp
  have 5: "exec (KubectlLabel ns k v True) ?w' =
             Done ((on_cur (?f ((ls(k := v))(k := v))) ?w')
                    \<lparr>trace := trace ?w' @ [KubectlLabel ns k v True]\<rparr>)"
    by (rule label_command [OF 3 2 4])
  have 6: "cur ?w' \<noteq> None" using c by simp
  have 7: "ns_labels ns ((on_cur (?f ((ls(k := v))(k := v))) ?w')
                    \<lparr>trace := trace ?w' @ [KubectlLabel ns k v True]\<rparr>) = Some (ls(k := v))"
    using 6 by (simp add: ns_labels_on_cur split: option.splits)
  show ?thesis using 1 2 5 7 by simp
qed

lemma exec_done:
  assumes "exec c w = Done w'"
  shows "\<not> faults w c" and "\<not> refused c (w\<lparr>trace := trace w @ [c]\<rparr>)"
    and "w' = effect c (w\<lparr>trace := trace w @ [c]\<rparr>)"
  using assms by (simp_all add: exec_def Let_def split: if_splits)

lemma refused_label:
  "refused (KubectlLabel ns k v True) w = (\<not> kubectl_usable w \<or> ns_labels ns w = None)"
  by (simp split: option.splits)

lemma label_script:
  assumes post: "list_all (step_rel (frame {c. \<not> touches_namespaces c})) post"
    and fin: "completed (run (pre @ exec (KubectlLabel ns k v True) # post) w)"
  shows "(\<exists>ls. ns_labels ns (final (run (pre @ exec (KubectlLabel ns k v True) # post) w)) = Some ls
            \<and> ls k = v) \<and>
         KubectlLabel ns k v True
           \<in> set (trace (final (run (pre @ exec (KubectlLabel ns k v True) # post) w)))"
proof -
  let ?c = "KubectlLabel ns k v True"
  let ?r = "run (pre @ exec ?c # post) w"
  obtain w1 where w1: "run pre w = Done w1"
    using fin by (cases "run pre w") (simp_all add: run_append)
  obtain w2 where w2: "exec ?c w1 = Done w2"
    using fin w1 by (cases "exec ?c w1") (simp_all add: run_append)
  have r: "?r = run post w2" using w1 w2 by (simp add: run_append)
  have nf: "\<not> faults w1 ?c" by (rule exec_done(1) [OF w2])
  have "\<not> refused ?c (w1\<lparr>trace := trace w1 @ [?c]\<rparr>)" by (rule exec_done(2) [OF w2])
  then have u: "kubectl_usable w1" and "ns_labels ns w1 \<noteq> None"
    unfolding refused_label by simp_all
  then obtain ls where ls: "ns_labels ns w1 = Some ls" by blast
  have w2eq: "w2 = (on_cur (\<lambda>c. c\<lparr>namespaces := (namespaces c)(ns \<mapsto> ls(k := v))\<rparr>) w1)
                   \<lparr>trace := trace w1 @ [?c]\<rparr>"
    using label_command [OF u ls nf] w2 by simp
  obtain c where c: "cur w1 = Some c" using usable_cur [OF u] by blast
  have l2: "ns_labels ns w2 = Some (ls(k := v))"
    unfolding w2eq using c by (simp add: ns_labels_on_cur)
  have t2: "?c \<in> set (trace w2)" unfolding w2eq by simp
  have f: "frame {c. \<not> touches_namespaces c} w2 (final (run post w2))"
    using frame_run [OF post] unfolding step_rel_def by blast
  have "ns_labels ns (final (run post w2)) = ns_labels ns w2"
    by (rule frameD(14) [OF f]) simp
  moreover obtain t where "trace (final (run post w2)) = trace w2 @ t"
    using frameD(1) [OF f] by blast
  ultimately show ?thesis using l2 t2 r by simp
qed

lemma deployment_sh_split_label:
  "deployment_sh =
     [echo ''========== ENVIRONMENT & KUBERNETES SETUP =========='',
      deployment_kubectl_check,
      deployment_cluster_check,
      deployment_namespace_check,
      echo ''========== DEPLOYING APPS WITH ISTIO AND MONGODB =========='',
      deployment_istioctl_check,
      echo ''Installing Istio control plane...'',
      exec (IstioctlInstall ''demo''),
      echo ''Setting istio-ingressgateway Service to NodePort...'',
      exec (KubectlPatchIngress ''NodePort'')]
     @ exec (KubectlLabel NAMESPACE ''istio-injection'' (Some ''enabled'') True)
     # (kubectl_apply deployment_mongo_docs # kubectl_apply deployment_app_docs
        # deployment_report)"
  by (simp add: deployment_sh_def deployment_label_def)

lemma miniIstio_sh_split_label:
  "miniIstio_sh =
     (miniIstio_mesh @
      [miniIstio_namespace_check,
       echo (''Disabling Istio sidecar injection on '' @ NAMESPACE @ '' namespace...'')])
     @ exec (KubectlLabel NAMESPACE ''istio-injection'' None True)
     # ([echo ''========== DEPLOYING MONGODB WITH MINIMAL RESOURCES =========='',
         kubectl_apply miniIstio_mongo_docs,
         echo ''========== DEPLOYING BACKEND AND FRONTEND APPS =========='',
         kubectl_apply miniIstio_app_docs,
         echo ''========== ISTIO GATEWAY SETUP =========='',
         kubectl_apply miniIstio_route_docs] @ miniIstio_report)"
  by (simp add: miniIstio_sh_def miniIstio_mesh_def miniIstio_label_def)

lemma miniIstio_namespace_in_script:
  "\<exists>rest. miniIstio_sh = miniIstio_mesh @ miniIstio_namespace @ rest"
  by (simp add: miniIstio_sh_def miniIstio_mesh_def miniIstio_namespace_def)

lemma completed_label_deployment:
  assumes "completed (deployment w)"
  shows "(\<exists>ls. ns_labels NAMESPACE (final (deployment w)) = Some ls \<and>
               ls ''istio-injection'' = Some ''enabled'') \<and>
         KubectlLabel NAMESPACE ''istio-injection'' (Some ''enabled'') True
           \<in> set (trace (final (deployment w)))"
  using assms unfolding deployment_def deployment_sh_split_label
  by (intro label_script) (simp_all add: deployment_report_def frame_steps)

lemma completed_label_miniIstio:
  assumes "completed (miniIstio w)"
  shows "(\<exists>ls. ns_labels NAMESPACE (final (miniIstio w)) = Some ls \<and>
               ls ''istio-injection'' = None) \<and>
         KubectlLabel NAMESPACE ''istio-injection'' None True
           \<in> set (trace (final (miniIstio w)))"
  using assms unfolding miniIstio_def miniIstio_sh_split_label
  by (intro label_script) (simp_all add: miniIstio_report_def frame_steps)

text \<open>
  C3. Both scripts have the same namespace check. It does nothing when the namespace is
  found; it never changes the labels of a namespace that exists; and when the namespace is
  absent (and kubectl works) it creates it, leaving the other namespaces alone. The label
  command of deployment.sh sets istio-injection to enabled, and that of miniIstio.sh
  removes istio-injection, whatever labels the namespace had before; both succeed
  whenever kubectl reaches the cluster and the namespace exists, and a second invocation
  changes nothing. Every completed run has started the label command and ends with the
  label as the variant wants it.
\<close>

theorem C3_namespace_reconciliation:
  "miniIstio_namespace_check = deployment_namespace_check \<and>
   (kubectl_get_namespace NAMESPACE w \<longrightarrow> deployment_namespace_check w = Done w) \<and>
   (ns_labels NAMESPACE w \<noteq> None \<longrightarrow>
      ns_labels NAMESPACE (final (deployment_namespace_check w)) = ns_labels NAMESPACE w) \<and>
   (kubectl_usable w \<and> ns_labels NAMESPACE w = None \<and>
    \<not> faults w (KubectlCreateNamespace NAMESPACE) \<longrightarrow>
      (\<exists>w'. deployment_namespace_check w = Done w' \<and>
            ns_labels NAMESPACE w' = Some Map.empty \<and>
            (\<forall>ns. ns \<noteq> NAMESPACE \<longrightarrow> ns_labels ns w' = ns_labels ns w))) \<and>
   (kubectl_usable w \<and> ns_labels NAMESPACE w = Some ls \<and>
    \<not> faults w (KubectlLabel NAMESPACE ''istio-injection'' (Some ''enabled'') True) \<longrightarrow>
      (\<exists>w'. deployment_label w = Done w' \<and>
            ns_labels NAMESPACE w' = Some (ls(''istio-injection'' \<mapsto> ''enabled'')) \<and>
            (\<exists>w''. deployment_label w' = Done w'' \<and>
                   ns_labels NAMESPACE w'' = ns_labels NAMESPACE w'))) \<and>
   (kubectl_usable w \<and> ns_labels NAMESPACE w = Some ls \<and>
    \<not> faults w (KubectlLabel NAMESPACE ''istio-injection'' None True) \<longrightarrow>
      (\<exists>w'. miniIstio_label w = Done w' \<and>
            ns_labels NAMESPACE w' = Some (ls(''istio-injection'' := None)) \<and>
            (\<exists>w''. miniIstio_label w' = Done w'' \<and>
                   ns_labels NAMESPACE w'' = ns_labels NAMESPACE w'))) \<and>
   (completed (deployment w) \<longrightarrow>
      (\<exists>l. ns_labels NAMESPACE (final (deployment w)) = Some l \<and>
           l ''istio-injection'' = Some ''enabled'') \<and>
      KubectlLabel NAMESPACE ''istio-injection'' (Some ''enabled'') True
        \<in> set (trace (final (deployment w)))) \<and>
   (completed (miniIstio w) \<longrightarrow>
      (\<exists>l. ns_labels NAMESPACE (final (miniIstio w)) = Some l \<and>
           l ''istio-injection'' = None) \<and>
      KubectlLabel NAMESPACE ''istio-injection'' None True
        \<in> set (trace (final (miniIstio w))))"
  using namespace_check_same namespace_check_present [of w] namespace_check_keeps [of w]
    namespace_check_creates [of w]
    label_command_labels [of w NAMESPACE ls "''istio-injection''" "Some ''enabled''"]
    label_command_labels [of w NAMESPACE ls "''istio-injection''" None]
    completed_label_deployment [of w] completed_label_miniIstio [of w]
  unfolding deployment_label_def miniIstio_label_def
  by blast

text \<open>
  miniIstio.sh on the host with kubectl only: it installs and starts minikube, enables the
  addon, waits, creates the namespace, removes the label and applies the eight objects.
\<close>

lemma miniIstio_kubectl_host:
  "case miniIstio kubectl_host of
     Done X \<Rightarrow>
       applied X =
         [(''Service'', ''helix'', ''mongo''), (''StatefulSet'', ''helix'', ''mongo''),
          (''Deployment'', ''helix'', ''ecommerce-backend''),
          (''Service'', ''helix'', ''ecommerce-backend''),
          (''Deployment'', ''helix'', ''ecommerce-frontend''),
          (''Service'', ''helix'', ''ecommerce-frontend''),
          (''Gateway'', ''helix'', ''ecommerce-gateway''),
          (''VirtualService'', ''helix'', ''ecommerce-virtualservice'')] \<and>
       trace X =
         [CurlMinikube, InstallMinikube, MinikubeStart 4096 2 ''docker'',
          MinikubeAddonsEnable ''istio'', KubectlWait ''app=istiod'' 180,
          KubectlWait ''app=istio-ingressgateway'' 180,
          KubectlCreateNamespace ''helix'',
          KubectlLabel ''helix'' ''istio-injection'' None True,
          KubectlApply miniIstio_mongo_docs, KubectlApply miniIstio_app_docs,
          KubectlApply miniIstio_route_docs, KubectlGetNodePort, MinikubeIp] \<and>
       kube_context X = Some ''minikube'' \<and>
       dom (clusters X) = {''minikube''} \<and>
       (case ns_labels ''helix'' X of
          None \<Rightarrow> False
        | Some ls \<Rightarrow> ls ''istio-injection'' = None) \<and>
       (case cur X of
          None \<Rightarrow> False
        | Some c \<Rightarrow> claims c = {(''helix'', ''mongo-persistent-storage'', ''mongo'', 0)})
   | Aborted X \<Rightarrow> False"
  by (simp add: eval_defs kubectl_host_def bare_host_def)

lemma labeled_host_facts:
  "kubectl_usable (labeled_host l)"
  "ns_labels NAMESPACE (labeled_host l) = l"
  "faults (labeled_host l) = (\<lambda>c. False)"
  by (simp_all add: labeled_host_def bare_host_def kubectl_usable_def kube_reachable_def
      command_exists_def cur_def ns_labels_def new_cluster_def NAMESPACE_def)

theorem C3_namespace_reconciliation_witness:
  "kubectl_get_namespace NAMESPACE drifted_host \<and>
   deployment_namespace_check drifted_host = Done drifted_host \<and>
   ns_labels NAMESPACE (labeled_host None) = None \<and>
   (\<exists>w'. deployment_namespace_check (labeled_host None) = Done w' \<and>
         ns_labels NAMESPACE w' = Some Map.empty) \<and>
   (\<exists>w'. deployment_label drifted_host = Done w' \<and>
         ns_labels NAMESPACE w' = Some [''istio-injection'' \<mapsto> ''enabled'']) \<and>
   (\<exists>w'. miniIstio_label drifted_host = Done w' \<and>
         ns_labels NAMESPACE w' = Some Map.empty) \<and>
   completed (deployment bare_host) \<and>
   (\<exists>l. ns_labels NAMESPACE (final (deployment bare_host)) = Some l \<and>
        l ''istio-injection'' = Some ''enabled'') \<and>
   completed (miniIstio kubectl_host) \<and>
   (\<exists>l. ns_labels NAMESPACE (final (miniIstio kubectl_host)) = Some l \<and>
        l ''istio-injection'' = None)"
proof -
  let ?L = "[''istio-injection'' \<mapsto> ''disabled'']"
  have u: "kubectl_usable drifted_host" "ns_labels NAMESPACE drifted_host = Some ?L"
    "\<And>c. \<not> faults drifted_host c"
    by (simp_all add: drifted_host_def labeled_host_facts)
  have g: "kubectl_get_namespace NAMESPACE drifted_host"
    using u by (simp add: kubectl_get_namespace_def)
  have n: "kubectl_usable (labeled_host None)" "ns_labels NAMESPACE (labeled_host None) = None"
    "\<And>c. \<not> faults (labeled_host None) c"
    by (simp_all add: labeled_host_facts)
  have cd: "completed (deployment bare_host)"
    using deployment_bare_host by (cases "deployment bare_host") simp_all
  have cm: "completed (miniIstio kubectl_host)"
    using miniIstio_kubectl_host by (cases "miniIstio kubectl_host") simp_all
  note A = C3_namespace_reconciliation [of drifted_host ?L]
  note B = C3_namespace_reconciliation [of "labeled_host None" ?L]
  note C = C3_namespace_reconciliation [of bare_host ?L]
  note D = C3_namespace_reconciliation [of kubectl_host ?L]
  have 1: "deployment_namespace_check drifted_host = Done drifted_host" using A g by blast
  have 2: "\<exists>w'. deployment_namespace_check (labeled_host None) = Done w' \<and>
         ns_labels NAMESPACE w' = Some Map.empty"
    using B n by blast
  have 3: "\<exists>w'. deployment_label drifted_host = Done w' \<and>
         ns_labels NAMESPACE w' = Some (?L(''istio-injection'' \<mapsto> ''enabled''))"
    using A u by blast
  have 4: "\<exists>w'. miniIstio_label drifted_host = Done w' \<and>
         ns_labels NAMESPACE w' = Some (?L(''istio-injection'' := None))"
    using A u by blast
  have 5: "\<exists>l. ns_labels NAMESPACE (final (deployment bare_host)) = Some l \<and>
        l ''istio-injection'' = Some ''enabled''"
    using C cd by blast
  have 6: "\<exists>l. ns_labels NAMESPACE (final (miniIstio kubectl_host)) = Some l \<and>
        l ''istio-injection'' = None"
    using D cm by blast
  show ?thesis using g 1 n(2) 2 3 4 cd 5 cm 6 by simp
qed

lemma map_option_on_cur:
  assumes "\<And>c. g (f c) = g c"
  shows "map_option g (clusters (on_cur f w) n) = map_option g (clusters w n)"
  using assms by (simp add: on_cur_def split: option.splits)

subsection \<open>C8: removing the label changes nothing else\<close>

text \<open>
  C8. On a namespace that exists, whatever its labels (so also with injection enabled),
  lines 39-47 of miniIstio.sh end in the state that differs from the start only in the
  istio-injection label of the target namespace, removed, the command in the trace and the
  line printed: the other labels and namespaces, the objects, claims and mesh of every
  cluster, the set of clusters, the context and the applied objects are the same.
\<close>

theorem C8_disable_injection_frame:
  assumes "kubectl_usable w" and "ns_labels NAMESPACE w = Some ls"
    and "\<not> faults w (KubectlLabel NAMESPACE ''istio-injection'' None True)"
  shows "run miniIstio_namespace w =
           Done ((on_cur (\<lambda>c. c\<lparr>namespaces :=
                    (namespaces c)(NAMESPACE \<mapsto> ls(''istio-injection'' := None))\<rparr>) w)
                 \<lparr>trace := trace w @ [KubectlLabel NAMESPACE ''istio-injection'' None True],
                  stdout := stdout w @ [''Disabling Istio sidecar injection on '' @ NAMESPACE
                                         @ '' namespace...'']\<rparr>) \<and>
         ns_labels NAMESPACE (final (run miniIstio_namespace w)) =
           Some (ls(''istio-injection'' := None)) \<and>
         (\<forall>ns. ns \<noteq> NAMESPACE \<longrightarrow>
            ns_labels ns (final (run miniIstio_namespace w)) = ns_labels ns w) \<and>
         (\<forall>n. map_option objects (clusters (final (run miniIstio_namespace w)) n) =
              map_option objects (clusters w n)) \<and>
         (\<forall>n. map_option claims (clusters (final (run miniIstio_namespace w)) n) =
              map_option claims (clusters w n)) \<and>
         (\<forall>n. map_option mesh (clusters (final (run miniIstio_namespace w)) n) =
              map_option mesh (clusters w n)) \<and>
         dom (clusters (final (run miniIstio_namespace w))) = dom (clusters w) \<and>
         kube_context (final (run miniIstio_namespace w)) = kube_context w \<and>
         applied (final (run miniIstio_namespace w)) = applied w"
proof -
  let ?c = "KubectlLabel NAMESPACE ''istio-injection'' None True"
  let ?m = "''Disabling Istio sidecar injection on '' @ NAMESPACE @ '' namespace...''"
  let ?f = "\<lambda>c. c\<lparr>namespaces := (namespaces c)(NAMESPACE \<mapsto> ls(''istio-injection'' := None))\<rparr>"
  let ?w1 = "w\<lparr>stdout := stdout w @ [?m]\<rparr>"
  have g: "kubectl_get_namespace NAMESPACE w"
    using assms by (simp add: kubectl_get_namespace_def)
  have 1: "miniIstio_namespace_check w = Done w"
    using namespace_check_present [OF g] by (simp add: namespace_check_same)
  have 2: "exec ?c ?w1 = Done ((on_cur ?f ?w1)\<lparr>trace := trace ?w1 @ [?c]\<rparr>)"
    by (rule label_command) (use assms in simp_all)
  have 3: "(on_cur ?f ?w1)\<lparr>trace := trace ?w1 @ [?c]\<rparr> =
           (on_cur ?f w)\<lparr>trace := trace w @ [?c], stdout := stdout w @ [?m]\<rparr>"
    by (simp add: on_cur_def split: option.splits)
  have r: "run miniIstio_namespace w =
           Done ((on_cur ?f w)\<lparr>trace := trace w @ [?c], stdout := stdout w @ [?m]\<rparr>)"
    using 1 2 3 by (simp add: miniIstio_namespace_def miniIstio_label_def echo_def)
  obtain c where c: "cur w = Some c" using usable_cur [OF assms(1)] by blast
  show ?thesis
    unfolding r using c
    by (simp add: ns_labels_on_cur map_option_on_cur) (simp add: ns_labels_def)
qed

theorem C8_disable_injection_frame_witness:
  "kubectl_usable enabled_host \<and>
   ns_labels NAMESPACE enabled_host =
     Some [''istio-injection'' \<mapsto> ''enabled'', ''team'' \<mapsto> ''shop''] \<and>
   completed (run miniIstio_namespace enabled_host) \<and>
   ns_labels NAMESPACE (final (run miniIstio_namespace enabled_host)) =
     Some [''team'' \<mapsto> ''shop''] \<and>
   ns_labels ''default'' (final (run miniIstio_namespace enabled_host)) =
     ns_labels ''default'' enabled_host \<and>
   map_option objects (clusters (final (run miniIstio_namespace enabled_host)) ''minikube'') =
     map_option objects (clusters enabled_host ''minikube'') \<and>
   applied (final (run miniIstio_namespace enabled_host)) = applied enabled_host"
proof -
  let ?L = "[''istio-injection'' \<mapsto> ''enabled'', ''team'' \<mapsto> ''shop'']"
  have u: "kubectl_usable enabled_host" "ns_labels NAMESPACE enabled_host = Some ?L"
    "\<not> faults enabled_host (KubectlLabel NAMESPACE ''istio-injection'' None True)"
    by (simp_all add: enabled_host_def labeled_host_facts)
  note T = C8_disable_injection_frame [OF u]
  have e: "?L(''istio-injection'' := None) = [''team'' \<mapsto> ''shop'']"
    by (rule ext) simp
  have d: "''default'' \<noteq> NAMESPACE" by (simp add: NAMESPACE_def)
  from T have "\<exists>X. run miniIstio_namespace enabled_host = Done X" by blast
  then have c: "completed (run miniIstio_namespace enabled_host)" by auto
  have 1: "ns_labels NAMESPACE (final (run miniIstio_namespace enabled_host)) =
             Some (?L(''istio-injection'' := None))"
    using T by blast
  have 2: "ns_labels ''default'' (final (run miniIstio_namespace enabled_host)) =
             ns_labels ''default'' enabled_host"
    using T d by blast
  have 3: "map_option objects (clusters (final (run miniIstio_namespace enabled_host)) ''minikube'') =
             map_option objects (clusters enabled_host ''minikube'')"
    using T by blast
  have 4: "applied (final (run miniIstio_namespace enabled_host)) = applied enabled_host"
    using T by blast
  show ?thesis
    by (intro conjI u c 2 3 4) (simp add: 1 e)
qed

subsection \<open>C9: the datastore's volume claim\<close>

lemma claim_templates_mongo:
  "claim_templates deployment_mongo_statefulset =
     [(Some ''mongo-persistent-storage'', [Str ''ReadWriteOnce''], Some ''1Gi'')]"
  "claim_templates miniIstio_mongo_statefulset =
     [(Some ''mongo-persistent-storage'', [Str ''ReadWriteOnce''], Some ''1Gi'')]"
  by (simp_all add: claim_templates_def deployment_mongo_statefulset_def
      miniIstio_mongo_statefulset_def)

lemma claim_ids_mongo:
  "claim_ids deployment_mongo_statefulset = [mongo_claim_id]"
  "claim_ids miniIstio_mongo_statefulset = [mongo_claim_id]"
  "claim_ids deployment_mongo_service = []"
  "claim_ids miniIstio_mongo_service = []"
  by (simp_all add: claim_ids_docs claim_ids_rest mongo_claim_id_def NAMESPACE_def)

lemma doc_rejected_shell_fun [simp]:
  "doc_rejected (w\<lparr>trace := t\<rparr>) = doc_rejected w"
  "doc_rejected (w\<lparr>applied := a\<rparr>) = doc_rejected w"
  "doc_rejected (w\<lparr>failed := x\<rparr>) = doc_rejected w"
  by (rule ext, simp)+

lemma cur_apply_doc:
  "cur (apply_doc d w) =
     (case ident d of
        None \<Rightarrow> cur w
      | Some i \<Rightarrow>
          if doc_rejected w d then cur w
          else map_option (\<lambda>c. c\<lparr>objects := (objects c)(i \<mapsto> d),
                                    claims := claims c \<union> set (claim_ids d)\<rparr>) (cur w))"
  by (simp add: apply_doc_def split: option.splits)

lemma kubectl_apply_done:
  assumes "kubectl_apply docs w = Done w'"
  shows "kubectl_usable w" and "\<not> list_ex (doc_rejected w) docs"
    and "w' = fold apply_doc docs (w\<lparr>trace := trace w @ [KubectlApply docs]\<rparr>)"
  using assms by (simp_all add: kubectl_apply_def Let_def split: if_splits)

lemma claims_apply_mongo:
  assumes docs: "docs = deployment_mongo_docs \<or> docs = miniIstio_mongo_docs"
    and d: "kubectl_apply docs w = Done w'"
  shows "map_option claims (cur w') = map_option (\<lambda>c. insert mongo_claim_id (claims c)) (cur w)"
    and "cur w' \<noteq> None"
proof -
  obtain c where c: "cur w = Some c" using usable_cur [OF kubectl_apply_done(1) [OF d]] by blast
  have nr: "\<not> list_ex (doc_rejected w) docs" by (rule kubectl_apply_done(2) [OF d])
  have w': "w' = fold apply_doc docs (w\<lparr>trace := trace w @ [KubectlApply docs]\<rparr>)"
    by (rule kubectl_apply_done(3) [OF d])
  have "map_option claims (cur w') = Some (insert mongo_claim_id (claims c))"
    using docs
  proof
    assume e: "docs = deployment_mongo_docs"
    show ?thesis
      using nr c unfolding w' e deployment_mongo_docs_def
      by (simp add: cur_apply_doc ident_deployment claim_ids_mongo)
  next
    assume e: "docs = miniIstio_mongo_docs"
    show ?thesis
      using nr c unfolding w' e miniIstio_mongo_docs_def
      by (simp add: cur_apply_doc ident_miniIstio claim_ids_mongo)
  qed
  then show "map_option claims (cur w') = map_option (\<lambda>c. insert mongo_claim_id (claims c)) (cur w)"
    and "cur w' \<noteq> None"
    using c by auto
qed

text \<open>
  C9. The StatefulSet of both scripts has one claim template, mongo-persistent-storage,
  ReadWriteOnce, 1Gi, the same in both, and with one replica it stands for one claim, of
  the same identity in both. Applying the datastore documents of either script adds that
  claim to the cluster's claims, and applying them again, from either script, leaves the
  claims as they are: no second volume is claimed.
\<close>

theorem C9_stable_claim:
  "claim_templates deployment_mongo_statefulset =
     [(Some ''mongo-persistent-storage'', [Str ''ReadWriteOnce''], Some ''1Gi'')] \<and>
   claim_templates miniIstio_mongo_statefulset = claim_templates deployment_mongo_statefulset \<and>
   claim_ids deployment_mongo_statefulset = [mongo_claim_id] \<and>
   claim_ids miniIstio_mongo_statefulset = [mongo_claim_id] \<and>
   ((docs = deployment_mongo_docs \<or> docs = miniIstio_mongo_docs) \<and>
    (docs' = deployment_mongo_docs \<or> docs' = miniIstio_mongo_docs) \<and>
    kubectl_apply docs w = Done w1 \<and> kubectl_apply docs' w1 = Done w2 \<longrightarrow>
      map_option claims (cur w1) = map_option (\<lambda>c. insert mongo_claim_id (claims c)) (cur w) \<and>
      cur w1 \<noteq> None \<and>
      map_option claims (cur w2) = map_option claims (cur w1))"
proof (intro conjI impI)
  assume a: "(docs = deployment_mongo_docs \<or> docs = miniIstio_mongo_docs) \<and>
    (docs' = deployment_mongo_docs \<or> docs' = miniIstio_mongo_docs) \<and>
    kubectl_apply docs w = Done w1 \<and> kubectl_apply docs' w1 = Done w2"
  then have 1: "map_option claims (cur w1) =
      map_option (\<lambda>c. insert mongo_claim_id (claims c)) (cur w)"
    and 2: "cur w1 \<noteq> None"
    using claims_apply_mongo [of docs w w1] by blast+
  from a have 3: "map_option claims (cur w2) =
      map_option (\<lambda>c. insert mongo_claim_id (claims c)) (cur w1)"
    using claims_apply_mongo [of docs' w1 w2] by blast
  show "map_option claims (cur w1) = map_option (\<lambda>c. insert mongo_claim_id (claims c)) (cur w)"
    by (rule 1)
  show "cur w1 \<noteq> None" by (rule 2)
  obtain c where c: "cur w = Some c" using 1 2 by (cases "cur w") auto
  show "map_option claims (cur w2) = map_option claims (cur w1)"
    using 1 3 c by (cases "cur w1") auto
qed (simp_all add: claim_templates_mongo claim_ids_mongo)

lemma apply_mongo_fresh:
  "completed (kubectl_apply deployment_mongo_docs fresh_namespace_host)"
proof -
  have "kubectl_usable fresh_namespace_host" "ns_labels NAMESPACE fresh_namespace_host \<noteq> None"
    "rejects fresh_namespace_host = (\<lambda>d. False)" "faults fresh_namespace_host = (\<lambda>d. False)"
    by (simp_all add: fresh_namespace_host_def labeled_host_facts)
      (simp_all add: labeled_host_def bare_host_def)
  then show ?thesis
    by (simp add: kubectl_apply_def Let_def deployment_mongo_docs_def doc_rejected_def
        ident_deployment mongo_service_id_def mongo_statefulset_id_def)
qed

lemma completed_kubectl_apply:
  "completed (kubectl_apply docs w) =
     (\<not> faults w (KubectlApply docs) \<and> kubectl_usable w \<and> \<not> list_ex (doc_rejected w) docs)"
  by (simp add: kubectl_apply_def Let_def)

lemma doc_rejected_fold [simp]:
  "doc_rejected (fold apply_doc docs w) d = doc_rejected w d"
  by (induction docs arbitrary: w) simp_all

lemma usable_apply_doc [simp]: "kubectl_usable (apply_doc d w) = kubectl_usable w"
  by (simp add: apply_doc_def usable_on_cur split: option.splits)

lemma usable_fold [simp]: "kubectl_usable (fold apply_doc docs w) = kubectl_usable w"
  by (induction docs arbitrary: w) simp_all

lemma faults_fold [simp]: "faults (fold apply_doc docs w) = faults w"
  by (induction docs arbitrary: w) (simp_all add: apply_doc_def split: option.splits)

lemma reapply_completed:
  assumes "kubectl_apply docs w = Done w'"
    and "list_all (\<lambda>d. \<not> doc_rejected w d) docs'" and "\<not> faults w (KubectlApply docs')"
  shows "completed (kubectl_apply docs' w')"
  using assms kubectl_apply_done [OF assms(1)]
  by (simp add: completed_kubectl_apply list_all_iff list_ex_iff)

theorem C9_stable_claim_witness:
  "completed (kubectl_apply deployment_mongo_docs fresh_namespace_host) \<and>
   completed (kubectl_apply miniIstio_mongo_docs
     (final (kubectl_apply deployment_mongo_docs fresh_namespace_host))) \<and>
   map_option claims (cur fresh_namespace_host) = Some {} \<and>
   map_option claims (cur (final (kubectl_apply deployment_mongo_docs fresh_namespace_host))) =
     Some {mongo_claim_id} \<and>
   map_option claims (cur (final (kubectl_apply miniIstio_mongo_docs
     (final (kubectl_apply deployment_mongo_docs fresh_namespace_host))))) =
     Some {mongo_claim_id}"
proof -
  let ?W = fresh_namespace_host
  obtain w1 where w1: "kubectl_apply deployment_mongo_docs ?W = Done w1"
    using apply_mongo_fresh by (cases "kubectl_apply deployment_mongo_docs ?W") simp_all
  have f: "ns_labels NAMESPACE ?W \<noteq> None" "rejects ?W = (\<lambda>d. False)" "faults ?W = (\<lambda>d. False)"
    by (simp_all add: fresh_namespace_host_def labeled_host_facts)
      (simp_all add: labeled_host_def bare_host_def)
  have "completed (kubectl_apply miniIstio_mongo_docs w1)"
    by (rule reapply_completed [OF w1])
      (use f in \<open>simp_all add: miniIstio_mongo_docs_def doc_rejected_def ident_miniIstio
        mongo_service_id_def mongo_statefulset_id_def\<close>)
  then obtain w2 where w2: "kubectl_apply miniIstio_mongo_docs w1 = Done w2"
    by (cases "kubectl_apply miniIstio_mongo_docs w1") simp_all
  have c0: "map_option claims (cur ?W) = Some {}"
    by (simp add: fresh_namespace_host_def labeled_host_def bare_host_def cur_def new_cluster_def)
  note T = C9_stable_claim [of deployment_mongo_docs miniIstio_mongo_docs ?W w1 w2]
  have 1: "map_option claims (cur w1) =
      map_option (\<lambda>c. insert mongo_claim_id (claims c)) (cur ?W)"
    and 2: "map_option claims (cur w2) = map_option claims (cur w1)"
    using T w1 w2 by blast+
  have 3: "map_option claims (cur w1) = Some {mongo_claim_id}"
    using 1 c0 by (cases "cur ?W") auto
  show ?thesis using w1 w2 c0 2 3 by simp
qed

subsection \<open>C7: a second run of deployment.sh fetches Istio again\<close>

text \<open>
  deployment.sh on a host with no tools, and then once more on the host that run has
  left. Lines 19 and 32 install kubectl and kind into \<^verbatim>\<open>/usr/local/bin\<close>; lines 55-56
  put istioctl on the PATH of the running shell only, and the shell of the second run
  does not have it.
\<close>

lemma deployment_rerun:
  "case deployment bare_host of
     Aborted X \<Rightarrow> False
   | Done X \<Rightarrow>
       path_bins X = {''kubectl'', ''kind''} \<and> session_bins X = {''istioctl''} \<and>
       (case deployment X of
          Aborted Y \<Rightarrow> False
        | Done Y \<Rightarrow>
            trace Y =
              [DownloadIstio, CdIstio, ExportIstioPath, CdRoot, IstioctlInstall ''demo'',
               KubectlPatchIngress ''NodePort'',
               KubectlLabel ''helix'' ''istio-injection'' (Some ''enabled'') True,
               KubectlApply deployment_mongo_docs, KubectlApply deployment_app_docs,
               KubectlGetNodeIP, KubectlGetNodePort])"
  by (simp add: eval_defs bare_host_def insert_commute)

text \<open>
  C7. Tool installation is not idempotent for istioctl. After a completed run of
  deployment.sh on a host with no tools, the istioctl binary is on the host, but the
  next run of the script, which also completes, downloads Istio again: its first four
  commands are those of lines 54-57. kubectl and kind, present as well, are not fetched
  again.
\<close>

theorem C7_istioctl_fetched_again:
  "completed (deployment bare_host) \<and>
   path_bins (final (deployment bare_host)) = {''kubectl'', ''kind''} \<and>
   session_bins (final (deployment bare_host)) = {''istioctl''} \<and>
   completed (deployment (final (deployment bare_host))) \<and>
   trace (final (deployment (final (deployment bare_host)))) =
     [DownloadIstio, CdIstio, ExportIstioPath, CdRoot, IstioctlInstall ''demo'',
      KubectlPatchIngress ''NodePort'',
      KubectlLabel ''helix'' ''istio-injection'' (Some ''enabled'') True,
      KubectlApply deployment_mongo_docs, KubectlApply deployment_app_docs,
      KubectlGetNodeIP, KubectlGetNodePort] \<and>
   fetches DownloadIstio = Some ''istioctl''"
  using deployment_rerun by (auto split: outcome.splits)

subsection \<open>C10: the reported datastore address is the one the backend is given\<close>

lemma backend_env_docs:
  "backend_env deployment_backend_deployment = [[(''MONGO_URI'', mongo_uri)]]"
  "backend_env miniIstio_backend_deployment = [[(''MONGO_URI'', mongo_uri)]]"
  by (simp_all add: backend_env_def containers_def env_bindings_def mongo_uri_def
      deployment_backend_deployment_def miniIstio_backend_deployment_def)


lemma objects_apply_doc_other:
  "ident d \<noteq> Some i \<Longrightarrow>
   map_option (\<lambda>c. objects c i) (cur (apply_doc d w)) = map_option (\<lambda>c. objects c i) (cur w)"
  by (cases "cur w") (auto simp: cur_apply_doc split: option.splits)

lemma objects_fold_other:
  "list_all (\<lambda>d. ident d \<noteq> Some i) docs \<Longrightarrow>
   map_option (\<lambda>c. objects c i) (cur (fold apply_doc docs w)) = map_option (\<lambda>c. objects c i) (cur w)"
  by (induction docs arbitrary: w) (simp_all add: objects_apply_doc_other)

lemma objects_fold_here:
  assumes "ident d = Some i" and "\<not> doc_rejected w d" and "cur w \<noteq> None"
    and "list_all (\<lambda>d. ident d \<noteq> Some i) docs" and "docs' = d # docs"
  shows "map_option (\<lambda>c. objects c i) (cur (fold apply_doc docs' w)) = Some (Some d)"
proof -
  have "map_option (\<lambda>c. objects c i) (cur (apply_doc d w)) = Some (Some d)"
    using assms(1-3) by (cases "cur w") (auto simp: cur_apply_doc)
  then show ?thesis
    unfolding assms(5) using objects_fold_other [OF assms(4), of "apply_doc d w"] by simp
qed

lemma backend_applied_deployment:
  assumes "kubectl_apply deployment_app_docs w = Done w'"
  shows "map_option (\<lambda>c. objects c backend_id) (cur w') = Some (Some deployment_backend_deployment)"
proof -
  let ?w1 = "w\<lparr>trace := trace w @ [KubectlApply deployment_app_docs]\<rparr>"
  have u: "cur ?w1 \<noteq> None"
    using usable_cur [OF kubectl_apply_done(1) [OF assms]] by simp
  have nr: "\<not> doc_rejected ?w1 deployment_backend_deployment"
    using kubectl_apply_done(2) [OF assms] by (simp add: deployment_app_docs_def)
  have w': "w' = fold apply_doc deployment_app_docs ?w1"
    by (rule kubectl_apply_done(3) [OF assms])
  show ?thesis
    unfolding w'
    by (rule objects_fold_here [OF _ nr u])
      (simp_all add: deployment_app_docs_def ident_deployment ident_deployment_docs
        backend_id_def NAMESPACE_def)
qed

lemma backend_applied_miniIstio:
  assumes "kubectl_apply miniIstio_app_docs w = Done w'"
  shows "map_option (\<lambda>c. objects c backend_id) (cur w') = Some (Some miniIstio_backend_deployment)"
proof -
  let ?w1 = "w\<lparr>trace := trace w @ [KubectlApply miniIstio_app_docs]\<rparr>"
  have u: "cur ?w1 \<noteq> None"
    using usable_cur [OF kubectl_apply_done(1) [OF assms]] by simp
  have nr: "\<not> doc_rejected ?w1 miniIstio_backend_deployment"
    using kubectl_apply_done(2) [OF assms] by (simp add: miniIstio_app_docs_def)
  have w': "w' = fold apply_doc miniIstio_app_docs ?w1"
    by (rule kubectl_apply_done(3) [OF assms])
  show ?thesis
    unfolding w'
    by (rule objects_fold_here [OF _ nr u])
      (simp_all add: miniIstio_app_docs_def ident_miniIstio ident_miniIstio_docs
        backend_id_def NAMESPACE_def)
qed

lemma backend_kept_routes:
  "map_option (\<lambda>c. objects c backend_id) (cur (final (kubectl_apply miniIstio_route_docs w))) =
   map_option (\<lambda>c. objects c backend_id) (cur w)"
proof -
  have "map_option (\<lambda>c. objects c backend_id) (cur (fold apply_doc miniIstio_route_docs v)) =
        map_option (\<lambda>c. objects c backend_id) (cur v)" for v
    by (rule objects_fold_other)
      (simp add: miniIstio_route_docs_def ident_miniIstio_docs backend_id_def NAMESPACE_def)
  then show ?thesis by (simp add: kubectl_apply_def Let_def)
qed

lemma run_split_done:
  assumes "completed (run (pre @ s # post) w)"
  shows "\<exists>w1 w2 w3. run pre w = Done w1 \<and> s w1 = Done w2 \<and> run post w2 = Done w3 \<and>
           final (run (pre @ s # post) w) = w3"
proof (cases "run pre w")
  case (Done w1)
  note p = this
  show ?thesis
  proof (cases "s w1")
    case (Done w2)
    then show ?thesis using assms p by (cases "run post w2") (simp_all add: run_append)
  next
    case (Aborted w2)
    then show ?thesis using assms p by (simp add: run_append)
  qed
next
  case (Aborted w1)
  then show ?thesis using assms by (simp add: run_append)
qed

lemma run_echo_last:
  assumes "run (ss @ [echo a, echo b]) w = Done w'"
  shows "last (butlast (stdout w')) = a"
  using assms by (cases "run ss w") (auto simp: run_append echo_def butlast_append)

lemma report_cur:
  assumes ss: "list_all (step_rel (frame {KubectlGetNodeIP, KubectlGetNodePort, MinikubeIp})) ss"
    and r: "run ss w = Done w'"
  shows "cur w' = cur w"
proof -
  let ?A = "{KubectlGetNodeIP, KubectlGetNodePort, MinikubeIp}"
  have "frame ?A w (final (run ss w))"
    using frame_run [OF ss] by (simp add: step_rel_def)
  then have f: "frame ?A w w'" by (simp add: r)
  have "clusters w' = clusters w" by (rule frameD(15) [OF f]) simp
  moreover have "kube_context w' = kube_context w" by (rule frameD(13) [OF f]) simp
  ultimately show ?thesis by (simp add: cur_def split: option.splits)
qed

lemma report_deployment:
  assumes "run deployment_report w = Done w'"
  shows "cur w' = cur w"
    and "last (butlast (stdout w')) = ''MongoDB service URI:        '' @ mongo_uri"
proof -
  show "cur w' = cur w"
    by (rule report_cur [OF _ assms]) (simp add: deployment_report_def frame_steps)
  have "\<exists>ss. deployment_report =
          ss @ [echo (''MongoDB service URI:        '' @ mongo_uri),
                echo ''Deployment completed successfully.'']"
    by (simp add: deployment_report_def mongo_uri_def)
  then obtain ss where ss: "deployment_report =
          ss @ [echo (''MongoDB service URI:        '' @ mongo_uri),
                echo ''Deployment completed successfully.'']"
    by blast
  have "run (ss @ [echo (''MongoDB service URI:        '' @ mongo_uri),
                echo ''Deployment completed successfully.'']) w = Done w'"
    using assms unfolding ss .
  then show "last (butlast (stdout w')) = ''MongoDB service URI:        '' @ mongo_uri"
    by (rule run_echo_last)
qed

lemma report_miniIstio:
  assumes "run miniIstio_report w = Done w'"
  shows "cur w' = cur w"
    and "last (butlast (stdout w')) = ''MongoDB URI: '' @ mongo_uri"
proof -
  show "cur w' = cur w"
    by (rule report_cur [OF _ assms]) (simp add: miniIstio_report_def frame_steps)
  have "\<exists>ss. miniIstio_report =
          ss @ [echo (''MongoDB URI: '' @ mongo_uri), echo ''Istio testing setup complete.'']"
    by (simp add: miniIstio_report_def mongo_uri_def)
  then obtain ss where ss: "miniIstio_report =
          ss @ [echo (''MongoDB URI: '' @ mongo_uri), echo ''Istio testing setup complete.'']"
    by blast
  have "run (ss @ [echo (''MongoDB URI: '' @ mongo_uri),
                echo ''Istio testing setup complete.'']) w = Done w'"
    using assms unfolding ss .
  then show "last (butlast (stdout w')) = ''MongoDB URI: '' @ mongo_uri"
    by (rule run_echo_last)
qed

lemma deployment_sh_split_app:
  "\<exists>pre. deployment_sh = pre @ kubectl_apply deployment_app_docs # deployment_report"
  by (simp add: deployment_sh_def)

lemma miniIstio_sh_split_app:
  "\<exists>pre. miniIstio_sh =
     pre @ kubectl_apply miniIstio_app_docs
     # ([echo ''========== ISTIO GATEWAY SETUP =========='',
         kubectl_apply miniIstio_route_docs] @ miniIstio_report)"
  by (simp add: miniIstio_sh_def)

lemma reported_deployment:
  assumes "completed (deployment w)"
  shows "map_option (\<lambda>c. objects c backend_id) (cur (final (deployment w))) =
           Some (Some deployment_backend_deployment)"
    and "last (butlast (stdout (final (deployment w)))) =
           ''MongoDB service URI:        '' @ mongo_uri"
proof -
  obtain pre where sp:
    "deployment_sh = pre @ kubectl_apply deployment_app_docs # deployment_report"
    using deployment_sh_split_app by blast
  have c: "completed (run (pre @ kubectl_apply deployment_app_docs # deployment_report)
             (new_shell w))"
    using assms unfolding deployment_def sp .
  obtain w1 w2 w3 where a: "kubectl_apply deployment_app_docs w1 = Done w2"
    and r: "run deployment_report w2 = Done w3"
    and f: "final (run (pre @ kubectl_apply deployment_app_docs # deployment_report)
              (new_shell w)) = w3"
    using run_split_done [OF c] by blast
  have e: "final (deployment w) = w3"
    using f unfolding deployment_def sp .
  show "map_option (\<lambda>c. objects c backend_id) (cur (final (deployment w))) =
           Some (Some deployment_backend_deployment)"
    unfolding e report_deployment(1) [OF r] by (rule backend_applied_deployment [OF a])
  show "last (butlast (stdout (final (deployment w)))) =
           ''MongoDB service URI:        '' @ mongo_uri"
    unfolding e by (rule report_deployment(2) [OF r])
qed

lemma reported_miniIstio:
  assumes "completed (miniIstio w)"
  shows "map_option (\<lambda>c. objects c backend_id) (cur (final (miniIstio w))) =
           Some (Some miniIstio_backend_deployment)"
    and "last (butlast (stdout (final (miniIstio w)))) = ''MongoDB URI: '' @ mongo_uri"
proof -
  let ?post = "[echo ''========== ISTIO GATEWAY SETUP =========='',
                kubectl_apply miniIstio_route_docs] @ miniIstio_report"
  obtain pre where sp: "miniIstio_sh = pre @ kubectl_apply miniIstio_app_docs # ?post"
    using miniIstio_sh_split_app by blast
  have c: "completed (run (pre @ kubectl_apply miniIstio_app_docs # ?post) (new_shell w))"
    using assms unfolding miniIstio_def sp .
  obtain w1 w2 w3 where a: "kubectl_apply miniIstio_app_docs w1 = Done w2"
    and p: "run ?post w2 = Done w3"
    and f: "final (run (pre @ kubectl_apply miniIstio_app_docs # ?post) (new_shell w)) = w3"
    using run_split_done [OF c] by blast
  have e: "final (miniIstio w) = w3"
    using f unfolding miniIstio_def sp .
  let ?v = "w2\<lparr>stdout := stdout w2 @ [''========== ISTIO GATEWAY SETUP ==========''] \<rparr>"
  obtain v' where k: "kubectl_apply miniIstio_route_docs ?v = Done v'"
    and r: "run miniIstio_report v' = Done w3"
    using p by (cases "kubectl_apply miniIstio_route_docs ?v") (simp_all add: echo_def)
  have "map_option (\<lambda>c. objects c backend_id) (cur v') =
        map_option (\<lambda>c. objects c backend_id) (cur ?v)"
    using backend_kept_routes [of ?v] by (simp add: k)
  also have "cur ?v = cur w2" by (simp add: cur_def split: option.splits)
  finally have "map_option (\<lambda>c. objects c backend_id) (cur v') =
                Some (Some miniIstio_backend_deployment)"
    by (simp add: backend_applied_miniIstio [OF a])
  then show "map_option (\<lambda>c. objects c backend_id) (cur (final (miniIstio w))) =
           Some (Some miniIstio_backend_deployment)"
    unfolding e report_miniIstio(1) [OF r] .
  show "last (butlast (stdout (final (miniIstio w)))) = ''MongoDB URI: '' @ mongo_uri"
    unfolding e by (rule report_miniIstio(2) [OF r])
qed

text \<open>
  C10. In both scripts the backend manifest binds \<^verbatim>\<open>MONGO_URI\<close>, and nothing else, to the
  address \<open>mongo_uri\<close>. When a run completes, the backend object of the cluster is that
  manifest, and the line before the last one printed is the report's label followed by
  the same address, character for character.
\<close>

theorem C10_reported_uri:
  "backend_env deployment_backend_deployment = [[(''MONGO_URI'', mongo_uri)]] \<and>
   backend_env miniIstio_backend_deployment = [[(''MONGO_URI'', mongo_uri)]] \<and>
   (completed (deployment w) \<longrightarrow>
      map_option (\<lambda>c. objects c backend_id) (cur (final (deployment w))) =
        Some (Some deployment_backend_deployment) \<and>
      last (butlast (stdout (final (deployment w)))) =
        ''MongoDB service URI:        '' @ mongo_uri) \<and>
   (completed (miniIstio w) \<longrightarrow>
      map_option (\<lambda>c. objects c backend_id) (cur (final (miniIstio w))) =
        Some (Some miniIstio_backend_deployment) \<and>
      last (butlast (stdout (final (miniIstio w)))) = ''MongoDB URI: '' @ mongo_uri)"
proof (intro conjI impI)
  show "backend_env deployment_backend_deployment = [[(''MONGO_URI'', mongo_uri)]]"
    by (rule backend_env_docs(1))
  show "backend_env miniIstio_backend_deployment = [[(''MONGO_URI'', mongo_uri)]]"
    by (rule backend_env_docs(2))
next
  assume d: "completed (deployment w)"
  show "map_option (\<lambda>c. objects c backend_id) (cur (final (deployment w))) =
        Some (Some deployment_backend_deployment)"
    by (rule reported_deployment(1) [OF d])
  show "last (butlast (stdout (final (deployment w)))) =
        ''MongoDB service URI:        '' @ mongo_uri"
    by (rule reported_deployment(2) [OF d])
next
  assume m: "completed (miniIstio w)"
  show "map_option (\<lambda>c. objects c backend_id) (cur (final (miniIstio w))) =
        Some (Some miniIstio_backend_deployment)"
    by (rule reported_miniIstio(1) [OF m])
  show "last (butlast (stdout (final (miniIstio w)))) = ''MongoDB URI: '' @ mongo_uri"
    by (rule reported_miniIstio(2) [OF m])
qed

theorem C10_reported_uri_witness:
  "completed (deployment bare_host) \<and>
   last (butlast (stdout (final (deployment bare_host)))) =
     ''MongoDB service URI:        mongodb://mongo.helix.svc.cluster.local:27017/ecommerceDB'' \<and>
   completed (miniIstio kubectl_host) \<and>
   last (butlast (stdout (final (miniIstio kubectl_host)))) =
     ''MongoDB URI: mongodb://mongo.helix.svc.cluster.local:27017/ecommerceDB''"
proof -
  have d: "completed (deployment bare_host)"
    using deployment_bare_host by (cases "deployment bare_host") simp_all
  have m: "completed (miniIstio kubectl_host)"
    using miniIstio_kubectl_host by (cases "miniIstio kubectl_host") simp_all
  have "last (butlast (stdout (final (deployment bare_host)))) =
          ''MongoDB service URI:        '' @ mongo_uri"
    using C10_reported_uri [of bare_host] d by blast
  moreover have "last (butlast (stdout (final (miniIstio kubectl_host)))) =
          ''MongoDB URI: '' @ mongo_uri"
    using C10_reported_uri [of kubectl_host] m by blast
  ultimately show ?thesis using d m by (simp add: mongo_uri_def NAMESPACE_def)
qed

subsection \<open>C5: the connection string binding\<close>










subsection \<open>C2: cluster provisioning\<close>

lemma created_frame:
  assumes f: "frame A w w'" and A: "\<forall>c\<in>A. \<not> creates_cluster c"
  shows "created w' = created w"
proof -
  obtain t where t: "trace w' = trace w @ t" "set t \<subseteq> A" using frameD(1) [OF f] by blast
  have "filter creates_cluster t = []" using t(2) A by (auto simp: filter_empty_conv)
  then show ?thesis by (simp add: created_def t(1))
qed

lemma created_shell [simp]:
  "created (new_shell w) = []" "created (w\<lparr>stdout := l\<rparr>) = created w"
  by (simp_all add: created_def)

lemma final_run_split:
  "final (run (pre @ s # post) w) =
     (case run pre w of
        Aborted x \<Rightarrow> x
      | Done w1 \<Rightarrow> (case s w1 of Aborted x \<Rightarrow> x | Done w2 \<Rightarrow> final (run post w2)))"
  by (simp add: run_append split: outcome.splits)

lemma completed_run_split:
  "completed (run (pre @ s # post) w) =
     (case run pre w of
        Aborted x \<Rightarrow> False
      | Done w1 \<Rightarrow> (case s w1 of Aborted x \<Rightarrow> False | Done w2 \<Rightarrow> completed (run post w2)))"
  by (simp add: run_append split: outcome.splits)

text \<open>deployment.sh, lines 24-41.\<close>

lemma deployment_sh_split_cluster:
  "\<exists>post. deployment_sh =
     [echo ''========== ENVIRONMENT & KUBERNETES SETUP =========='', deployment_kubectl_check]
     @ deployment_cluster_check # post \<and>
     list_all (step_rel (frame {c. \<not> creates_cluster c})) post"
  by (simp add: deployment_sh_def deployment_report_def check_defs frame_steps)

lemma kubectl_check_done:
  assumes "deployment_kubectl_check w = Done w'"
  shows "command_exists ''kubectl'' w'"
  using assms
  by (auto simp: deployment_kubectl_check_def if_not_def echo_def exec_def Let_def
      command_exists_def KUBECTL_BIN_def split: if_splits)

lemma kubectl_check_frame:
  "frame {CurlKubectl, InstallKubectl} w
     (final (run [echo h, deployment_kubectl_check] w))"
proof -
  have "step_rel (frame {CurlKubectl, InstallKubectl}) (run [echo h, deployment_kubectl_check])"
    by (rule frame_run) (simp add: deployment_kubectl_check_def frame_steps)
  then show ?thesis by (simp add: step_rel_def)
qed

lemma kube_reachable_frame:
  assumes f: "frame A w w'" and A: "\<forall>c\<in>A. \<not> touches_clusters c"
    and B: "\<forall>c\<in>A. \<not> creates_cluster c"
  shows "kube_reachable w' = kube_reachable w" and "minikube_running w' = minikube_running w"
  using frameD(15) [OF f A] frameD(13) [OF f B]
  by (simp_all add: kube_reachable_def cur_def minikube_running_def split: option.splits)

lemma deployment_pre:
  assumes "run [echo h, deployment_kubectl_check] (new_shell w) = Done w1"
  shows "created w1 = []" and "kubectl_version_short w1 = kube_reachable w"
proof -
  have f: "frame {CurlKubectl, InstallKubectl} (new_shell w) w1"
    using kubectl_check_frame [of "new_shell w" h] assms by simp
  show "created w1 = []" using created_frame [OF f] by simp
  have "kube_reachable w1 = kube_reachable (new_shell w)"
    by (rule kube_reachable_frame(1) [OF f]) simp_all
  moreover have "command_exists ''kubectl'' w1"
    using assms by (auto simp: echo_def intro: kubectl_check_done split: outcome.splits)
  ultimately show "kubectl_version_short w1 = kube_reachable w"
    by (simp add: kubectl_version_short_def kubectl_usable_def kube_reachable_def new_shell_def
        cur_def split: option.splits)
qed

lemma deployment_pre_aborted:
  assumes "run [echo h, deployment_kubectl_check] (new_shell w) = Aborted x"
  shows "created x = []"
proof -
  have f: "frame {CurlKubectl, InstallKubectl} (new_shell w) x"
    using kubectl_check_frame [of "new_shell w" h] assms by simp
  show "created x = []" using created_frame [OF f] by simp
qed

lemma kind_check_frame:
  "frame {CurlKind, ChmodKind, MvKind} w (final (run [echo h, deployment_kind_check] w))"
proof -
  have "step_rel (frame {CurlKind, ChmodKind, MvKind}) (run [echo h, deployment_kind_check])"
    by (rule frame_run) (simp add: deployment_kind_check_def frame_steps)
  then show ?thesis by (simp add: step_rel_def)
qed

lemma created_exec:
  "created (final (exec c w)) = created w @ (if creates_cluster c then [c] else [])"
  by (simp add: exec_def Let_def created_def)

lemma deployment_cluster_check_created:
  shows "kubectl_version_short w \<Longrightarrow>
           created (final (deployment_cluster_check w)) = created w"
    and "created (final (deployment_cluster_check w)) = created w \<or>
         created (final (deployment_cluster_check w)) =
           created w @ [KindCreateCluster ''ecommerce-cluster'']"
    and "\<not> kubectl_version_short w \<Longrightarrow> completed (deployment_cluster_check w) \<Longrightarrow>
           created (final (deployment_cluster_check w)) =
             created w @ [KindCreateCluster ''ecommerce-cluster'']"
proof -
  let ?k = "[echo ''No accessible Kubernetes cluster found.'', deployment_kind_check]"
  let ?t = "[echo ''Creating local Kubernetes cluster with kind...'',
             exec (KindCreateCluster ''ecommerce-cluster'')]"
  have yes: "kubectl_version_short w \<Longrightarrow>
      created (final (deployment_cluster_check w)) = created w"
    by (simp add: deployment_cluster_check_def if_not_def echo_def)
  have no: "deployment_cluster_check w = run (?k @ ?t) w" if "\<not> kubectl_version_short w"
    using that by (simp add: deployment_cluster_check_def if_not_def)
  have k: "created (final (run ?k w)) = created w"
    by (rule created_frame [OF kind_check_frame]) simp
  have t: "created (final (run ?t v)) = created v @ [KindCreateCluster ''ecommerce-cluster'']"
    for v
    using created_exec [of "KindCreateCluster ''ecommerce-cluster''"
        "v\<lparr>stdout := stdout v @ [''Creating local Kubernetes cluster with kind...'']\<rparr>"]
    by (auto simp: echo_def split: outcome.splits)
  have ran: "created (final (deployment_cluster_check w)) =
      created w @ [KindCreateCluster ''ecommerce-cluster'']"
    if "\<not> kubectl_version_short w" and "run ?k w = Done v" for v
    unfolding no [OF that(1)] run_append that(2) using k t [of v] that(2)
    by (simp del: run.simps)
  have aborted: "created (final (deployment_cluster_check w)) = created w \<and>
      \<not> completed (deployment_cluster_check w)"
    if "\<not> kubectl_version_short w" and "run ?k w = Aborted v" for v
    unfolding no [OF that(1)] run_append that(2) using k that(2)
    by (simp del: run.simps)
  show "kubectl_version_short w \<Longrightarrow>
           created (final (deployment_cluster_check w)) = created w" by (rule yes)
  show "created (final (deployment_cluster_check w)) = created w \<or>
         created (final (deployment_cluster_check w)) =
           created w @ [KindCreateCluster ''ecommerce-cluster'']"
    using yes ran aborted by (cases "kubectl_version_short w"; cases "run ?k w") blast+
  show "\<not> kubectl_version_short w \<Longrightarrow> completed (deployment_cluster_check w) \<Longrightarrow>
           created (final (deployment_cluster_check w)) =
             created w @ [KindCreateCluster ''ecommerce-cluster'']"
    using ran aborted by (cases "run ?k w") blast+
qed

lemma post_created:
  assumes "list_all (step_rel (frame {c. \<not> creates_cluster c})) post"
  shows "created (final (run post w)) = created w"
proof -
  have "frame {c. \<not> creates_cluster c} w (final (run post w))"
    using frame_run [OF assms] by (simp add: step_rel_def)
  then show ?thesis by (rule created_frame) simp
qed

lemma created_script:
  assumes "list_all (step_rel (frame {c. \<not> creates_cluster c})) post"
  shows "created (final (run (pre @ s # post) w)) =
     (case run pre w of Aborted x \<Rightarrow> created x | Done w1 \<Rightarrow> created (final (s w1)))"
  by (simp add: final_run_split post_created [OF assms] split: outcome.splits)

lemma deployment_created:
  shows "kube_reachable w \<Longrightarrow> created (final (deployment w)) = []"
    and "created (final (deployment w)) = [] \<or>
         created (final (deployment w)) = [KindCreateCluster ''ecommerce-cluster'']"
    and "\<not> kube_reachable w \<Longrightarrow> completed (deployment w) \<Longrightarrow>
           created (final (deployment w)) = [KindCreateCluster ''ecommerce-cluster'']"
proof -
  let ?pre = "[echo ''========== ENVIRONMENT & KUBERNETES SETUP =========='',
               deployment_kubectl_check]"
  obtain post where sp: "deployment_sh = ?pre @ deployment_cluster_check # post"
    and post: "list_all (step_rel (frame {c. \<not> creates_cluster c})) post"
    using deployment_sh_split_cluster by blast
  have fin: "created (final (deployment w)) =
      (case run ?pre (new_shell w) of
         Aborted x \<Rightarrow> created x
       | Done w1 \<Rightarrow> created (final (deployment_cluster_check w1)))"
    unfolding deployment_def sp by (rule created_script [OF post])
  have com: "completed (deployment w) =
      (case run ?pre (new_shell w) of
         Aborted x \<Rightarrow> False
       | Done w1 \<Rightarrow>
           (case deployment_cluster_check w1 of
              Aborted x \<Rightarrow> False
            | Done w2 \<Rightarrow> completed (run post w2)))"
    unfolding deployment_def sp by (rule completed_run_split)
  show "kube_reachable w \<Longrightarrow> created (final (deployment w)) = []"
  proof -
    assume r: "kube_reachable w"
    show ?thesis
    proof (cases "run ?pre (new_shell w)")
      case (Done w1)
      have "created (final (deployment_cluster_check w1)) = created w1"
        using deployment_pre(2) [OF Done] r by (intro deployment_cluster_check_created(1)) simp
      then show ?thesis using fin Done deployment_pre(1) [OF Done] by (simp del: run.simps)
    next
      case (Aborted x)
      then show ?thesis using fin deployment_pre_aborted [OF Aborted] by (simp del: run.simps)
    qed
  qed
  show "created (final (deployment w)) = [] \<or>
         created (final (deployment w)) = [KindCreateCluster ''ecommerce-cluster'']"
  proof (cases "run ?pre (new_shell w)")
    case (Done w1)
    then show ?thesis
      using fin deployment_pre(1) [OF Done] deployment_cluster_check_created(2) [of w1]
      by (simp del: run.simps)
  next
    case (Aborted x)
    then show ?thesis using fin deployment_pre_aborted [OF Aborted] by (simp del: run.simps)
  qed
  show "\<not> kube_reachable w \<Longrightarrow> completed (deployment w) \<Longrightarrow>
           created (final (deployment w)) = [KindCreateCluster ''ecommerce-cluster'']"
  proof -
    assume r: "\<not> kube_reachable w" and c: "completed (deployment w)"
    show ?thesis
    proof (cases "run ?pre (new_shell w)")
      case (Done w1)
      have cc: "completed (deployment_cluster_check w1)"
        using c com Done by (cases "deployment_cluster_check w1") (simp_all del: run.simps)
      have "created (final (deployment_cluster_check w1)) =
              created w1 @ [KindCreateCluster ''ecommerce-cluster'']"
        using deployment_pre(2) [OF Done] r cc
        by (intro deployment_cluster_check_created(3)) simp_all
      then show ?thesis using fin Done deployment_pre(1) [OF Done] by (simp del: run.simps)
    next
      case (Aborted x)
      then show ?thesis using c com by (simp del: run.simps)
    qed
  qed
qed

text \<open>miniIstio.sh, lines 22-28.\<close>

lemma miniIstio_sh_split_cluster:
  "\<exists>post. miniIstio_sh =
     [echo ''========== MINIKUBE & ISTIO SETUP =========='', miniIstio_minikube_check]
     @ miniIstio_cluster_check # post \<and>
     list_all (step_rel (frame {c. \<not> creates_cluster c})) post"
  by (simp add: miniIstio_sh_def miniIstio_report_def check_defs frame_steps)

lemma minikube_check_done:
  assumes "miniIstio_minikube_check w = Done w'"
  shows "command_exists ''minikube'' w'"
  using assms
  by (auto simp: miniIstio_minikube_check_def if_not_def echo_def exec_def Let_def
      command_exists_def split: if_splits)

lemma minikube_check_frame:
  "frame {CurlMinikube, InstallMinikube} w
     (final (run [echo h, miniIstio_minikube_check] w))"
proof -
  have "step_rel (frame {CurlMinikube, InstallMinikube})
          (run [echo h, miniIstio_minikube_check])"
    by (rule frame_run) (simp add: miniIstio_minikube_check_def frame_steps)
  then show ?thesis by (simp add: step_rel_def)
qed

lemma miniIstio_pre:
  assumes "run [echo h, miniIstio_minikube_check] (new_shell w) = Done w1"
  shows "created w1 = []" and "minikube_status w1 = minikube_running w"
proof -
  have f: "frame {CurlMinikube, InstallMinikube} (new_shell w) w1"
    using minikube_check_frame [of "new_shell w" h] assms by simp
  show "created w1 = []" using created_frame [OF f] by simp
  have "minikube_running w1 = minikube_running (new_shell w)"
    by (rule kube_reachable_frame(2) [OF f]) simp_all
  moreover have "command_exists ''minikube'' w1"
    using assms by (auto simp: echo_def intro: minikube_check_done split: outcome.splits)
  ultimately show "minikube_status w1 = minikube_running w"
    by (simp add: minikube_status_def minikube_running_def new_shell_def)
qed

lemma miniIstio_pre_aborted:
  assumes "run [echo h, miniIstio_minikube_check] (new_shell w) = Aborted x"
  shows "created x = []"
proof -
  have f: "frame {CurlMinikube, InstallMinikube} (new_shell w) x"
    using minikube_check_frame [of "new_shell w" h] assms by simp
  show "created x = []" using created_frame [OF f] by simp
qed

lemma miniIstio_cluster_check_created:
  shows "minikube_status w \<Longrightarrow> created (final (miniIstio_cluster_check w)) = created w"
    and "\<not> minikube_status w \<Longrightarrow>
           created (final (miniIstio_cluster_check w)) =
             created w @ [MinikubeStart 4096 2 ''docker'']"
proof -
  show "minikube_status w \<Longrightarrow> created (final (miniIstio_cluster_check w)) = created w"
    by (simp add: miniIstio_cluster_check_def if_not_def echo_def)
  show "\<not> minikube_status w \<Longrightarrow>
           created (final (miniIstio_cluster_check w)) =
             created w @ [MinikubeStart 4096 2 ''docker'']"
    using created_exec [of "MinikubeStart 4096 2 ''docker''"
        "w\<lparr>stdout := stdout w @
            [''Starting Minikube cluster with 4GB RAM and 2 CPUs...'']\<rparr>"]
    by (auto simp: miniIstio_cluster_check_def if_not_def echo_def split: outcome.splits)
qed

lemma miniIstio_created:
  shows "minikube_running w \<Longrightarrow> created (final (miniIstio w)) = []"
    and "created (final (miniIstio w)) = [] \<or>
         created (final (miniIstio w)) = [MinikubeStart 4096 2 ''docker'']"
    and "\<not> minikube_running w \<Longrightarrow> completed (miniIstio w) \<Longrightarrow>
           created (final (miniIstio w)) = [MinikubeStart 4096 2 ''docker'']"
proof -
  let ?pre = "[echo ''========== MINIKUBE & ISTIO SETUP =========='', miniIstio_minikube_check]"
  obtain post where sp: "miniIstio_sh = ?pre @ miniIstio_cluster_check # post"
    and post: "list_all (step_rel (frame {c. \<not> creates_cluster c})) post"
    using miniIstio_sh_split_cluster by blast
  have fin: "created (final (miniIstio w)) =
      (case run ?pre (new_shell w) of
         Aborted x \<Rightarrow> created x
       | Done w1 \<Rightarrow> created (final (miniIstio_cluster_check w1)))"
    unfolding miniIstio_def sp by (rule created_script [OF post])
  have com: "completed (miniIstio w) =
      (case run ?pre (new_shell w) of
         Aborted x \<Rightarrow> False
       | Done w1 \<Rightarrow>
           (case miniIstio_cluster_check w1 of
              Aborted x \<Rightarrow> False
            | Done w2 \<Rightarrow> completed (run post w2)))"
    unfolding miniIstio_def sp by (rule completed_run_split)
  have ab: "created (final (miniIstio w)) = [] \<and> \<not> completed (miniIstio w)"
    if "run ?pre (new_shell w) = Aborted x" for x
    using fin com that miniIstio_pre_aborted [OF that] by (simp del: run.simps)
  have yes: "created (final (miniIstio w)) = []"
    if "run ?pre (new_shell w) = Done w1" and "minikube_running w" for w1
    using fin that miniIstio_pre [OF that(1)] miniIstio_cluster_check_created(1) [of w1]
    by (simp del: run.simps)
  have no: "created (final (miniIstio w)) = [MinikubeStart 4096 2 ''docker'']"
    if "run ?pre (new_shell w) = Done w1" and "\<not> minikube_running w" for w1
    using fin that miniIstio_pre [OF that(1)] miniIstio_cluster_check_created(2) [of w1]
    by (simp del: run.simps)
  show "minikube_running w \<Longrightarrow> created (final (miniIstio w)) = []"
    using ab yes by (cases "run ?pre (new_shell w)") blast+
  show "created (final (miniIstio w)) = [] \<or>
         created (final (miniIstio w)) = [MinikubeStart 4096 2 ''docker'']"
    using ab yes no by (cases "run ?pre (new_shell w)"; cases "minikube_running w") blast+
  show "\<not> minikube_running w \<Longrightarrow> completed (miniIstio w) \<Longrightarrow>
           created (final (miniIstio w)) = [MinikubeStart 4096 2 ''docker'']"
    using ab no by (cases "run ?pre (new_shell w)") blast+
qed

text \<open>A run that completes has just queried its cluster, which is therefore up.\<close>

lemma report_clusters:
  assumes ss: "list_all (step_rel (frame {KubectlGetNodeIP, KubectlGetNodePort, MinikubeIp})) ss"
    and r: "run ss w = Done w'"
  shows "kube_reachable w' = kube_reachable w" and "minikube_running w' = minikube_running w"
proof -
  let ?A = "{KubectlGetNodeIP, KubectlGetNodePort, MinikubeIp}"
  have "frame ?A w (final (run ss w))"
    using frame_run [OF ss] by (simp add: step_rel_def)
  then have f: "frame ?A w w'" by (simp add: r)
  show "kube_reachable w' = kube_reachable w"
    by (rule kube_reachable_frame(1) [OF f]) simp_all
  show "minikube_running w' = minikube_running w"
    by (rule kube_reachable_frame(2) [OF f]) simp_all
qed

lemma run_cons_done:
  "run (s # ss) w = Done w' \<Longrightarrow> \<exists>v. s w = Done v \<and> run ss v = Done w'"
  by (cases "s w") simp_all

lemma assign_done:
  "assign x c w = Done v \<Longrightarrow> \<not> refused c (w\<lparr>trace := trace w @ [c]\<rparr>)"
  by (auto simp: assign_def exec_def Let_def split: if_splits outcome.splits)

lemma report_usable_deployment:
  assumes "run deployment_report w = Done w'"
  shows "kube_reachable w"
proof -
  have "\<exists>rest. deployment_report = assign ''NODE_IP'' KubectlGetNodeIP # rest"
    by (simp add: deployment_report_def)
  then obtain rest where "run (assign ''NODE_IP'' KubectlGetNodeIP # rest) w = Done w'"
    using assms by metis
  then obtain v where "assign ''NODE_IP'' KubectlGetNodeIP w = Done v"
    using run_cons_done by blast
  from assign_done [OF this] show ?thesis by (simp add: kubectl_usable_def kube_reachable_def)
qed

lemma report_running_miniIstio:
  assumes "run miniIstio_report w = Done w'"
  shows "minikube_running w"
proof -
  have "\<exists>rest. miniIstio_report =
          assign ''NODE_PORT'' KubectlGetNodePort # assign ''NODE_IP'' MinikubeIp # rest"
    by (simp add: miniIstio_report_def)
  then obtain rest where
    "run (assign ''NODE_PORT'' KubectlGetNodePort # assign ''NODE_IP'' MinikubeIp # rest) w =
       Done w'"
    using assms by metis
  then obtain v where v: "assign ''NODE_PORT'' KubectlGetNodePort w = Done v"
    and "run (assign ''NODE_IP'' MinikubeIp # rest) v = Done w'"
    using run_cons_done by blast
  then obtain u where "assign ''NODE_IP'' MinikubeIp v = Done u"
    using run_cons_done by blast
  from assign_done [OF this] have "minikube_running v"
    by (simp add: minikube_status_def minikube_running_def)
  moreover have "minikube_running v = minikube_running w"
    by (rule report_clusters(2) [of "[assign ''NODE_PORT'' KubectlGetNodePort]"])
      (simp_all add: frame_steps v)
  ultimately show ?thesis by simp
qed

lemma deployment_completed_reachable:
  assumes "completed (deployment w)"
  shows "kube_reachable (final (deployment w))"
proof -
  obtain pre where sp:
    "deployment_sh = pre @ kubectl_apply deployment_app_docs # deployment_report"
    using deployment_sh_split_app by blast
  have c: "completed (run (pre @ kubectl_apply deployment_app_docs # deployment_report)
             (new_shell w))"
    using assms unfolding deployment_def sp .
  obtain w1 w2 w3 where a: "kubectl_apply deployment_app_docs w1 = Done w2"
    and r: "run deployment_report w2 = Done w3"
    and f: "final (run (pre @ kubectl_apply deployment_app_docs # deployment_report)
              (new_shell w)) = w3"
    using run_split_done [OF c] by blast
  have e: "final (deployment w) = w3"
    using f unfolding deployment_def sp .
  have "kube_reachable w3 = kube_reachable w2"
    by (rule report_clusters(1) [OF _ r]) (simp add: deployment_report_def frame_steps)
  then show ?thesis unfolding e using report_usable_deployment [OF r] by simp
qed

lemma miniIstio_sh_split_report:
  "\<exists>pre. miniIstio_sh = pre @ kubectl_apply miniIstio_route_docs # miniIstio_report"
  by (simp add: miniIstio_sh_def)

lemma miniIstio_completed_running:
  assumes "completed (miniIstio w)"
  shows "minikube_running (final (miniIstio w))"
proof -
  obtain pre where sp:
    "miniIstio_sh = pre @ kubectl_apply miniIstio_route_docs # miniIstio_report"
    using miniIstio_sh_split_report by blast
  have c: "completed (run (pre @ kubectl_apply miniIstio_route_docs # miniIstio_report)
             (new_shell w))"
    using assms unfolding miniIstio_def sp .
  obtain w1 w2 w3 where a: "kubectl_apply miniIstio_route_docs w1 = Done w2"
    and r: "run miniIstio_report w2 = Done w3"
    and f: "final (run (pre @ kubectl_apply miniIstio_route_docs # miniIstio_report)
              (new_shell w)) = w3"
    using run_split_done [OF c] by blast
  have e: "final (miniIstio w) = w3"
    using f unfolding miniIstio_def sp .
  have "minikube_running w3 = minikube_running w2"
    by (rule report_clusters(2) [OF _ r]) (simp add: miniIstio_report_def frame_steps)
  then show ?thesis unfolding e using report_running_miniIstio [OF r] by simp
qed

text \<open>miniIstio.sh on a host whose configured cluster is reachable.\<close>

lemma miniIstio_remote_host:
  "case miniIstio remote_host of
     Done X \<Rightarrow>
       trace X =
         [MinikubeStart 4096 2 ''docker'', MinikubeAddonsEnable ''istio'',
          KubectlWait ''app=istiod'' 180, KubectlWait ''app=istio-ingressgateway'' 180,
          KubectlCreateNamespace ''helix'',
          KubectlLabel ''helix'' ''istio-injection'' None True,
          KubectlApply miniIstio_mongo_docs, KubectlApply miniIstio_app_docs,
          KubectlApply miniIstio_route_docs, KubectlGetNodePort, MinikubeIp] \<and>
       kube_context X = Some ''minikube'' \<and>
       dom (clusters X) = {''minikube'', ''remote''}
   | Aborted X \<Rightarrow> False"
  by (simp add: eval_defs remote_host_def bare_host_def)

text \<open>
  On \<open>remote_host\<close> the configured cluster answers \<^verbatim>\<open>kubectl version\<close>, and still
  miniIstio.sh starts a new cluster, minikube's, and switches the context to it: its
  probe is \<^verbatim>\<open>minikube status\<close>, not the configured cluster.
\<close>

theorem C2_reachable_cluster_ignored:
  "kubectl_version_short remote_host \<and>
   kube_context remote_host = Some ''remote'' \<and>
   completed (miniIstio remote_host) \<and>
   created (final (miniIstio remote_host)) = [MinikubeStart 4096 2 ''docker''] \<and>
   kube_context (final (miniIstio remote_host)) = Some ''minikube'' \<and>
   dom (clusters (final (miniIstio remote_host))) = {''minikube'', ''remote''}"
proof -
  have "kubectl_version_short remote_host" "kube_context remote_host = Some ''remote''"
    by (simp_all add: remote_host_def bare_host_def kubectl_version_short_def
        kubectl_usable_def kube_reachable_def command_exists_def cur_def new_cluster_def)
  then show ?thesis
    using miniIstio_remote_host
    by (cases "miniIstio remote_host") (simp_all add: created_def)
qed

text \<open>
  C2. deployment.sh probes the configured cluster: if it is reachable no cluster is
  created; in every run at most one cluster-creating command is started, and it is
  \<^verbatim>\<open>kind create cluster --name ecommerce-cluster\<close>; a run that completes from an
  unreachable cluster has started exactly that one. miniIstio.sh probes minikube's own
  cluster, whatever cluster is configured: if it runs, no cluster is created; in every
  run at most one cluster-creating command is started, and it is
  \<^verbatim>\<open>minikube start --memory=4096 --cpus=2 --driver=docker\<close> (the default profile); a run
  that completes when minikube was not running has started exactly that one. Running
  either script again after it has completed creates no cluster.
\<close>

theorem C2_cluster_provisioning:
  "(kube_reachable w \<longrightarrow> created (final (deployment w)) = []) \<and>
   (created (final (deployment w)) = [] \<or>
    created (final (deployment w)) = [KindCreateCluster ''ecommerce-cluster'']) \<and>
   (\<not> kube_reachable w \<and> completed (deployment w) \<longrightarrow>
      created (final (deployment w)) = [KindCreateCluster ''ecommerce-cluster'']) \<and>
   (completed (deployment w) \<longrightarrow>
      created (final (deployment (final (deployment w)))) = []) \<and>
   (minikube_running w \<longrightarrow> created (final (miniIstio w)) = []) \<and>
   (created (final (miniIstio w)) = [] \<or>
    created (final (miniIstio w)) = [MinikubeStart 4096 2 ''docker'']) \<and>
   (\<not> minikube_running w \<and> completed (miniIstio w) \<longrightarrow>
      created (final (miniIstio w)) = [MinikubeStart 4096 2 ''docker'']) \<and>
   (completed (miniIstio w) \<longrightarrow>
      created (final (miniIstio (final (miniIstio w)))) = [])"
proof (intro conjI impI)
  show "created (final (deployment w)) = [] \<or>
    created (final (deployment w)) = [KindCreateCluster ''ecommerce-cluster'']"
    by (rule deployment_created(2))
  show "created (final (miniIstio w)) = [] \<or>
    created (final (miniIstio w)) = [MinikubeStart 4096 2 ''docker'']"
    by (rule miniIstio_created(2))
  show "created (final (deployment (final (deployment w)))) = []" if "completed (deployment w)"
    by (rule deployment_created(1) [OF deployment_completed_reachable [OF that]])
  show "created (final (miniIstio (final (miniIstio w)))) = []" if "completed (miniIstio w)"
    by (rule miniIstio_created(1) [OF miniIstio_completed_running [OF that]])
qed (simp_all add: deployment_created miniIstio_created)

theorem C2_cluster_provisioning_witness:
  "kube_reachable (labeled_host None) \<and> created (final (deployment (labeled_host None))) = [] \<and>
   \<not> kube_reachable bare_host \<and> completed (deployment bare_host) \<and>
   created (final (deployment bare_host)) = [KindCreateCluster ''ecommerce-cluster''] \<and>
   created (final (deployment (final (deployment bare_host)))) = [] \<and>
   minikube_running (labeled_host None) \<and>
   created (final (miniIstio (labeled_host None))) = [] \<and>
   \<not> minikube_running kubectl_host \<and> completed (miniIstio kubectl_host) \<and>
   created (final (miniIstio kubectl_host)) = [MinikubeStart 4096 2 ''docker''] \<and>
   created (final (miniIstio (final (miniIstio kubectl_host)))) = []"
proof -
  have d: "completed (deployment bare_host)"
    using deployment_bare_host by (cases "deployment bare_host") simp_all
  have m: "completed (miniIstio kubectl_host)"
    using miniIstio_kubectl_host by (cases "miniIstio kubectl_host") simp_all
  have h: "kube_reachable (labeled_host None)" "minikube_running (labeled_host None)"
    "\<not> kube_reachable bare_host" "\<not> minikube_running kubectl_host"
    by (simp_all add: labeled_host_def kubectl_host_def bare_host_def kube_reachable_def
        minikube_running_def cur_def new_cluster_def)
  have 1: "created (final (deployment (labeled_host None))) = []"
    and 2: "created (final (miniIstio (labeled_host None))) = []"
    using C2_cluster_provisioning [of "labeled_host None"] h(1,2) by simp_all
  have 3: "created (final (deployment bare_host)) = [KindCreateCluster ''ecommerce-cluster'']"
    and 4: "created (final (deployment (final (deployment bare_host)))) = []"
    using C2_cluster_provisioning [of bare_host] h(3) d by simp_all
  have 5: "created (final (miniIstio kubectl_host)) = [MinikubeStart 4096 2 ''docker'']"
    and 6: "created (final (miniIstio (final (miniIstio kubectl_host)))) = []"
    using C2_cluster_provisioning [of kubectl_host] h(4) m by simp_all
  show ?thesis
    by (intro conjI) (fact d m h 1 2 3 4 5 6)+
qed

end
